theory Spec2Isabelle
  imports Main "HOL-Library.Word" "HOL-Library.Monad_Syntax"
begin

unbundle bit_operations_syntax

section \<open>Packed byte buffer\<close>

type_synonym u8 = "8 word"
type_synonym u16 = "16 word"
type_synonym u32 = "32 word"

text \<open>
  Every frame class of \<^verbatim>\<open>bulkStructs.h\<close> derives from \<^verbatim>\<open>DataArray<uint8_t>\<close> and
  reads and writes \<^verbatim>\<open>this->array[i]\<close> at constant indices. A frame is the list of its
  bytes; \<^verbatim>\<open>array[i] = v\<close> is \<open>a[i := v]\<close> and \<^verbatim>\<open>array[i]\<close> is \<open>a ! i\<close>. Frames
  are only ever made by the constructors below, so every index the accessors use lies
  inside the array the constructor allocated.
\<close>

type_synonym frame = "u8 list"

text \<open>
  Modelled from the spec: \<^verbatim>\<open>utils/dataarray.h\<close> (class \<^verbatim>\<open>DataArray\<close>) is not part of
  the sources at hand. The spec describes it as a container whose length is fixed at
  construction, with zero-filled storage of size N and a size query.
\<close>

definition DataArray :: "nat \<Rightarrow> frame" where
  "DataArray n = replicate n 0"

definition getSize :: "frame \<Rightarrow> nat" where
  "getSize a = length a"

subsection \<open>Bit-fields overlaid on one byte\<close>

text \<open>
  Modelled from the spec: the bit-field structs \<^verbatim>\<open>FilterBits\<close>, \<^verbatim>\<open>GainBits\<close>,
  \<^verbatim>\<open>Tsr1Bits\<close>, \<^verbatim>\<open>Tsr2Bits\<close>, \<^verbatim>\<open>CTriggerBits\<close>, \<^verbatim>\<open>DBufferBits\<close>,
  \<^verbatim>\<open>ESamplerateBits\<close> and \<^verbatim>\<open>ETsrBits\<close> are declared in \<^verbatim>\<open>definitions.h\<close>, which is
  not part of the sources at hand. The spec says each of them is overlaid on a single
  byte of the frame and leaves most member widths open. A member is therefore described
  by its position (index of its lowest bit in the byte) and its width, and the table
  that gives both for every member is a parameter of each accessor.

  Reading a member yields its bits, zero-extended; assigning a \<^verbatim>\<open>uint8_t\<close> to a member
  keeps the low \<open>width\<close> bits of the value and leaves the other bits of the byte alone.
\<close>

record bitfield =
  bf_pos :: nat
  bf_width :: nat

datatype bits =
    FilterBits_channel1 | FilterBits_channel2 | FilterBits_trigger
  | GainBits_channel1 | GainBits_channel2
  | Tsr1Bits_triggerSource | Tsr1Bits_recordLength | Tsr1Bits_samplerateId
  | Tsr1Bits_downsamplingMode
  | Tsr2Bits_usedChannels | Tsr2Bits_fastRate | Tsr2Bits_triggerSlope
  | CTriggerBits_triggerSource | CTriggerBits_triggerSlope
  | DBufferBits_triggerPositionUsed | DBufferBits_recordLength
  | ESamplerateBits_fastRate | ESamplerateBits_downsampling
  | ETsrBits_fastRate | ETsrBits_usedChannels | ETsrBits_triggerSource
  | ETsrBits_triggerSlope | ETsrBits_triggerPulse

type_synonym layout = "bits \<Rightarrow> bitfield"

definition bf_read :: "bitfield \<Rightarrow> u8 \<Rightarrow> u8" where
  "bf_read f b = take_bit (bf_width f) (drop_bit (bf_pos f) b)"

definition bf_write :: "bitfield \<Rightarrow> u8 \<Rightarrow> u8 \<Rightarrow> u8" where
  "bf_write f v b =
     (b AND NOT (push_bit (bf_pos f) (mask (bf_width f))))
       OR push_bit (bf_pos f) (take_bit (bf_width f) v)"

text \<open>A member lies inside its byte.\<close>

definition bf_ok :: "bitfield \<Rightarrow> bool" where
  "bf_ok f = (bf_pos f + bf_width f \<le> 8)"

text \<open>\<^verbatim>\<open>((XBits *)&(this->array[off]))->member\<close>, read and assigned.\<close>

definition peek :: "layout \<Rightarrow> bits \<Rightarrow> nat \<Rightarrow> frame \<Rightarrow> u8" where
  "peek L m off a = bf_read (L m) (a ! off)"

definition poke :: "layout \<Rightarrow> bits \<Rightarrow> nat \<Rightarrow> u8 \<Rightarrow> frame \<Rightarrow> frame" where
  "poke L m off v a = a[off := bf_write (L m) v (a ! off)]"

section \<open>Bulk command codes (bulkcode.h)\<close>

datatype BulkCode =
    BULK_SETFILTER | BULK_SETTRIGGERANDSAMPLERATE | BULK_FORCETRIGGER | BULK_STARTSAMPLING
  | BULK_ENABLETRIGGER | BULK_GETDATA | BULK_GETCAPTURESTATE | BULK_SETGAIN
  | BULK_SETLOGICALDATA | BULK_GETLOGICALDATA | BULK_AUNKNOWN | BULK_BSETCHANNELS
  | BULK_CSETTRIGGERORSAMPLERATE | BULK_DSETBUFFER | BULK_ESETTRIGGERORSAMPLERATE
  | BULK_FSETBUFFER

text \<open>The enumerators carry no initialiser: they count from 0 in declaration order.\<close>

fun BulkCode_value :: "BulkCode \<Rightarrow> u8" where
  "BulkCode_value BULK_SETFILTER = 0x00"
| "BulkCode_value BULK_SETTRIGGERANDSAMPLERATE = 0x01"
| "BulkCode_value BULK_FORCETRIGGER = 0x02"
| "BulkCode_value BULK_STARTSAMPLING = 0x03"
| "BulkCode_value BULK_ENABLETRIGGER = 0x04"
| "BulkCode_value BULK_GETDATA = 0x05"
| "BulkCode_value BULK_GETCAPTURESTATE = 0x06"
| "BulkCode_value BULK_SETGAIN = 0x07"
| "BulkCode_value BULK_SETLOGICALDATA = 0x08"
| "BulkCode_value BULK_GETLOGICALDATA = 0x09"
| "BulkCode_value BULK_AUNKNOWN = 0x0a"
| "BulkCode_value BULK_BSETCHANNELS = 0x0b"
| "BulkCode_value BULK_CSETTRIGGERORSAMPLERATE = 0x0c"
| "BulkCode_value BULK_DSETBUFFER = 0x0d"
| "BulkCode_value BULK_ESETTRIGGERORSAMPLERATE = 0x0e"
| "BulkCode_value BULK_FSETBUFFER = 0x0f"

section \<open>Wire frames (bulkStructs.cpp)\<close>

subsection \<open>BulkSetFilter\<close>

definition BulkSetFilter_init :: "frame \<Rightarrow> frame" where
  "BulkSetFilter_init a = a[0 := BulkCode_value BULK_SETFILTER, 1 := 0x0f]"

definition BulkSetFilter_default :: frame where
  "BulkSetFilter_default = BulkSetFilter_init (DataArray 8)"

definition BulkSetFilter_getChannel :: "layout \<Rightarrow> nat \<Rightarrow> frame \<Rightarrow> bool" where
  "BulkSetFilter_getChannel L channel a =
     (if channel = 0 then peek L FilterBits_channel1 2 a = 1
      else peek L FilterBits_channel2 2 a = 1)"

definition BulkSetFilter_setChannel :: "layout \<Rightarrow> nat \<Rightarrow> bool \<Rightarrow> frame \<Rightarrow> frame" where
  "BulkSetFilter_setChannel L channel filtered a =
     (if channel = 0 then poke L FilterBits_channel1 2 (if filtered then 1 else 0) a
      else poke L FilterBits_channel2 2 (if filtered then 1 else 0) a)"

definition BulkSetFilter_getTrigger :: "layout \<Rightarrow> frame \<Rightarrow> bool" where
  "BulkSetFilter_getTrigger L a = (peek L FilterBits_trigger 2 a = 1)"

definition BulkSetFilter_setTrigger :: "layout \<Rightarrow> bool \<Rightarrow> frame \<Rightarrow> frame" where
  "BulkSetFilter_setTrigger L filtered a =
     poke L FilterBits_trigger 2 (if filtered then 1 else 0) a"

definition BulkSetFilter_ctor :: "layout \<Rightarrow> bool \<Rightarrow> bool \<Rightarrow> bool \<Rightarrow> frame" where
  "BulkSetFilter_ctor L channel1 channel2 trigger =
     BulkSetFilter_setTrigger L trigger
       (BulkSetFilter_setChannel L 1 channel2
         (BulkSetFilter_setChannel L 0 channel1
           (BulkSetFilter_init (DataArray 8))))"

subsection \<open>BulkSetTriggerAndSamplerate\<close>

definition BulkSetTriggerAndSamplerate_init :: "frame \<Rightarrow> frame" where
  "BulkSetTriggerAndSamplerate_init a = a[0 := BulkCode_value BULK_SETTRIGGERANDSAMPLERATE]"

definition BulkSetTriggerAndSamplerate_default :: frame where
  "BulkSetTriggerAndSamplerate_default = BulkSetTriggerAndSamplerate_init (DataArray 12)"

definition BulkSetTriggerAndSamplerate_getTriggerSource :: "layout \<Rightarrow> frame \<Rightarrow> u8" where
  "BulkSetTriggerAndSamplerate_getTriggerSource L a = peek L Tsr1Bits_triggerSource 2 a"

definition BulkSetTriggerAndSamplerate_setTriggerSource :: "layout \<Rightarrow> u8 \<Rightarrow> frame \<Rightarrow> frame" where
  "BulkSetTriggerAndSamplerate_setTriggerSource L v a = poke L Tsr1Bits_triggerSource 2 v a"

definition BulkSetTriggerAndSamplerate_getRecordLength :: "layout \<Rightarrow> frame \<Rightarrow> u8" where
  "BulkSetTriggerAndSamplerate_getRecordLength L a = peek L Tsr1Bits_recordLength 2 a"

definition BulkSetTriggerAndSamplerate_setRecordLength :: "layout \<Rightarrow> u8 \<Rightarrow> frame \<Rightarrow> frame" where
  "BulkSetTriggerAndSamplerate_setRecordLength L v a = poke L Tsr1Bits_recordLength 2 v a"

definition BulkSetTriggerAndSamplerate_getSamplerateId :: "layout \<Rightarrow> frame \<Rightarrow> u8" where
  "BulkSetTriggerAndSamplerate_getSamplerateId L a = peek L Tsr1Bits_samplerateId 2 a"

definition BulkSetTriggerAndSamplerate_setSamplerateId :: "layout \<Rightarrow> u8 \<Rightarrow> frame \<Rightarrow> frame" where
  "BulkSetTriggerAndSamplerate_setSamplerateId L v a = poke L Tsr1Bits_samplerateId 2 v a"

definition BulkSetTriggerAndSamplerate_getDownsamplingMode :: "layout \<Rightarrow> frame \<Rightarrow> bool" where
  "BulkSetTriggerAndSamplerate_getDownsamplingMode L a =
     (peek L Tsr1Bits_downsamplingMode 2 a = 1)"

definition BulkSetTriggerAndSamplerate_setDownsamplingMode :: "layout \<Rightarrow> bool \<Rightarrow> frame \<Rightarrow> frame" where
  "BulkSetTriggerAndSamplerate_setDownsamplingMode L downsampling a =
     poke L Tsr1Bits_downsamplingMode 2 (if downsampling then 1 else 0) a"

definition BulkSetTriggerAndSamplerate_getUsedChannels :: "layout \<Rightarrow> frame \<Rightarrow> u8" where
  "BulkSetTriggerAndSamplerate_getUsedChannels L a = peek L Tsr2Bits_usedChannels 3 a"

definition BulkSetTriggerAndSamplerate_setUsedChannels :: "layout \<Rightarrow> u8 \<Rightarrow> frame \<Rightarrow> frame" where
  "BulkSetTriggerAndSamplerate_setUsedChannels L v a = poke L Tsr2Bits_usedChannels 3 v a"

definition BulkSetTriggerAndSamplerate_getFastRate :: "layout \<Rightarrow> frame \<Rightarrow> bool" where
  "BulkSetTriggerAndSamplerate_getFastRate L a = (peek L Tsr2Bits_fastRate 3 a = 1)"

definition BulkSetTriggerAndSamplerate_setFastRate :: "layout \<Rightarrow> bool \<Rightarrow> frame \<Rightarrow> frame" where
  "BulkSetTriggerAndSamplerate_setFastRate L fastRate a =
     poke L Tsr2Bits_fastRate 3 (if fastRate then 1 else 0) a"

definition BulkSetTriggerAndSamplerate_getTriggerSlope :: "layout \<Rightarrow> frame \<Rightarrow> u8" where
  "BulkSetTriggerAndSamplerate_getTriggerSlope L a = peek L Tsr2Bits_triggerSlope 3 a"

definition BulkSetTriggerAndSamplerate_setTriggerSlope :: "layout \<Rightarrow> u8 \<Rightarrow> frame \<Rightarrow> frame" where
  "BulkSetTriggerAndSamplerate_setTriggerSlope L slope a = poke L Tsr2Bits_triggerSlope 3 slope a"

text \<open>
  In \<^verbatim>\<open>(uint16_t)array[4] | ((uint16_t)array[5] << 8)\<close> both operands are promoted to
  the 32-bit \<^verbatim>\<open>int\<close> before the shift and the or; the result is converted to the return
  type. None of the shifts below reaches the sign bit, so the 32-bit word carries the
  same bits as the \<^verbatim>\<open>int\<close>.
\<close>

definition BulkSetTriggerAndSamplerate_getDownsampler :: "frame \<Rightarrow> u16" where
  "BulkSetTriggerAndSamplerate_getDownsampler a =
     ucast ((ucast (ucast (a ! 4) :: u16) :: u32)
            OR push_bit 8 (ucast (ucast (a ! 5) :: u16) :: u32))"

definition BulkSetTriggerAndSamplerate_setDownsampler :: "u16 \<Rightarrow> frame \<Rightarrow> frame" where
  "BulkSetTriggerAndSamplerate_setDownsampler downsampler a =
     a[4 := ucast downsampler, 5 := ucast (drop_bit 8 downsampler)]"

definition BulkSetTriggerAndSamplerate_getTriggerPosition :: "frame \<Rightarrow> u32" where
  "BulkSetTriggerAndSamplerate_getTriggerPosition a =
     (ucast (a ! 6) :: u32) OR push_bit 8 (ucast (a ! 7) :: u32)
       OR push_bit 16 (ucast (a ! 10) :: u32)"

definition BulkSetTriggerAndSamplerate_setTriggerPosition :: "u32 \<Rightarrow> frame \<Rightarrow> frame" where
  "BulkSetTriggerAndSamplerate_setTriggerPosition position a =
     a[6 := ucast position, 7 := ucast (drop_bit 8 position),
       10 := ucast (drop_bit 16 position)]"

definition BulkSetTriggerAndSamplerate_ctor ::
  "layout \<Rightarrow> u16 \<Rightarrow> u32 \<Rightarrow> u8 \<Rightarrow> u8 \<Rightarrow> u8 \<Rightarrow> bool \<Rightarrow> u8 \<Rightarrow> bool \<Rightarrow> u8 \<Rightarrow> frame" where
  "BulkSetTriggerAndSamplerate_ctor L downsampler triggerPosition triggerSource recordLength
       samplerateId downsamplingMode usedChannels fastRate triggerSlope =
     BulkSetTriggerAndSamplerate_setTriggerPosition triggerPosition
      (BulkSetTriggerAndSamplerate_setDownsampler downsampler
       (BulkSetTriggerAndSamplerate_setTriggerSlope L triggerSlope
        (BulkSetTriggerAndSamplerate_setFastRate L fastRate
         (BulkSetTriggerAndSamplerate_setUsedChannels L usedChannels
          (BulkSetTriggerAndSamplerate_setDownsamplingMode L downsamplingMode
           (BulkSetTriggerAndSamplerate_setSamplerateId L samplerateId
            (BulkSetTriggerAndSamplerate_setRecordLength L recordLength
             (BulkSetTriggerAndSamplerate_setTriggerSource L triggerSource
              (BulkSetTriggerAndSamplerate_init (DataArray 12))))))))))"

subsection \<open>The two-byte command frames\<close>

definition BulkForceTrigger :: frame where
  "BulkForceTrigger = (DataArray 2)[0 := BulkCode_value BULK_FORCETRIGGER]"

definition BulkCaptureStart :: frame where
  "BulkCaptureStart = (DataArray 2)[0 := BulkCode_value BULK_STARTSAMPLING]"

definition BulkTriggerEnabled :: frame where
  "BulkTriggerEnabled = (DataArray 2)[0 := BulkCode_value BULK_ENABLETRIGGER]"

definition BulkGetData :: frame where
  "BulkGetData = (DataArray 2)[0 := BulkCode_value BULK_GETDATA]"

definition BulkGetCaptureState :: frame where
  "BulkGetCaptureState = (DataArray 2)[0 := BulkCode_value BULK_GETCAPTURESTATE]"

definition BulkGetLogicalData :: frame where
  "BulkGetLogicalData = (DataArray 2)[0 := BulkCode_value BULK_GETLOGICALDATA]"

subsection \<open>BulkResponseGetCaptureState\<close>

text \<open>
  \<^verbatim>\<open>return (CaptureState)this->array[0];\<close> The enumeration \<^verbatim>\<open>CaptureState\<close> is declared in
  \<^verbatim>\<open>states.h\<close>, which is not part of the sources at hand, so neither the names nor the
  values of its enumerators are known here. The cast keeps the value of the byte, and
  the getter is modelled by that value: the integer value of the enumeration object it
  returns.
\<close>

definition BulkResponseGetCaptureState_default :: frame where
  "BulkResponseGetCaptureState_default = DataArray 512"

definition BulkResponseGetCaptureState_getCaptureState :: "frame \<Rightarrow> int" where
  "BulkResponseGetCaptureState_getCaptureState a = uint (a ! 0)"

text \<open>
  \<^verbatim>\<open>this->array[2] | (this->array[3] << 8) | (this->array[1] << 16)\<close>: the bytes are
  promoted to \<^verbatim>\<open>int\<close>, the result is converted to \<^verbatim>\<open>unsigned int\<close>.
\<close>

definition BulkResponseGetCaptureState_getTriggerPoint :: "frame \<Rightarrow> u32" where
  "BulkResponseGetCaptureState_getTriggerPoint a =
     (ucast (a ! 2) :: u32) OR push_bit 8 (ucast (a ! 3) :: u32)
       OR push_bit 16 (ucast (a ! 1) :: u32)"

subsection \<open>BulkSetGain\<close>

definition BulkSetGain_init :: "frame \<Rightarrow> frame" where
  "BulkSetGain_init a = a[0 := BulkCode_value BULK_SETGAIN]"

definition BulkSetGain_default :: frame where
  "BulkSetGain_default = BulkSetGain_init (DataArray 8)"

definition BulkSetGain_getGain :: "layout \<Rightarrow> nat \<Rightarrow> frame \<Rightarrow> u8" where
  "BulkSetGain_getGain L channel a =
     (if channel = 0 then peek L GainBits_channel1 2 a else peek L GainBits_channel2 2 a)"

definition BulkSetGain_setGain :: "layout \<Rightarrow> nat \<Rightarrow> u8 \<Rightarrow> frame \<Rightarrow> frame" where
  "BulkSetGain_setGain L channel v a =
     (if channel = 0 then poke L GainBits_channel1 2 v a else poke L GainBits_channel2 2 v a)"

definition BulkSetGain_ctor :: "layout \<Rightarrow> u8 \<Rightarrow> u8 \<Rightarrow> frame" where
  "BulkSetGain_ctor L channel1 channel2 =
     BulkSetGain_setGain L 1 channel2
       (BulkSetGain_setGain L 0 channel1 (BulkSetGain_init (DataArray 8)))"

subsection \<open>BulkSetLogicalData\<close>

definition BulkSetLogicalData_init :: "frame \<Rightarrow> frame" where
  "BulkSetLogicalData_init a = a[0 := BulkCode_value BULK_SETLOGICALDATA]"

definition BulkSetLogicalData_default :: frame where
  "BulkSetLogicalData_default = BulkSetLogicalData_init (DataArray 8)"

definition BulkSetLogicalData_getData :: "frame \<Rightarrow> u8" where
  "BulkSetLogicalData_getData a = a ! 2"

definition BulkSetLogicalData_setData :: "u8 \<Rightarrow> frame \<Rightarrow> frame" where
  "BulkSetLogicalData_setData d a = a[2 := d]"

definition BulkSetLogicalData_ctor :: "u8 \<Rightarrow> frame" where
  "BulkSetLogicalData_ctor d = BulkSetLogicalData_setData d (BulkSetLogicalData_init (DataArray 8))"

subsection \<open>BulkSetChannels2250\<close>

definition BulkSetChannels2250_init :: "frame \<Rightarrow> frame" where
  "BulkSetChannels2250_init a = a[0 := BulkCode_value BULK_BSETCHANNELS]"

definition BulkSetChannels2250_default :: frame where
  "BulkSetChannels2250_default = BulkSetChannels2250_init (DataArray 4)"

definition BulkSetChannels2250_getUsedChannels :: "frame \<Rightarrow> u8" where
  "BulkSetChannels2250_getUsedChannels a = a ! 2"

definition BulkSetChannels2250_setUsedChannels :: "u8 \<Rightarrow> frame \<Rightarrow> frame" where
  "BulkSetChannels2250_setUsedChannels v a = a[2 := v]"

definition BulkSetChannels2250_ctor :: "u8 \<Rightarrow> frame" where
  "BulkSetChannels2250_ctor usedChannels =
     BulkSetChannels2250_setUsedChannels usedChannels (BulkSetChannels2250_init (DataArray 4))"

subsection \<open>BulkSetTrigger2250\<close>

definition BulkSetTrigger2250_init :: "frame \<Rightarrow> frame" where
  "BulkSetTrigger2250_init a = a[0 := BulkCode_value BULK_CSETTRIGGERORSAMPLERATE]"

definition BulkSetTrigger2250_default :: frame where
  "BulkSetTrigger2250_default = BulkSetTrigger2250_init (DataArray 8)"

definition BulkSetTrigger2250_getTriggerSource :: "layout \<Rightarrow> frame \<Rightarrow> u8" where
  "BulkSetTrigger2250_getTriggerSource L a = peek L CTriggerBits_triggerSource 2 a"

definition BulkSetTrigger2250_setTriggerSource :: "layout \<Rightarrow> u8 \<Rightarrow> frame \<Rightarrow> frame" where
  "BulkSetTrigger2250_setTriggerSource L v a = poke L CTriggerBits_triggerSource 2 v a"

definition BulkSetTrigger2250_getTriggerSlope :: "layout \<Rightarrow> frame \<Rightarrow> u8" where
  "BulkSetTrigger2250_getTriggerSlope L a = peek L CTriggerBits_triggerSlope 2 a"

definition BulkSetTrigger2250_setTriggerSlope :: "layout \<Rightarrow> u8 \<Rightarrow> frame \<Rightarrow> frame" where
  "BulkSetTrigger2250_setTriggerSlope L slope a = poke L CTriggerBits_triggerSlope 2 slope a"

definition BulkSetTrigger2250_ctor :: "layout \<Rightarrow> u8 \<Rightarrow> u8 \<Rightarrow> frame" where
  "BulkSetTrigger2250_ctor L triggerSource triggerSlope =
     BulkSetTrigger2250_setTriggerSlope L triggerSlope
       (BulkSetTrigger2250_setTriggerSource L triggerSource
         (BulkSetTrigger2250_init (DataArray 8)))"

subsection \<open>BulkSetSamplerate5200\<close>

definition BulkSetSamplerate5200_init :: "frame \<Rightarrow> frame" where
  "BulkSetSamplerate5200_init a = a[0 := BulkCode_value BULK_CSETTRIGGERORSAMPLERATE]"

definition BulkSetSamplerate5200_default :: frame where
  "BulkSetSamplerate5200_default = BulkSetSamplerate5200_init (DataArray 6)"

definition BulkSetSamplerate5200_getSamplerateFast :: "frame \<Rightarrow> u8" where
  "BulkSetSamplerate5200_getSamplerateFast a = a ! 4"

definition BulkSetSamplerate5200_setSamplerateFast :: "u8 \<Rightarrow> frame \<Rightarrow> frame" where
  "BulkSetSamplerate5200_setSamplerateFast v a = a[4 := v]"

definition BulkSetSamplerate5200_getSamplerateSlow :: "frame \<Rightarrow> u16" where
  "BulkSetSamplerate5200_getSamplerateSlow a =
     ucast ((ucast (ucast (a ! 2) :: u16) :: u32)
            OR push_bit 8 (ucast (ucast (a ! 3) :: u16) :: u32))"

definition BulkSetSamplerate5200_setSamplerateSlow :: "u16 \<Rightarrow> frame \<Rightarrow> frame" where
  "BulkSetSamplerate5200_setSamplerateSlow samplerate a =
     a[2 := ucast samplerate, 3 := ucast (drop_bit 8 samplerate)]"

definition BulkSetSamplerate5200_ctor :: "u16 \<Rightarrow> u8 \<Rightarrow> frame" where
  "BulkSetSamplerate5200_ctor samplerateSlow samplerateFast =
     BulkSetSamplerate5200_setSamplerateSlow samplerateSlow
       (BulkSetSamplerate5200_setSamplerateFast samplerateFast
         (BulkSetSamplerate5200_init (DataArray 6)))"

subsection \<open>BulkSetRecordLength2250\<close>

definition BulkSetRecordLength2250_init :: "frame \<Rightarrow> frame" where
  "BulkSetRecordLength2250_init a = a[0 := BulkCode_value BULK_DSETBUFFER]"

definition BulkSetRecordLength2250_default :: frame where
  "BulkSetRecordLength2250_default = BulkSetRecordLength2250_init (DataArray 4)"

definition BulkSetRecordLength2250_getRecordLength :: "frame \<Rightarrow> u8" where
  "BulkSetRecordLength2250_getRecordLength a = a ! 2"

definition BulkSetRecordLength2250_setRecordLength :: "u8 \<Rightarrow> frame \<Rightarrow> frame" where
  "BulkSetRecordLength2250_setRecordLength v a = a[2 := v]"

definition BulkSetRecordLength2250_ctor :: "u8 \<Rightarrow> frame" where
  "BulkSetRecordLength2250_ctor recordLength =
     BulkSetRecordLength2250_setRecordLength recordLength
       (BulkSetRecordLength2250_init (DataArray 4))"

subsection \<open>BulkSetBuffer5200\<close>

text \<open>
  Modelled from the spec: \<^verbatim>\<open>enum DTriggerPositionUsed\<close> is declared in
  \<^verbatim>\<open>definitions.h\<close>, which is not part of the sources at hand. Both setters that take
  it start with the cast \<^verbatim>\<open>(uint8_t) value\<close>, and the getter casts the member back, so
  an enumerator is represented by that byte.
\<close>

type_synonym DTriggerPositionUsed = u8

definition BulkSetBuffer5200_init :: "frame \<Rightarrow> frame" where
  "BulkSetBuffer5200_init a = a[0 := BulkCode_value BULK_DSETBUFFER, 5 := 0xff, 9 := 0xff]"

definition BulkSetBuffer5200_default :: frame where
  "BulkSetBuffer5200_default = BulkSetBuffer5200_init (DataArray 10)"

definition BulkSetBuffer5200_getTriggerPositionPre :: "frame \<Rightarrow> u16" where
  "BulkSetBuffer5200_getTriggerPositionPre a =
     ucast ((ucast (ucast (a ! 2) :: u16) :: u32)
            OR push_bit 8 (ucast (ucast (a ! 3) :: u16) :: u32))"

definition BulkSetBuffer5200_setTriggerPositionPre :: "u16 \<Rightarrow> frame \<Rightarrow> frame" where
  "BulkSetBuffer5200_setTriggerPositionPre position a =
     a[2 := ucast position, 3 := ucast (drop_bit 8 position)]"

definition BulkSetBuffer5200_getTriggerPositionPost :: "frame \<Rightarrow> u16" where
  "BulkSetBuffer5200_getTriggerPositionPost a =
     ucast ((ucast (ucast (a ! 6) :: u16) :: u32)
            OR push_bit 8 (ucast (ucast (a ! 7) :: u16) :: u32))"

definition BulkSetBuffer5200_setTriggerPositionPost :: "u16 \<Rightarrow> frame \<Rightarrow> frame" where
  "BulkSetBuffer5200_setTriggerPositionPost position a =
     a[6 := ucast position, 7 := ucast (drop_bit 8 position)]"

definition BulkSetBuffer5200_getUsedPre :: "frame \<Rightarrow> u8" where
  "BulkSetBuffer5200_getUsedPre a = a ! 4"

definition BulkSetBuffer5200_setUsedPre :: "DTriggerPositionUsed \<Rightarrow> frame \<Rightarrow> frame" where
  "BulkSetBuffer5200_setUsedPre v a = a[4 := v]"

definition BulkSetBuffer5200_getUsedPost :: "layout \<Rightarrow> frame \<Rightarrow> DTriggerPositionUsed" where
  "BulkSetBuffer5200_getUsedPost L a = peek L DBufferBits_triggerPositionUsed 8 a"

definition BulkSetBuffer5200_setUsedPost :: "layout \<Rightarrow> DTriggerPositionUsed \<Rightarrow> frame \<Rightarrow> frame" where
  "BulkSetBuffer5200_setUsedPost L v a = poke L DBufferBits_triggerPositionUsed 8 v a"

definition BulkSetBuffer5200_getRecordLength :: "layout \<Rightarrow> frame \<Rightarrow> u8" where
  "BulkSetBuffer5200_getRecordLength L a = peek L DBufferBits_recordLength 8 a"

definition BulkSetBuffer5200_setRecordLength :: "layout \<Rightarrow> u8 \<Rightarrow> frame \<Rightarrow> frame" where
  "BulkSetBuffer5200_setRecordLength L v a = poke L DBufferBits_recordLength 8 v a"

definition BulkSetBuffer5200_ctor ::
  "layout \<Rightarrow> u16 \<Rightarrow> u16 \<Rightarrow> DTriggerPositionUsed \<Rightarrow> DTriggerPositionUsed \<Rightarrow> u8 \<Rightarrow> frame" where
  "BulkSetBuffer5200_ctor L triggerPositionPre triggerPositionPost usedPre usedPost recordLength =
     BulkSetBuffer5200_setRecordLength L recordLength
      (BulkSetBuffer5200_setUsedPost L usedPost
       (BulkSetBuffer5200_setUsedPre usedPre
        (BulkSetBuffer5200_setTriggerPositionPost triggerPositionPost
         (BulkSetBuffer5200_setTriggerPositionPre triggerPositionPre
          (BulkSetBuffer5200_init (DataArray 10))))))"

subsection \<open>BulkSetSamplerate2250\<close>

definition BulkSetSamplerate2250_init :: "frame \<Rightarrow> frame" where
  "BulkSetSamplerate2250_init a = a[0 := BulkCode_value BULK_ESETTRIGGERORSAMPLERATE]"

definition BulkSetSamplerate2250_default :: frame where
  "BulkSetSamplerate2250_default = BulkSetSamplerate2250_init (DataArray 8)"

definition BulkSetSamplerate2250_getFastRate :: "layout \<Rightarrow> frame \<Rightarrow> bool" where
  "BulkSetSamplerate2250_getFastRate L a = (peek L ESamplerateBits_fastRate 2 a = 1)"

definition BulkSetSamplerate2250_setFastRate :: "layout \<Rightarrow> bool \<Rightarrow> frame \<Rightarrow> frame" where
  "BulkSetSamplerate2250_setFastRate L fastRate a =
     poke L ESamplerateBits_fastRate 2 (if fastRate then 1 else 0) a"

definition BulkSetSamplerate2250_getDownsampling :: "layout \<Rightarrow> frame \<Rightarrow> bool" where
  "BulkSetSamplerate2250_getDownsampling L a = (peek L ESamplerateBits_downsampling 2 a = 1)"

definition BulkSetSamplerate2250_setDownsampling :: "layout \<Rightarrow> bool \<Rightarrow> frame \<Rightarrow> frame" where
  "BulkSetSamplerate2250_setDownsampling L downsampling a =
     poke L ESamplerateBits_downsampling 2 (if downsampling then 1 else 0) a"

definition BulkSetSamplerate2250_getSamplerate :: "frame \<Rightarrow> u16" where
  "BulkSetSamplerate2250_getSamplerate a =
     ucast ((ucast (ucast (a ! 4) :: u16) :: u32)
            OR push_bit 8 (ucast (ucast (a ! 5) :: u16) :: u32))"

definition BulkSetSamplerate2250_setSamplerate :: "u16 \<Rightarrow> frame \<Rightarrow> frame" where
  "BulkSetSamplerate2250_setSamplerate samplerate a =
     a[4 := ucast samplerate, 5 := ucast (drop_bit 8 samplerate)]"

definition BulkSetSamplerate2250_ctor :: "layout \<Rightarrow> bool \<Rightarrow> bool \<Rightarrow> u16 \<Rightarrow> frame" where
  "BulkSetSamplerate2250_ctor L fastRate downsampling samplerate =
     BulkSetSamplerate2250_setSamplerate samplerate
      (BulkSetSamplerate2250_setDownsampling L downsampling
       (BulkSetSamplerate2250_setFastRate L fastRate
        (BulkSetSamplerate2250_init (DataArray 8))))"

subsection \<open>BulkSetTrigger5200\<close>

definition BulkSetTrigger5200_init :: "frame \<Rightarrow> frame" where
  "BulkSetTrigger5200_init a = a[0 := BulkCode_value BULK_ESETTRIGGERORSAMPLERATE, 4 := 0x02]"

definition BulkSetTrigger5200_default :: frame where
  "BulkSetTrigger5200_default = BulkSetTrigger5200_init (DataArray 8)"

definition BulkSetTrigger5200_getTriggerSource :: "layout \<Rightarrow> frame \<Rightarrow> u8" where
  "BulkSetTrigger5200_getTriggerSource L a = peek L ETsrBits_triggerSource 2 a"

definition BulkSetTrigger5200_setTriggerSource :: "layout \<Rightarrow> u8 \<Rightarrow> frame \<Rightarrow> frame" where
  "BulkSetTrigger5200_setTriggerSource L v a = poke L ETsrBits_triggerSource 2 v a"

definition BulkSetTrigger5200_getUsedChannels :: "layout \<Rightarrow> frame \<Rightarrow> u8" where
  "BulkSetTrigger5200_getUsedChannels L a = peek L ETsrBits_usedChannels 2 a"

definition BulkSetTrigger5200_setUsedChannels :: "layout \<Rightarrow> u8 \<Rightarrow> frame \<Rightarrow> frame" where
  "BulkSetTrigger5200_setUsedChannels L v a = poke L ETsrBits_usedChannels 2 v a"

text \<open>The fast-rate member is stored inverted: the getter compares with 0.\<close>

definition BulkSetTrigger5200_getFastRate :: "layout \<Rightarrow> frame \<Rightarrow> bool" where
  "BulkSetTrigger5200_getFastRate L a = (peek L ETsrBits_fastRate 2 a = 0)"

definition BulkSetTrigger5200_setFastRate :: "layout \<Rightarrow> bool \<Rightarrow> frame \<Rightarrow> frame" where
  "BulkSetTrigger5200_setFastRate L fastRate a =
     poke L ETsrBits_fastRate 2 (if fastRate then 0 else 1) a"

definition BulkSetTrigger5200_getTriggerSlope :: "layout \<Rightarrow> frame \<Rightarrow> u8" where
  "BulkSetTrigger5200_getTriggerSlope L a = peek L ETsrBits_triggerSlope 2 a"

definition BulkSetTrigger5200_setTriggerSlope :: "layout \<Rightarrow> u8 \<Rightarrow> frame \<Rightarrow> frame" where
  "BulkSetTrigger5200_setTriggerSlope L slope a = poke L ETsrBits_triggerSlope 2 slope a"

definition BulkSetTrigger5200_getTriggerPulse :: "layout \<Rightarrow> frame \<Rightarrow> bool" where
  "BulkSetTrigger5200_getTriggerPulse L a = (peek L ETsrBits_triggerPulse 2 a = 1)"

definition BulkSetTrigger5200_setTriggerPulse :: "layout \<Rightarrow> bool \<Rightarrow> frame \<Rightarrow> frame" where
  "BulkSetTrigger5200_setTriggerPulse L pulse a =
     poke L ETsrBits_triggerPulse 2 (if pulse then 1 else 0) a"

text \<open>
  The constructor receives \<^verbatim>\<open>uint8_t triggerPulse\<close> and hands it to the setter's
  \<^verbatim>\<open>bool\<close> parameter: any non-zero byte converts to true.
\<close>

definition BulkSetTrigger5200_ctor :: "layout \<Rightarrow> u8 \<Rightarrow> u8 \<Rightarrow> bool \<Rightarrow> u8 \<Rightarrow> u8 \<Rightarrow> frame" where
  "BulkSetTrigger5200_ctor L triggerSource usedChannels fastRate triggerSlope triggerPulse =
     BulkSetTrigger5200_setTriggerPulse L (triggerPulse \<noteq> 0)
      (BulkSetTrigger5200_setTriggerSlope L triggerSlope
       (BulkSetTrigger5200_setFastRate L fastRate
        (BulkSetTrigger5200_setUsedChannels L usedChannels
         (BulkSetTrigger5200_setTriggerSource L triggerSource
          (BulkSetTrigger5200_init (DataArray 8))))))"

subsection \<open>BulkSetBuffer2250\<close>

definition BulkSetBuffer2250_init :: "frame \<Rightarrow> frame" where
  "BulkSetBuffer2250_init a = a[0 := BulkCode_value BULK_FSETBUFFER]"

text \<open>The default constructor allocates 10 bytes, the two-argument constructor 12.\<close>

definition BulkSetBuffer2250_default :: frame where
  "BulkSetBuffer2250_default = BulkSetBuffer2250_init (DataArray 10)"

definition BulkSetBuffer2250_getTriggerPositionPost :: "frame \<Rightarrow> u32" where
  "BulkSetBuffer2250_getTriggerPositionPost a =
     (ucast (a ! 2) :: u32) OR push_bit 8 (ucast (a ! 3) :: u32)
       OR push_bit 16 (ucast (a ! 4) :: u32)"

definition BulkSetBuffer2250_setTriggerPositionPost :: "u32 \<Rightarrow> frame \<Rightarrow> frame" where
  "BulkSetBuffer2250_setTriggerPositionPost position a =
     a[2 := ucast position, 3 := ucast (drop_bit 8 position),
       4 := ucast (drop_bit 16 position)]"

text \<open>
  \<^verbatim>\<open>(uint32_t)array[6] | ((uint16_t)array[7] << 8) | ((uint16_t)array[8] << 16)\<close>: the
  two \<^verbatim>\<open>uint16_t\<close> operands are promoted to the 32-bit \<^verbatim>\<open>int\<close> before they are
  shifted, so the shift by 16 loses nothing.
\<close>

definition BulkSetBuffer2250_getTriggerPositionPre :: "frame \<Rightarrow> u32" where
  "BulkSetBuffer2250_getTriggerPositionPre a =
     (ucast (a ! 6) :: u32) OR push_bit 8 (ucast (ucast (a ! 7) :: u16) :: u32)
       OR push_bit 16 (ucast (ucast (a ! 8) :: u16) :: u32)"

definition BulkSetBuffer2250_setTriggerPositionPre :: "u32 \<Rightarrow> frame \<Rightarrow> frame" where
  "BulkSetBuffer2250_setTriggerPositionPre position a =
     a[6 := ucast position, 7 := ucast (drop_bit 8 position),
       8 := ucast (drop_bit 16 position)]"

definition BulkSetBuffer2250_ctor :: "u32 \<Rightarrow> u32 \<Rightarrow> frame" where
  "BulkSetBuffer2250_ctor triggerPositionPre triggerPositionPost =
     BulkSetBuffer2250_setTriggerPositionPost triggerPositionPost
      (BulkSetBuffer2250_setTriggerPositionPre triggerPositionPre
       (BulkSetBuffer2250_init (DataArray 12)))"

section \<open>Setter calls in sequence\<close>

text \<open>One value per public setter of the two 5200 frames that carry sentinel bytes.\<close>

datatype Buffer5200_call =
    SetTriggerPositionPre u16 | SetTriggerPositionPost u16
  | SetUsedPre DTriggerPositionUsed | SetUsedPost DTriggerPositionUsed | SetRecordLength u8

fun Buffer5200_apply :: "layout \<Rightarrow> Buffer5200_call \<Rightarrow> frame \<Rightarrow> frame" where
  "Buffer5200_apply L (SetTriggerPositionPre p) a = BulkSetBuffer5200_setTriggerPositionPre p a"
| "Buffer5200_apply L (SetTriggerPositionPost p) a = BulkSetBuffer5200_setTriggerPositionPost p a"
| "Buffer5200_apply L (SetUsedPre v) a = BulkSetBuffer5200_setUsedPre v a"
| "Buffer5200_apply L (SetUsedPost v) a = BulkSetBuffer5200_setUsedPost L v a"
| "Buffer5200_apply L (SetRecordLength v) a = BulkSetBuffer5200_setRecordLength L v a"

datatype Trigger5200_call =
    SetTriggerSource u8 | SetUsedChannels u8 | SetFastRate bool | SetTriggerSlope u8
  | SetTriggerPulse bool

fun Trigger5200_apply :: "layout \<Rightarrow> Trigger5200_call \<Rightarrow> frame \<Rightarrow> frame" where
  "Trigger5200_apply L (SetTriggerSource v) a = BulkSetTrigger5200_setTriggerSource L v a"
| "Trigger5200_apply L (SetUsedChannels v) a = BulkSetTrigger5200_setUsedChannels L v a"
| "Trigger5200_apply L (SetFastRate b) a = BulkSetTrigger5200_setFastRate L b a"
| "Trigger5200_apply L (SetTriggerSlope v) a = BulkSetTrigger5200_setTriggerSlope L v a"
| "Trigger5200_apply L (SetTriggerPulse b) a = BulkSetTrigger5200_setTriggerPulse L b a"

section \<open>Every field of every frame\<close>

text \<open>
  One name per pair of a getter and its setter. The value of a field is read as a
  natural number: a \<^verbatim>\<open>bool\<close> is 0 or 1, an unsigned integer is its value.
\<close>

datatype field =
    Filter_channel nat | Filter_trigger
  | Tsr_triggerSource | Tsr_recordLength | Tsr_samplerateId | Tsr_downsamplingMode
  | Tsr_usedChannels | Tsr_fastRate | Tsr_triggerSlope | Tsr_downsampler | Tsr_triggerPosition
  | Gain_gain nat
  | LogicalData_data
  | Channels2250_usedChannels
  | Trigger2250_triggerSource | Trigger2250_triggerSlope
  | Samplerate5200_samplerateFast | Samplerate5200_samplerateSlow
  | RecordLength2250_recordLength
  | Buffer5200_triggerPositionPre | Buffer5200_triggerPositionPost | Buffer5200_usedPre
  | Buffer5200_usedPost | Buffer5200_recordLength
  | Samplerate2250_fastRate | Samplerate2250_downsampling | Samplerate2250_samplerate
  | Trigger5200_triggerSource | Trigger5200_usedChannels | Trigger5200_fastRate
  | Trigger5200_triggerSlope | Trigger5200_triggerPulse
  | Buffer2250_triggerPositionPost | Buffer2250_triggerPositionPre

definition of_bool_nat :: "bool \<Rightarrow> nat" where
  "of_bool_nat b = (if b then 1 else 0)"

fun set_field :: "layout \<Rightarrow> field \<Rightarrow> nat \<Rightarrow> frame \<Rightarrow> frame" where
  "set_field L (Filter_channel c) v a = BulkSetFilter_setChannel L c (v \<noteq> 0) a"
| "set_field L Filter_trigger v a = BulkSetFilter_setTrigger L (v \<noteq> 0) a"
| "set_field L Tsr_triggerSource v a = BulkSetTriggerAndSamplerate_setTriggerSource L (of_nat v) a"
| "set_field L Tsr_recordLength v a = BulkSetTriggerAndSamplerate_setRecordLength L (of_nat v) a"
| "set_field L Tsr_samplerateId v a = BulkSetTriggerAndSamplerate_setSamplerateId L (of_nat v) a"
| "set_field L Tsr_downsamplingMode v a = BulkSetTriggerAndSamplerate_setDownsamplingMode L (v \<noteq> 0) a"
| "set_field L Tsr_usedChannels v a = BulkSetTriggerAndSamplerate_setUsedChannels L (of_nat v) a"
| "set_field L Tsr_fastRate v a = BulkSetTriggerAndSamplerate_setFastRate L (v \<noteq> 0) a"
| "set_field L Tsr_triggerSlope v a = BulkSetTriggerAndSamplerate_setTriggerSlope L (of_nat v) a"
| "set_field L Tsr_downsampler v a = BulkSetTriggerAndSamplerate_setDownsampler (of_nat v) a"
| "set_field L Tsr_triggerPosition v a = BulkSetTriggerAndSamplerate_setTriggerPosition (of_nat v) a"
| "set_field L (Gain_gain c) v a = BulkSetGain_setGain L c (of_nat v) a"
| "set_field L LogicalData_data v a = BulkSetLogicalData_setData (of_nat v) a"
| "set_field L Channels2250_usedChannels v a = BulkSetChannels2250_setUsedChannels (of_nat v) a"
| "set_field L Trigger2250_triggerSource v a = BulkSetTrigger2250_setTriggerSource L (of_nat v) a"
| "set_field L Trigger2250_triggerSlope v a = BulkSetTrigger2250_setTriggerSlope L (of_nat v) a"
| "set_field L Samplerate5200_samplerateFast v a = BulkSetSamplerate5200_setSamplerateFast (of_nat v) a"
| "set_field L Samplerate5200_samplerateSlow v a = BulkSetSamplerate5200_setSamplerateSlow (of_nat v) a"
| "set_field L RecordLength2250_recordLength v a = BulkSetRecordLength2250_setRecordLength (of_nat v) a"
| "set_field L Buffer5200_triggerPositionPre v a = BulkSetBuffer5200_setTriggerPositionPre (of_nat v) a"
| "set_field L Buffer5200_triggerPositionPost v a = BulkSetBuffer5200_setTriggerPositionPost (of_nat v) a"
| "set_field L Buffer5200_usedPre v a = BulkSetBuffer5200_setUsedPre (of_nat v) a"
| "set_field L Buffer5200_usedPost v a = BulkSetBuffer5200_setUsedPost L (of_nat v) a"
| "set_field L Buffer5200_recordLength v a = BulkSetBuffer5200_setRecordLength L (of_nat v) a"
| "set_field L Samplerate2250_fastRate v a = BulkSetSamplerate2250_setFastRate L (v \<noteq> 0) a"
| "set_field L Samplerate2250_downsampling v a = BulkSetSamplerate2250_setDownsampling L (v \<noteq> 0) a"
| "set_field L Samplerate2250_samplerate v a = BulkSetSamplerate2250_setSamplerate (of_nat v) a"
| "set_field L Trigger5200_triggerSource v a = BulkSetTrigger5200_setTriggerSource L (of_nat v) a"
| "set_field L Trigger5200_usedChannels v a = BulkSetTrigger5200_setUsedChannels L (of_nat v) a"
| "set_field L Trigger5200_fastRate v a = BulkSetTrigger5200_setFastRate L (v \<noteq> 0) a"
| "set_field L Trigger5200_triggerSlope v a = BulkSetTrigger5200_setTriggerSlope L (of_nat v) a"
| "set_field L Trigger5200_triggerPulse v a = BulkSetTrigger5200_setTriggerPulse L (v \<noteq> 0) a"
| "set_field L Buffer2250_triggerPositionPost v a = BulkSetBuffer2250_setTriggerPositionPost (of_nat v) a"
| "set_field L Buffer2250_triggerPositionPre v a = BulkSetBuffer2250_setTriggerPositionPre (of_nat v) a"

fun get_field :: "layout \<Rightarrow> field \<Rightarrow> frame \<Rightarrow> nat" where
  "get_field L (Filter_channel c) a = of_bool_nat (BulkSetFilter_getChannel L c a)"
| "get_field L Filter_trigger a = of_bool_nat (BulkSetFilter_getTrigger L a)"
| "get_field L Tsr_triggerSource a = unat (BulkSetTriggerAndSamplerate_getTriggerSource L a)"
| "get_field L Tsr_recordLength a = unat (BulkSetTriggerAndSamplerate_getRecordLength L a)"
| "get_field L Tsr_samplerateId a = unat (BulkSetTriggerAndSamplerate_getSamplerateId L a)"
| "get_field L Tsr_downsamplingMode a = of_bool_nat (BulkSetTriggerAndSamplerate_getDownsamplingMode L a)"
| "get_field L Tsr_usedChannels a = unat (BulkSetTriggerAndSamplerate_getUsedChannels L a)"
| "get_field L Tsr_fastRate a = of_bool_nat (BulkSetTriggerAndSamplerate_getFastRate L a)"
| "get_field L Tsr_triggerSlope a = unat (BulkSetTriggerAndSamplerate_getTriggerSlope L a)"
| "get_field L Tsr_downsampler a = unat (BulkSetTriggerAndSamplerate_getDownsampler a)"
| "get_field L Tsr_triggerPosition a = unat (BulkSetTriggerAndSamplerate_getTriggerPosition a)"
| "get_field L (Gain_gain c) a = unat (BulkSetGain_getGain L c a)"
| "get_field L LogicalData_data a = unat (BulkSetLogicalData_getData a)"
| "get_field L Channels2250_usedChannels a = unat (BulkSetChannels2250_getUsedChannels a)"
| "get_field L Trigger2250_triggerSource a = unat (BulkSetTrigger2250_getTriggerSource L a)"
| "get_field L Trigger2250_triggerSlope a = unat (BulkSetTrigger2250_getTriggerSlope L a)"
| "get_field L Samplerate5200_samplerateFast a = unat (BulkSetSamplerate5200_getSamplerateFast a)"
| "get_field L Samplerate5200_samplerateSlow a = unat (BulkSetSamplerate5200_getSamplerateSlow a)"
| "get_field L RecordLength2250_recordLength a = unat (BulkSetRecordLength2250_getRecordLength a)"
| "get_field L Buffer5200_triggerPositionPre a = unat (BulkSetBuffer5200_getTriggerPositionPre a)"
| "get_field L Buffer5200_triggerPositionPost a = unat (BulkSetBuffer5200_getTriggerPositionPost a)"
| "get_field L Buffer5200_usedPre a = unat (BulkSetBuffer5200_getUsedPre a)"
| "get_field L Buffer5200_usedPost a = unat (BulkSetBuffer5200_getUsedPost L a)"
| "get_field L Buffer5200_recordLength a = unat (BulkSetBuffer5200_getRecordLength L a)"
| "get_field L Samplerate2250_fastRate a = of_bool_nat (BulkSetSamplerate2250_getFastRate L a)"
| "get_field L Samplerate2250_downsampling a = of_bool_nat (BulkSetSamplerate2250_getDownsampling L a)"
| "get_field L Samplerate2250_samplerate a = unat (BulkSetSamplerate2250_getSamplerate a)"
| "get_field L Trigger5200_triggerSource a = unat (BulkSetTrigger5200_getTriggerSource L a)"
| "get_field L Trigger5200_usedChannels a = unat (BulkSetTrigger5200_getUsedChannels L a)"
| "get_field L Trigger5200_fastRate a = of_bool_nat (BulkSetTrigger5200_getFastRate L a)"
| "get_field L Trigger5200_triggerSlope a = unat (BulkSetTrigger5200_getTriggerSlope L a)"
| "get_field L Trigger5200_triggerPulse a = of_bool_nat (BulkSetTrigger5200_getTriggerPulse L a)"
| "get_field L Buffer2250_triggerPositionPost a = unat (BulkSetBuffer2250_getTriggerPositionPost a)"
| "get_field L Buffer2250_triggerPositionPre a = unat (BulkSetBuffer2250_getTriggerPositionPre a)"

text \<open>
  The declared range of a field: the values its bits can hold. A bit-field member of
  width \<open>w\<close> holds the values below \<open>2 ^ w\<close>, a flag the values 0 and 1, a byte the
  values below 256, a two-byte field those below 65536 and a three-byte position those
  below \<open>2 ^ 24\<close>.
\<close>

definition member_range :: "layout \<Rightarrow> bits \<Rightarrow> nat \<Rightarrow> bool" where
  "member_range L m v = (bf_ok (L m) \<and> v < 2 ^ bf_width (L m))"

definition flag_range :: "layout \<Rightarrow> bits \<Rightarrow> nat \<Rightarrow> bool" where
  "flag_range L m v = (bf_ok (L m) \<and> 0 < bf_width (L m) \<and> v < 2)"

fun in_range :: "layout \<Rightarrow> field \<Rightarrow> nat \<Rightarrow> bool" where
  "in_range L (Filter_channel c) v =
     (if c = 0 then flag_range L FilterBits_channel1 v else flag_range L FilterBits_channel2 v)"
| "in_range L Filter_trigger v = flag_range L FilterBits_trigger v"
| "in_range L Tsr_triggerSource v = member_range L Tsr1Bits_triggerSource v"
| "in_range L Tsr_recordLength v = member_range L Tsr1Bits_recordLength v"
| "in_range L Tsr_samplerateId v = member_range L Tsr1Bits_samplerateId v"
| "in_range L Tsr_downsamplingMode v = flag_range L Tsr1Bits_downsamplingMode v"
| "in_range L Tsr_usedChannels v = member_range L Tsr2Bits_usedChannels v"
| "in_range L Tsr_fastRate v = flag_range L Tsr2Bits_fastRate v"
| "in_range L Tsr_triggerSlope v = member_range L Tsr2Bits_triggerSlope v"
| "in_range L Tsr_downsampler v = (v < 2 ^ 16)"
| "in_range L Tsr_triggerPosition v = (v < 2 ^ 24)"
| "in_range L (Gain_gain c) v =
     (if c = 0 then member_range L GainBits_channel1 v else member_range L GainBits_channel2 v)"
| "in_range L LogicalData_data v = (v < 2 ^ 8)"
| "in_range L Channels2250_usedChannels v = (v < 2 ^ 8)"
| "in_range L Trigger2250_triggerSource v = member_range L CTriggerBits_triggerSource v"
| "in_range L Trigger2250_triggerSlope v = member_range L CTriggerBits_triggerSlope v"
| "in_range L Samplerate5200_samplerateFast v = (v < 2 ^ 8)"
| "in_range L Samplerate5200_samplerateSlow v = (v < 2 ^ 16)"
| "in_range L RecordLength2250_recordLength v = (v < 2 ^ 8)"
| "in_range L Buffer5200_triggerPositionPre v = (v < 2 ^ 16)"
| "in_range L Buffer5200_triggerPositionPost v = (v < 2 ^ 16)"
| "in_range L Buffer5200_usedPre v = (v < 2 ^ 8)"
| "in_range L Buffer5200_usedPost v = member_range L DBufferBits_triggerPositionUsed v"
| "in_range L Buffer5200_recordLength v = member_range L DBufferBits_recordLength v"
| "in_range L Samplerate2250_fastRate v = flag_range L ESamplerateBits_fastRate v"
| "in_range L Samplerate2250_downsampling v = flag_range L ESamplerateBits_downsampling v"
| "in_range L Samplerate2250_samplerate v = (v < 2 ^ 16)"
| "in_range L Trigger5200_triggerSource v = member_range L ETsrBits_triggerSource v"
| "in_range L Trigger5200_usedChannels v = member_range L ETsrBits_usedChannels v"
| "in_range L Trigger5200_fastRate v = flag_range L ETsrBits_fastRate v"
| "in_range L Trigger5200_triggerSlope v = member_range L ETsrBits_triggerSlope v"
| "in_range L Trigger5200_triggerPulse v = flag_range L ETsrBits_triggerPulse v"
| "in_range L Buffer2250_triggerPositionPost v = (v < 2 ^ 24)"
| "in_range L Buffer2250_triggerPositionPre v = (v < 2 ^ 24)"

text \<open>The lengths the constructors of the field's frame class allocate.\<close>

fun frame_sizes :: "field \<Rightarrow> nat list" where
  "frame_sizes (Filter_channel c) = [8]"
| "frame_sizes Filter_trigger = [8]"
| "frame_sizes Tsr_triggerSource = [12]"
| "frame_sizes Tsr_recordLength = [12]"
| "frame_sizes Tsr_samplerateId = [12]"
| "frame_sizes Tsr_downsamplingMode = [12]"
| "frame_sizes Tsr_usedChannels = [12]"
| "frame_sizes Tsr_fastRate = [12]"
| "frame_sizes Tsr_triggerSlope = [12]"
| "frame_sizes Tsr_downsampler = [12]"
| "frame_sizes Tsr_triggerPosition = [12]"
| "frame_sizes (Gain_gain c) = [8]"
| "frame_sizes LogicalData_data = [8]"
| "frame_sizes Channels2250_usedChannels = [4]"
| "frame_sizes Trigger2250_triggerSource = [8]"
| "frame_sizes Trigger2250_triggerSlope = [8]"
| "frame_sizes Samplerate5200_samplerateFast = [6]"
| "frame_sizes Samplerate5200_samplerateSlow = [6]"
| "frame_sizes RecordLength2250_recordLength = [4]"
| "frame_sizes Buffer5200_triggerPositionPre = [10]"
| "frame_sizes Buffer5200_triggerPositionPost = [10]"
| "frame_sizes Buffer5200_usedPre = [10]"
| "frame_sizes Buffer5200_usedPost = [10]"
| "frame_sizes Buffer5200_recordLength = [10]"
| "frame_sizes Samplerate2250_fastRate = [8]"
| "frame_sizes Samplerate2250_downsampling = [8]"
| "frame_sizes Samplerate2250_samplerate = [8]"
| "frame_sizes Trigger5200_triggerSource = [8]"
| "frame_sizes Trigger5200_usedChannels = [8]"
| "frame_sizes Trigger5200_fastRate = [8]"
| "frame_sizes Trigger5200_triggerSlope = [8]"
| "frame_sizes Trigger5200_triggerPulse = [8]"
| "frame_sizes Buffer2250_triggerPositionPost = [10, 12]"
| "frame_sizes Buffer2250_triggerPositionPre = [10, 12]"

definition frame_of :: "field \<Rightarrow> frame \<Rightarrow> bool" where
  "frame_of f a = (length a \<in> set (frame_sizes f))"

section \<open>USB session (usbdevice.cpp)\<close>

subsection \<open>What libusb and the headers provide\<close>

text \<open>The return codes, class code and request-type bits of \<^verbatim>\<open>libusb.h\<close>.\<close>

definition LIBUSB_SUCCESS :: int where
  "LIBUSB_SUCCESS = 0"

definition LIBUSB_ERROR_NO_DEVICE :: int where
  "LIBUSB_ERROR_NO_DEVICE = - 4"

definition LIBUSB_ERROR_NOT_FOUND :: int where
  "LIBUSB_ERROR_NOT_FOUND = - 5"

definition LIBUSB_ERROR_TIMEOUT :: int where
  "LIBUSB_ERROR_TIMEOUT = - 7"

definition LIBUSB_CLASS_VENDOR_SPEC :: u8 where
  "LIBUSB_CLASS_VENDOR_SPEC = 0xff"

definition LIBUSB_REQUEST_TYPE_VENDOR :: u8 where
  "LIBUSB_REQUEST_TYPE_VENDOR = 0x40"

definition LIBUSB_ENDPOINT_IN :: u8 where
  "LIBUSB_ENDPOINT_IN = 0x80"

definition LIBUSB_ENDPOINT_OUT :: u8 where
  "LIBUSB_ENDPOINT_OUT = 0x00"

text \<open>The control requests of \<^verbatim>\<open>controlcode.h\<close>.\<close>

datatype ControlCode =
    CONTROL_VALUE | CONTROL_GETSPEED | CONTROL_BEGINCOMMAND | CONTROL_SETOFFSET
  | CONTROL_SETRELAYS | CONTROL_SETVOLTDIV_CH1 | CONTROL_SETVOLTDIV_CH2 | CONTROL_SETTIMEDIV
  | CONTROL_ACQUIIRE_HARD_DATA

fun ControlCode_value :: "ControlCode \<Rightarrow> u8" where
  "ControlCode_value CONTROL_VALUE = 0xa2"
| "ControlCode_value CONTROL_GETSPEED = 0xb2"
| "ControlCode_value CONTROL_BEGINCOMMAND = 0xb3"
| "ControlCode_value CONTROL_SETOFFSET = 0xb4"
| "ControlCode_value CONTROL_SETRELAYS = 0xb5"
| "ControlCode_value CONTROL_SETVOLTDIV_CH1 = 0xe0"
| "ControlCode_value CONTROL_SETVOLTDIV_CH2 = 0xe1"
| "ControlCode_value CONTROL_SETTIMEDIV = 0xe2"
| "ControlCode_value CONTROL_ACQUIIRE_HARD_DATA = 0xe3"

text \<open>
  Modelled from the spec: \<^verbatim>\<open>usbdevice.h\<close> is not part of the sources at hand. It
  defines the macros \<^verbatim>\<open>HANTEK_EP_OUT\<close>, \<^verbatim>\<open>HANTEK_EP_IN\<close>, \<^verbatim>\<open>HANTEK_TIMEOUT\<close> and
  \<^verbatim>\<open>HANTEK_TIMEOUT_MULTI\<close> and the default arguments that the calls in
  \<^verbatim>\<open>usbdevice.cpp\<close> leave out: the \<^verbatim>\<open>timeout\<close> of \<^verbatim>\<open>bulkTransfer\<close>, and the
  \<^verbatim>\<open>value\<close>, \<^verbatim>\<open>index\<close> and \<^verbatim>\<open>attempts\<close> of \<^verbatim>\<open>controlRead\<close> and
  \<^verbatim>\<open>controlWrite\<close>. The spec names the endpoints (conventionally \<open>0x02\<close> and
  \<open>0x86\<close>) and gives no number for the others, so all of them are parameters.
\<close>

record hantek =
  HANTEK_EP_OUT :: u8
  HANTEK_EP_IN :: u8
  HANTEK_TIMEOUT :: nat
  HANTEK_TIMEOUT_MULTI :: nat
  default_timeout :: nat
  default_value :: int
  default_index :: int
  default_attempts :: int

text \<open>
  One transfer handed to libusb: \<^verbatim>\<open>libusb_control_transfer\<close> with request type, request,
  value, index, data, length and timeout, or \<^verbatim>\<open>libusb_bulk_transfer\<close> with endpoint,
  data, length and timeout. The data is the content of the buffer when the call is made.
\<close>

datatype usb_event =
    ControlTransfer u8 u8 int int "u8 list" nat nat
  | BulkTransfer u8 "u8 list" nat nat

text \<open>
  What libusb answers to one transfer: its return code, for a bulk transfer the number
  it stores in \<^verbatim>\<open>transferred\<close>, and the bytes the device delivered. The bus is the
  sequence of these answers, one for each transfer in the order they are issued; since
  the session is deterministic, every behaviour of a device is such a sequence.
\<close>

record reply =
  rc :: int
  transferred :: int
  rdata :: "u8 list"

type_synonym bus = "nat \<Rightarrow> reply"

text \<open>
  The members of \<^verbatim>\<open>USBDevice\<close> that the functions below read or write. \<open>handle\<close> is
  true when the libusb handle is not null. Two fields record what leaves the object:
  \<open>transfers\<close> lists every transfer issued so far, oldest first, and
  \<open>deviceDisconnected\<close> counts the emissions of the signal of that name.
\<close>

record usb_device =
  handle :: bool
  interface :: int
  outPacketLength :: int
  inPacketLength :: int
  allowBulkTransfer :: bool
  beginCommandControl :: frame
  descriptor_idVendor :: u16
  descriptor_idProduct :: u16
  model_vendorID :: int
  model_productID :: int
  transfers :: "usb_event list"
  deviceDisconnected :: nat

definition libusb_bulk_transfer ::
  "bus \<Rightarrow> u8 \<Rightarrow> u8 list \<Rightarrow> nat \<Rightarrow> nat \<Rightarrow> usb_device \<Rightarrow> int \<times> int \<times> usb_device" where
  "libusb_bulk_transfer b endpoint dat len timeout s =
     (let r = b (length (transfers s))
      in (rc r, transferred r,
          s\<lparr>transfers := transfers s @ [BulkTransfer endpoint dat len timeout]\<rparr>))"

text \<open>
  Bytes delivered into a buffer replace its leading bytes. A control transfer delivers
  bytes only when it is an IN transfer and succeeds; its return value is then their
  number.
\<close>

definition receive :: "u8 list \<Rightarrow> u8 list \<Rightarrow> u8 list" where
  "receive d buf = take (length buf) d @ drop (length d) buf"

definition libusb_control_transfer ::
  "bus \<Rightarrow> u8 \<Rightarrow> u8 \<Rightarrow> int \<Rightarrow> int \<Rightarrow> u8 list \<Rightarrow> nat \<Rightarrow> nat \<Rightarrow> usb_device
     \<Rightarrow> int \<times> u8 list \<times> usb_device" where
  "libusb_control_transfer b type request val index dat len timeout s =
     (let r = b (length (transfers s))
      in (rc r,
          (if type AND LIBUSB_ENDPOINT_IN = 0 \<or> rc r < 0 then dat
           else receive (take (nat (rc r)) (rdata r)) dat),
          s\<lparr>transfers := transfers s
                @ [ControlTransfer type request val index dat len timeout]\<rparr>))"

subsection \<open>Connection state\<close>

definition isConnected :: "usb_device \<Rightarrow> bool" where
  "isConnected s = handle s"

definition needsFirmware :: "usb_device \<Rightarrow> bool" where
  "needsFirmware s =
     (uint (descriptor_idProduct s) \<noteq> model_productID s
      \<or> uint (descriptor_idVendor s) \<noteq> model_vendorID s)"

text \<open>
  \<^verbatim>\<open>connectionLost\<close>: with a null handle nothing happens; otherwise the interface is
  released, the handle closed and the signal emitted. (The reference count that
  \<^verbatim>\<open>libusb_unref_device\<close> decrements is not part of the state.)
\<close>

definition connectionLost :: "usb_device \<Rightarrow> usb_device" where
  "connectionLost s =
     (if \<not> handle s then s
      else s\<lparr>interface := - 1, handle := False,
             deviceDisconnected := deviceDisconnected s + 1\<rparr>)"

subsection \<open>Transfers with retry\<close>

text \<open>
  The retry loop of \<^verbatim>\<open>bulkTransfer\<close>:
  \<^verbatim>\<open>for (attempt = 0; (attempt < attempts || attempts == -1) && errorCode == LIBUSB_ERROR_TIMEOUT; ++attempt)\<close>.
  With \<^verbatim>\<open>attempts == -1\<close> it has no bound, so it is a partial function: on a bus that
  times out for ever it has no value. The counter is an unbounded integer here; the
  source's \<^verbatim>\<open>int\<close> would overflow after \<open>2 ^ 31\<close> consecutive timeouts.
  \<^verbatim>\<open>transferred\<close> is not initialised in the source; its start value is never returned,
  because without a transfer the error code is still the negative \<^verbatim>\<open>LIBUSB_ERROR_TIMEOUT\<close>.
\<close>

partial_function (option) bulkTransfer_loop ::
  "bus \<Rightarrow> u8 \<Rightarrow> u8 list \<Rightarrow> nat \<Rightarrow> int \<Rightarrow> nat \<Rightarrow> int \<Rightarrow> int \<Rightarrow> int \<Rightarrow> usb_device
     \<Rightarrow> (int \<times> int \<times> usb_device) option" where
  "bulkTransfer_loop b endpoint dat len attempts timeout attempt errorCode xfer s =
     (if (attempt < attempts \<or> attempts = - 1) \<and> errorCode = LIBUSB_ERROR_TIMEOUT
      then (let r = libusb_bulk_transfer b endpoint dat len timeout s
            in bulkTransfer_loop b endpoint dat len attempts timeout (attempt + 1)
                 (fst r) (fst (snd r)) (snd (snd r)))
      else Some (errorCode, xfer, s))"

definition bulkTransfer ::
  "bus \<Rightarrow> u8 \<Rightarrow> u8 list \<Rightarrow> nat \<Rightarrow> int \<Rightarrow> nat \<Rightarrow> usb_device \<Rightarrow> (int \<times> usb_device) option" where
  "bulkTransfer b endpoint dat len attempts timeout s =
     (if \<not> handle s then Some (LIBUSB_ERROR_NO_DEVICE, s)
      else do {
        (errorCode, xfer, s1) \<leftarrow>
          bulkTransfer_loop b endpoint dat len attempts timeout 0 LIBUSB_ERROR_TIMEOUT 0 s;
        let s2 = (if errorCode = LIBUSB_ERROR_NO_DEVICE then connectionLost s1 else s1);
        if errorCode < 0 then Some (errorCode, s2) else Some (xfer, s2)
      })"

partial_function (option) controlTransfer_loop ::
  "bus \<Rightarrow> hantek \<Rightarrow> u8 \<Rightarrow> u8 \<Rightarrow> nat \<Rightarrow> int \<Rightarrow> int \<Rightarrow> int \<Rightarrow> int \<Rightarrow> int \<Rightarrow> u8 list \<Rightarrow> usb_device
     \<Rightarrow> (int \<times> u8 list \<times> usb_device) option" where
  "controlTransfer_loop b K type request len val index attempts attempt errorCode dat s =
     (if (attempt < attempts \<or> attempts = - 1) \<and> errorCode = LIBUSB_ERROR_TIMEOUT
      then (let r = libusb_control_transfer b type request val index dat len (HANTEK_TIMEOUT K) s
            in controlTransfer_loop b K type request len val index attempts (attempt + 1)
                 (fst r) (fst (snd r)) (snd (snd r)))
      else Some (errorCode, dat, s))"

text \<open>The functions on control transfers return the buffer next to the return value.\<close>

definition controlTransfer ::
  "bus \<Rightarrow> hantek \<Rightarrow> u8 \<Rightarrow> u8 \<Rightarrow> u8 list \<Rightarrow> nat \<Rightarrow> int \<Rightarrow> int \<Rightarrow> int \<Rightarrow> usb_device
     \<Rightarrow> (int \<times> u8 list \<times> usb_device) option" where
  "controlTransfer b K type request dat len val index attempts s =
     (if \<not> handle s then Some (LIBUSB_ERROR_NO_DEVICE, dat, s)
      else do {
        (errorCode, dat1, s1) \<leftarrow>
          controlTransfer_loop b K type request len val index attempts 0 LIBUSB_ERROR_TIMEOUT dat s;
        let s2 = (if errorCode = LIBUSB_ERROR_NO_DEVICE then connectionLost s1 else s1);
        Some (errorCode, dat1, s2)
      })"

definition controlWrite ::
  "bus \<Rightarrow> hantek \<Rightarrow> u8 \<Rightarrow> u8 list \<Rightarrow> nat \<Rightarrow> int \<Rightarrow> int \<Rightarrow> int \<Rightarrow> usb_device
     \<Rightarrow> (int \<times> u8 list \<times> usb_device) option" where
  "controlWrite b K request dat len val index attempts s =
     (if \<not> handle s then Some (LIBUSB_ERROR_NO_DEVICE, dat, s)
      else controlTransfer b K (LIBUSB_REQUEST_TYPE_VENDOR OR LIBUSB_ENDPOINT_OUT) request dat len
             val index attempts s)"

definition controlRead ::
  "bus \<Rightarrow> hantek \<Rightarrow> u8 \<Rightarrow> u8 list \<Rightarrow> nat \<Rightarrow> int \<Rightarrow> int \<Rightarrow> int \<Rightarrow> usb_device
     \<Rightarrow> (int \<times> u8 list \<times> usb_device) option" where
  "controlRead b K request dat len val index attempts s =
     (if \<not> handle s then Some (LIBUSB_ERROR_NO_DEVICE, dat, s)
      else controlTransfer b K (LIBUSB_REQUEST_TYPE_VENDOR OR LIBUSB_ENDPOINT_IN) request dat len
             val index attempts s)"

text \<open>
  Modelled from the spec: class \<^verbatim>\<open>ControlGetSpeed\<close> (\<^verbatim>\<open>controlgetspeed.h\<close>) is not
  part of the sources at hand. The spec describes the answer to request \<open>0xb2\<close> as a
  10-byte response whose first byte encodes the connection speed.
\<close>

definition ControlGetSpeed :: frame where
  "ControlGetSpeed = DataArray 10"

definition ControlGetSpeed_getSpeed :: "frame \<Rightarrow> int" where
  "ControlGetSpeed_getSpeed a = uint (a ! 0)"

definition getConnectionSpeed :: "bus \<Rightarrow> hantek \<Rightarrow> usb_device \<Rightarrow> (int \<times> usb_device) option" where
  "getConnectionSpeed b K s =
     do {
       (errorCode, response, s1) \<leftarrow>
         controlRead b K (ControlCode_value CONTROL_GETSPEED) ControlGetSpeed
           (getSize ControlGetSpeed) (default_value K) (default_index K) (default_attempts K) s;
       if errorCode < 0 then Some (errorCode, s1)
       else Some (ControlGetSpeed_getSpeed response, s1)
     }"

definition bulkWrite ::
  "bus \<Rightarrow> hantek \<Rightarrow> u8 list \<Rightarrow> nat \<Rightarrow> int \<Rightarrow> usb_device \<Rightarrow> (int \<times> usb_device) option" where
  "bulkWrite b K dat len attempts s =
     (if \<not> handle s then Some (LIBUSB_ERROR_NO_DEVICE, s)
      else do {
        (errorCode, s1) \<leftarrow> getConnectionSpeed b K s;
        if errorCode < 0 then Some (errorCode, s1)
        else bulkTransfer b (HANTEK_EP_OUT K) dat len attempts (default_timeout K) s1
      })"

definition bulkRead ::
  "bus \<Rightarrow> hantek \<Rightarrow> u8 list \<Rightarrow> nat \<Rightarrow> int \<Rightarrow> usb_device \<Rightarrow> (int \<times> usb_device) option" where
  "bulkRead b K dat len attempts s =
     (if \<not> handle s then Some (LIBUSB_ERROR_NO_DEVICE, s)
      else do {
        (errorCode, s1) \<leftarrow> getConnectionSpeed b K s;
        if errorCode < 0 then Some (errorCode, s1)
        else bulkTransfer b (HANTEK_EP_IN K) dat len attempts (default_timeout K) s1
      })"

definition bulkCommand ::
  "bus \<Rightarrow> hantek \<Rightarrow> frame \<Rightarrow> int \<Rightarrow> usb_device \<Rightarrow> (int \<times> usb_device) option" where
  "bulkCommand b K command attempts s =
     (if \<not> handle s then Some (LIBUSB_ERROR_NO_DEVICE, s)
      else if \<not> allowBulkTransfer s then Some (LIBUSB_SUCCESS, s)
      else do {
        (errorCode, dat, s1) \<leftarrow>
          controlWrite b K (ControlCode_value CONTROL_BEGINCOMMAND) (beginCommandControl s)
            (getSize (beginCommandControl s)) (default_value K) (default_index K)
            (default_attempts K) s;
        if errorCode < 0 then Some (errorCode, s1)
        else bulkWrite b K command (getSize command) attempts s1
      })"

text \<open>
  The packet loop of \<^verbatim>\<open>bulkReadMulti\<close>. \<^verbatim>\<open>length\<close>, \<^verbatim>\<open>received\<close> and \<^verbatim>\<open>packet\<close>
  are \<^verbatim>\<open>unsigned int\<close>, \<^verbatim>\<open>errorCode\<close> and \<^verbatim>\<open>inPacketLength\<close> are \<^verbatim>\<open>int\<close>. The
  caller's buffer is \<open>dat\<close>; each transfer is handed the buffer from byte
  \<open>packet * inPacketLength\<close> on. How many bytes arrive is modelled, not where the
  received bytes end up in the buffer. The loop has no bound of its own (a device that
  answers a request for 0 bytes with 0 bytes keeps it running when
  \<^verbatim>\<open>inPacketLength\<close> is 0), so it is a partial function.
\<close>

partial_function (option) bulkReadMulti_loop ::
  "bus \<Rightarrow> hantek \<Rightarrow> u8 list \<Rightarrow> u32 \<Rightarrow> int \<Rightarrow> u32 \<Rightarrow> u32 \<Rightarrow> int \<Rightarrow> usb_device
     \<Rightarrow> (u32 \<times> int \<times> usb_device) option" where
  "bulkReadMulti_loop b K dat len attempts packet received errorCode s =
     (if received < len \<and> errorCode = inPacketLength s
      then do {
        (errorCode1, s1) \<leftarrow>
          bulkTransfer b (HANTEK_EP_IN K)
            (drop (unat (packet * word_of_int (inPacketLength s))) dat)
            (unat (min (len - received) (word_of_int (inPacketLength s))))
            attempts (HANTEK_TIMEOUT_MULTI K) s;
        bulkReadMulti_loop b K dat len attempts (packet + 1)
          (if errorCode1 > 0 then received + word_of_int errorCode1 else received) errorCode1 s1
      }
      else Some (received, errorCode, s))"

text \<open>The result \<^verbatim>\<open>received\<close> is converted from \<^verbatim>\<open>unsigned int\<close> to \<^verbatim>\<open>int\<close>.\<close>

definition bulkReadMulti ::
  "bus \<Rightarrow> hantek \<Rightarrow> u8 list \<Rightarrow> u32 \<Rightarrow> int \<Rightarrow> usb_device \<Rightarrow> (int \<times> usb_device) option" where
  "bulkReadMulti b K dat len attempts s =
     (if \<not> handle s then Some (LIBUSB_ERROR_NO_DEVICE, s)
      else do {
        (errorCode, s1) \<leftarrow> getConnectionSpeed b K s;
        if errorCode < 0 then Some (errorCode, s1)
        else do {
          (received, errorCode2, s2) \<leftarrow>
            bulkReadMulti_loop b K dat len attempts 0 0 (inPacketLength s1) s1;
          if received > 0 then Some (sint received, s2) else Some (errorCode2, s2)
        }
      })"

subsection \<open>Connecting\<close>

text \<open>
  The descriptors libusb hands out. An interface is the list of its alternate settings
  (\<^verbatim>\<open>num_altsetting\<close> is its length), a configuration the list of its interfaces
  (\<^verbatim>\<open>bNumInterfaces\<close> is its length), and \<^verbatim>\<open>bNumEndpoints\<close> is the length of the
  endpoint array, as libusb builds them.
\<close>

record libusb_endpoint_descriptor =
  bEndpointAddress :: u8
  wMaxPacketSize :: u16

record libusb_interface_descriptor =
  bInterfaceNumber :: u8
  bInterfaceClass :: u8
  bInterfaceSubClass :: u8
  bInterfaceProtocol :: u8
  endpoint :: "libusb_endpoint_descriptor list"

definition bNumEndpoints :: "libusb_interface_descriptor \<Rightarrow> nat" where
  "bNumEndpoints d = length (endpoint d)"

type_synonym libusb_interface = "libusb_interface_descriptor list"

text \<open>
  What libusb answers while connecting: the return code of \<^verbatim>\<open>libusb_open\<close>, the
  first configuration descriptor and the return code of \<^verbatim>\<open>libusb_claim_interface\<close>.
\<close>

record usb_host =
  open_result :: int
  config :: "libusb_interface list"
  claim_result :: int

text \<open>
  The text of \<^verbatim>\<open>errorMessage\<close> is built by \<^verbatim>\<open>libUsbErrorString\<close> from the error
  code; the message is represented by the place that wrote it and that code.
\<close>

datatype connect_message = CouldNotOpen int | InterfaceError int

text \<open>The endpoint loop of \<^verbatim>\<open>claimInterface\<close>.\<close>

fun scan_endpoints ::
  "libusb_endpoint_descriptor list \<Rightarrow> u8 \<Rightarrow> u8 \<Rightarrow> usb_device \<Rightarrow> usb_device" where
  "scan_endpoints [] endpointOut endPointIn s = s"
| "scan_endpoints (e # es) endpointOut endPointIn s =
     scan_endpoints es endpointOut endPointIn
       (if bEndpointAddress e = endpointOut then s\<lparr>outPacketLength := uint (wMaxPacketSize e)\<rparr>
        else if bEndpointAddress e = endPointIn then s\<lparr>inPacketLength := uint (wMaxPacketSize e)\<rparr>
        else s)"

definition claimInterface ::
  "usb_host \<Rightarrow> libusb_interface_descriptor \<Rightarrow> u8 \<Rightarrow> u8 \<Rightarrow> usb_device \<Rightarrow> int \<times> usb_device" where
  "claimInterface h d endpointOut endPointIn s =
     (let errorCode = claim_result h
      in if errorCode < 0 then (errorCode, s)
         else (LIBUSB_SUCCESS,
               scan_endpoints (endpoint d) endpointOut endPointIn
                 (s\<lparr>interface := uint (bInterfaceNumber d), outPacketLength := 0,
                    inPacketLength := 0\<rparr>)))"

text \<open>
  The interface loop of \<^verbatim>\<open>connectDevice\<close>, entered with
  \<^verbatim>\<open>errorCode = LIBUSB_ERROR_NOT_FOUND\<close>: an interface without alternate setting is
  skipped, the first one whose first alternate setting matches is claimed, and the
  loop ends there.
\<close>

fun find_and_claim ::
  "usb_host \<Rightarrow> hantek \<Rightarrow> libusb_interface list \<Rightarrow> usb_device \<Rightarrow> int \<times> usb_device" where
  "find_and_claim h K [] s = (LIBUSB_ERROR_NOT_FOUND, s)"
| "find_and_claim h K ([] # ifs) s = find_and_claim h K ifs s"
| "find_and_claim h K ((d # alts) # ifs) s =
     (if bInterfaceClass d = LIBUSB_CLASS_VENDOR_SPEC \<and> bInterfaceSubClass d = 0
         \<and> bInterfaceProtocol d = 0 \<and> bNumEndpoints d = 2
      then claimInterface h d (HANTEK_EP_OUT K) (HANTEK_EP_IN K) s
      else find_and_claim h K ifs s)"

text \<open>
  \<^verbatim>\<open>connectDevice\<close> returns its \<^verbatim>\<open>bool\<close>, the message it wrote to \<^verbatim>\<open>errorMessage\<close>
  (none when it left the reference alone) and the new state.
\<close>

definition connectDevice ::
  "usb_host \<Rightarrow> hantek \<Rightarrow> usb_device \<Rightarrow> bool \<times> connect_message option \<times> usb_device" where
  "connectDevice h K s =
     (if needsFirmware s then (False, None, s)
      else if isConnected s then (True, None, s)
      else if open_result h \<noteq> LIBUSB_SUCCESS
      then (False, Some (CouldNotOpen (open_result h)), s\<lparr>handle := False\<rparr>)
      else (let r = find_and_claim h K (config h) (s\<lparr>handle := True\<rparr>)
            in if fst r \<noteq> LIBUSB_SUCCESS then (False, Some (InterfaceError (fst r)), snd r)
               else (True, None, snd r)))"

text \<open>
  The interface the loop claims, written without the loop: the first alternate setting
  of the first interface that has one and whose class is vendor-specific, with subclass
  0, protocol 0 and exactly two endpoints.
\<close>

definition matching :: "libusb_interface_descriptor \<Rightarrow> bool" where
  "matching d =
     (bInterfaceClass d = LIBUSB_CLASS_VENDOR_SPEC \<and> bInterfaceSubClass d = 0
      \<and> bInterfaceProtocol d = 0 \<and> length (endpoint d) = 2)"

definition vendor_interface :: "libusb_interface list \<Rightarrow> libusb_interface_descriptor option" where
  "vendor_interface ifs =
     (case filter matching (map hd (filter (\<lambda>i. i \<noteq> []) ifs)) of
        [] \<Rightarrow> None | d # ds \<Rightarrow> Some d)"

text \<open>
  The packet size recorded for an address: that of the last endpoint of the interface
  with that address, 0 when there is none.
\<close>

definition packet_size :: "u8 \<Rightarrow> libusb_endpoint_descriptor list \<Rightarrow> int" where
  "packet_size addr es =
     (case filter (\<lambda>e. bEndpointAddress e = addr) (rev es) of
        [] \<Rightarrow> 0 | e # r \<Rightarrow> uint (wMaxPacketSize e))"

subsection \<open>Names for the transfers of a bulk command, and example sessions\<close>

text \<open>
  The three kinds of transfer that \<^verbatim>\<open>bulkCommand\<close> hands to libusb: the control write
  of \<^verbatim>\<open>beginCommandControl\<close> with request \<^verbatim>\<open>CONTROL_BEGINCOMMAND\<close>, the control read
  with request \<^verbatim>\<open>CONTROL_GETSPEED\<close> that \<^verbatim>\<open>getConnectionSpeed\<close> issues, and the bulk
  transfer of the command to the OUT endpoint.
\<close>

definition begin_command_event :: "hantek \<Rightarrow> usb_device \<Rightarrow> usb_event" where
  "begin_command_event K s =
     ControlTransfer (LIBUSB_REQUEST_TYPE_VENDOR OR LIBUSB_ENDPOINT_OUT)
       (ControlCode_value CONTROL_BEGINCOMMAND) (default_value K) (default_index K)
       (beginCommandControl s) (getSize (beginCommandControl s)) (HANTEK_TIMEOUT K)"

definition get_speed_event :: "hantek \<Rightarrow> usb_event" where
  "get_speed_event K =
     ControlTransfer (LIBUSB_REQUEST_TYPE_VENDOR OR LIBUSB_ENDPOINT_IN)
       (ControlCode_value CONTROL_GETSPEED) (default_value K) (default_index K)
       ControlGetSpeed (getSize ControlGetSpeed) (HANTEK_TIMEOUT K)"

definition bulk_out_event :: "hantek \<Rightarrow> frame \<Rightarrow> usb_event" where
  "bulk_out_event K command =
     BulkTransfer (HANTEK_EP_OUT K) command (getSize command) (default_timeout K)"

text \<open>
  The \<open>i\<close>-th transfer of a multi-packet read of \<open>L\<close> bytes in packets of \<open>P\<close> bytes:
  a bulk transfer from the IN endpoint into the buffer from byte \<open>i * P\<close> on, asking for
  the bytes that remain, at most \<open>P\<close>.
\<close>

definition bulk_in_event :: "hantek \<Rightarrow> u8 list \<Rightarrow> nat \<Rightarrow> nat \<Rightarrow> nat \<Rightarrow> usb_event" where
  "bulk_in_event K dat L P i =
     BulkTransfer (HANTEK_EP_IN K) (drop (i * P) dat) (min (L - i * P) P) (HANTEK_TIMEOUT_MULTI K)"

text \<open>
  Concrete sessions on which the functions are evaluated. The endpoint addresses are the
  conventional ones; the timeouts, the default number of attempts, the identifiers and
  the packet sizes are example values. A scripted bus gives the listed answers in turn
  and reports a vanished device afterwards.
\<close>

definition example_hantek :: hantek where
  "example_hantek =
     \<lparr>HANTEK_EP_OUT = 0x02, HANTEK_EP_IN = 0x86, HANTEK_TIMEOUT = 500,
      HANTEK_TIMEOUT_MULTI = 100, default_timeout = 500, default_value = 0,
      default_index = 0, default_attempts = 3\<rparr>"

definition example_device :: usb_device where
  "example_device =
     \<lparr>handle = True, interface = 0, outPacketLength = 512, inPacketLength = 512,
      allowBulkTransfer = True, beginCommandControl = [0x0f, 0, 0, 0, 0, 0, 0, 0, 0, 0],
      descriptor_idVendor = 0x04b5, descriptor_idProduct = 0x2150,
      model_vendorID = 0x04b5, model_productID = 0x2150,
      transfers = [], deviceDisconnected = 0\<rparr>"

definition control_ok :: "int \<Rightarrow> u8 list \<Rightarrow> reply" where
  "control_ok n d = \<lparr>rc = n, transferred = 0, rdata = d\<rparr>"

definition bulk_ok :: "int \<Rightarrow> reply" where
  "bulk_ok n = \<lparr>rc = LIBUSB_SUCCESS, transferred = n, rdata = []\<rparr>"

definition failed :: "int \<Rightarrow> reply" where
  "failed e = \<lparr>rc = e, transferred = 0, rdata = []\<rparr>"

definition scripted :: "reply list \<Rightarrow> bus" where
  "scripted rs n = (if n < length rs then rs ! n else failed LIBUSB_ERROR_NO_DEVICE)"

text \<open>
  An example host: \<^verbatim>\<open>libusb_open\<close> and \<^verbatim>\<open>libusb_claim_interface\<close> succeed, and the
  configuration has one vendor-specific interface with an IN and an OUT endpoint.
\<close>

definition example_interface :: libusb_interface_descriptor where
  "example_interface =
     \<lparr>bInterfaceNumber = 0, bInterfaceClass = 0xff, bInterfaceSubClass = 0,
      bInterfaceProtocol = 0,
      endpoint = [\<lparr>bEndpointAddress = 0x86, wMaxPacketSize = 512\<rparr>,
                  \<lparr>bEndpointAddress = 0x02, wMaxPacketSize = 64\<rparr>]\<rparr>"

definition example_host :: usb_host where
  "example_host = \<lparr>open_result = 0, config = [[example_interface]], claim_result = 0\<rparr>"

definition detached_device :: usb_device where
  "detached_device =
     example_device\<lparr>handle := False, interface := - 1, outPacketLength := 0,
       inPacketLength := 0\<rparr>"

section \<open>Properties of the wire codec\<close>

subsection \<open>Bit-field members and little-endian fields\<close>

lemma bf_read_write:
  "bf_ok f \<Longrightarrow> bf_read f (bf_write f v b) = take_bit (bf_width f) v"
  unfolding bf_read_def bf_write_def bf_ok_def
  by (rule bit_eqI) (auto simp add: bit_simps)

lemma peek_poke:
  "bf_ok (L m) \<Longrightarrow> off < length a \<Longrightarrow>
   peek L m off (poke L m off v a) = take_bit (bf_width (L m)) v"
  by (simp add: peek_def poke_def bf_read_write)

lemma length_poke: "length (poke L m off v a) = length a"
  by (simp add: poke_def)

lemma nth_poke_other: "i \<noteq> off \<Longrightarrow> poke L m off v a ! i = a ! i"
  by (simp add: poke_def)

lemma unat_take_bit_u8:
  assumes "v < 2 ^ w" "w \<le> 8"
  shows "unat (take_bit w (of_nat v :: u8)) = v"
proof -
  have "(2::nat) ^ w \<le> 2 ^ 8" using assms(2) by (intro power_increasing) simp_all
  with assms(1) have v: "v < 2 ^ 8" by linarith
  then have "unat (of_nat v :: u8) = v" by (simp add: unat_of_nat)
  then show ?thesis using assms(1)
    by (simp add: unsigned_take_bit_eq take_bit_nat_eq_self_iff)
qed

lemma take_bit_one_u8: "0 < w \<Longrightarrow> take_bit w (1 :: u8) = 1"
  by (cases w) simp_all

lemma member_roundtrip:
  "member_range L m v \<Longrightarrow> off < length a \<Longrightarrow>
   unat (peek L m off (poke L m off (of_nat v) a)) = v"
  by (simp add: member_range_def peek_poke bf_ok_def unat_take_bit_u8)

lemma flag_roundtrip:
  "flag_range L m v \<Longrightarrow> off < length a \<Longrightarrow>
   of_bool_nat (peek L m off (poke L m off (if v \<noteq> 0 then 1 else 0) a) = 1) = v"
  by (auto simp add: flag_range_def peek_poke of_bool_nat_def take_bit_one_u8)

lemma flag_roundtrip_inverted:
  "flag_range L m v \<Longrightarrow> off < length a \<Longrightarrow>
   of_bool_nat (peek L m off (poke L m off (if v \<noteq> 0 then 0 else 1) a) = 0) = v"
  by (auto simp add: flag_range_def peek_poke of_bool_nat_def take_bit_one_u8)

lemma le16:
  "ucast ((ucast (ucast (ucast (x::u16) :: u8) :: u16) :: u32)
     OR push_bit 8 (ucast (ucast (ucast (drop_bit 8 x) :: u8) :: u16) :: u32)) = x"
  by (rule bit_eqI) (auto simp add: bit_simps)

lemma le24:
  "(ucast (ucast (x::u32) :: u8) :: u32)
     OR push_bit 8 (ucast (ucast (drop_bit 8 x) :: u8) :: u32)
     OR push_bit 16 (ucast (ucast (drop_bit 16 x) :: u8) :: u32) = take_bit 24 x"
  apply (rule bit_eqI)
  subgoal for n
    by (cases "n < 8"; cases "n < 16") (auto simp add: bit_simps)
  done

lemma le24_promoted:
  "(ucast (ucast (x::u32) :: u8) :: u32)
     OR push_bit 8 (ucast (ucast (ucast (drop_bit 8 x) :: u8) :: u16) :: u32)
     OR push_bit 16 (ucast (ucast (ucast (drop_bit 16 x) :: u8):: u16) :: u32) = take_bit 24 x"
  apply (rule bit_eqI)
  subgoal for n
    by (cases "n < 8"; cases "n < 16") (auto simp add: bit_simps)
  done

lemma unat_of_nat_u8: "v < 2 ^ 8 \<Longrightarrow> unat (of_nat v :: u8) = v"
  by (simp add: unat_of_nat)

lemma unat_of_nat_u16: "v < 2 ^ 16 \<Longrightarrow> unat (of_nat v :: u16) = v"
  by (simp add: unat_of_nat)

lemma unat_take_bit_24: "v < 2 ^ 24 \<Longrightarrow> unat (take_bit 24 (of_nat v :: u32)) = v"
  by (simp add: unsigned_take_bit_eq unat_of_nat take_bit_nat_eq_self_iff)

lemmas accessor_defs =
  BulkSetFilter_getChannel_def BulkSetFilter_setChannel_def
  BulkSetFilter_getTrigger_def BulkSetFilter_setTrigger_def
  BulkSetTriggerAndSamplerate_getTriggerSource_def BulkSetTriggerAndSamplerate_setTriggerSource_def
  BulkSetTriggerAndSamplerate_getRecordLength_def BulkSetTriggerAndSamplerate_setRecordLength_def
  BulkSetTriggerAndSamplerate_getSamplerateId_def BulkSetTriggerAndSamplerate_setSamplerateId_def
  BulkSetTriggerAndSamplerate_getDownsamplingMode_def BulkSetTriggerAndSamplerate_setDownsamplingMode_def
  BulkSetTriggerAndSamplerate_getUsedChannels_def BulkSetTriggerAndSamplerate_setUsedChannels_def
  BulkSetTriggerAndSamplerate_getFastRate_def BulkSetTriggerAndSamplerate_setFastRate_def
  BulkSetTriggerAndSamplerate_getTriggerSlope_def BulkSetTriggerAndSamplerate_setTriggerSlope_def
  BulkSetTriggerAndSamplerate_getDownsampler_def BulkSetTriggerAndSamplerate_setDownsampler_def
  BulkSetTriggerAndSamplerate_getTriggerPosition_def BulkSetTriggerAndSamplerate_setTriggerPosition_def
  BulkSetGain_getGain_def BulkSetGain_setGain_def
  BulkSetLogicalData_getData_def BulkSetLogicalData_setData_def
  BulkSetChannels2250_getUsedChannels_def BulkSetChannels2250_setUsedChannels_def
  BulkSetTrigger2250_getTriggerSource_def BulkSetTrigger2250_setTriggerSource_def
  BulkSetTrigger2250_getTriggerSlope_def BulkSetTrigger2250_setTriggerSlope_def
  BulkSetSamplerate5200_getSamplerateFast_def BulkSetSamplerate5200_setSamplerateFast_def
  BulkSetSamplerate5200_getSamplerateSlow_def BulkSetSamplerate5200_setSamplerateSlow_def
  BulkSetRecordLength2250_getRecordLength_def BulkSetRecordLength2250_setRecordLength_def
  BulkSetBuffer5200_getTriggerPositionPre_def BulkSetBuffer5200_setTriggerPositionPre_def
  BulkSetBuffer5200_getTriggerPositionPost_def BulkSetBuffer5200_setTriggerPositionPost_def
  BulkSetBuffer5200_getUsedPre_def BulkSetBuffer5200_setUsedPre_def
  BulkSetBuffer5200_getUsedPost_def BulkSetBuffer5200_setUsedPost_def
  BulkSetBuffer5200_getRecordLength_def BulkSetBuffer5200_setRecordLength_def
  BulkSetSamplerate2250_getFastRate_def BulkSetSamplerate2250_setFastRate_def
  BulkSetSamplerate2250_getDownsampling_def BulkSetSamplerate2250_setDownsampling_def
  BulkSetSamplerate2250_getSamplerate_def BulkSetSamplerate2250_setSamplerate_def
  BulkSetTrigger5200_getTriggerSource_def BulkSetTrigger5200_setTriggerSource_def
  BulkSetTrigger5200_getUsedChannels_def BulkSetTrigger5200_setUsedChannels_def
  BulkSetTrigger5200_getFastRate_def BulkSetTrigger5200_setFastRate_def
  BulkSetTrigger5200_getTriggerSlope_def BulkSetTrigger5200_setTriggerSlope_def
  BulkSetTrigger5200_getTriggerPulse_def BulkSetTrigger5200_setTriggerPulse_def
  BulkSetBuffer2250_getTriggerPositionPost_def BulkSetBuffer2250_setTriggerPositionPost_def
  BulkSetBuffer2250_getTriggerPositionPre_def BulkSetBuffer2250_setTriggerPositionPre_def

lemmas roundtrip_simps =
  member_roundtrip flag_roundtrip flag_roundtrip_inverted le16 le24 le24_promoted
  unat_of_nat_u8 unat_of_nat_u16 unat_take_bit_24

lemma bit_bf_write_pos:
  "bf_ok f \<Longrightarrow> 0 < bf_width f \<Longrightarrow> bit (bf_write f v b) (bf_pos f) = bit v 0"
  unfolding bf_write_def bf_ok_def
  by (auto simp add: bit_simps)

lemma nat_bytes_or_eq_add:
  fixes x y z :: nat
  shows "take_bit 8 x OR push_bit 8 (take_bit 8 y) OR push_bit 16 (take_bit 8 z)
       = take_bit 8 x + 256 * take_bit 8 y + 65536 * take_bit 8 z"
proof -
  have yz: "push_bit 8 (take_bit 8 y) AND push_bit 16 (take_bit 8 z) = 0"
    by (rule bit_eqI) (auto simp add: bit_simps)
  have xyz: "take_bit 8 x AND (push_bit 8 (take_bit 8 y) OR push_bit 16 (take_bit 8 z)) = 0"
    by (rule bit_eqI) (auto simp add: bit_simps)
  have "take_bit 8 x OR push_bit 8 (take_bit 8 y) OR push_bit 16 (take_bit 8 z)
      = take_bit 8 x + (push_bit 8 (take_bit 8 y) + push_bit 16 (take_bit 8 z))"
    using disjunctive_add_eq_or [OF yz] disjunctive_add_eq_or [OF xyz] by simp
  then show ?thesis by (simp add: push_bit_eq_mult)
qed

lemma unat_u8_less: "unat (b :: u8) < 256"
proof -
  have "unat b < 2 ^ LENGTH(8)" by (rule unsigned_less)
  then show ?thesis by simp
qed

lemma unat_u8_take_bit: "take_bit 8 (unat (b :: u8)) = unat b"
  using unat_u8_less [of b] by (simp add: take_bit_nat_eq_self_iff)

lemma unat_ucast_u8_u32: "unat (ucast (b :: u8) :: u32) = take_bit 8 (unat b)"
proof -
  have "unat b < 2 ^ 32" using unat_u8_less [of b] by simp
  then show ?thesis
    by (simp add: unsigned_ucast_eq unat_u8_take_bit take_bit_nat_eq_self_iff)
qed

lemma unat_push_bit_8_u32:
  "unat (push_bit 8 (ucast (b :: u8) :: u32)) = push_bit 8 (take_bit 8 (unat b))"
proof -
  have "unat b < 2 ^ 8" using unat_u8_less [of b] by simp
  then have "push_bit 8 (unat b) < 2 ^ 32" by (simp add: push_bit_eq_mult)
  then show ?thesis
    by (simp add: unsigned_push_bit_eq unat_ucast_u8_u32 unat_u8_take_bit
        take_bit_nat_eq_self_iff)
qed

lemma unat_push_bit_16_u32:
  "unat (push_bit 16 (ucast (b :: u8) :: u32)) = push_bit 16 (take_bit 8 (unat b))"
proof -
  have "unat b < 2 ^ 8" using unat_u8_less [of b] by simp
  then have "push_bit 16 (unat b) < 2 ^ 32" by (simp add: push_bit_eq_mult)
  then show ?thesis
    by (simp add: unsigned_push_bit_eq unat_ucast_u8_u32 unat_u8_take_bit
        take_bit_nat_eq_self_iff)
qed

lemma unat_le24_bytes:
  fixes l m h :: u8
  shows "unat ((ucast l :: u32) OR push_bit 8 (ucast m :: u32) OR push_bit 16 (ucast h :: u32))
       = unat l + 256 * unat m + 65536 * unat h"
  unfolding unsigned_or_eq unat_ucast_u8_u32 unat_push_bit_8_u32 unat_push_bit_16_u32
    nat_bytes_or_eq_add
  by (simp add: unat_u8_take_bit)

lemma Buffer5200_apply_sentinels:
  assumes "length a = 10" "a ! 5 = 0xff" "a ! 9 = 0xff"
  shows "length (Buffer5200_apply L c a) = 10 \<and> Buffer5200_apply L c a ! 5 = 0xff
       \<and> Buffer5200_apply L c a ! 9 = 0xff"
  using assms
  by (cases c)
    (simp_all add: BulkSetBuffer5200_setTriggerPositionPre_def
      BulkSetBuffer5200_setTriggerPositionPost_def BulkSetBuffer5200_setUsedPre_def
      BulkSetBuffer5200_setUsedPost_def BulkSetBuffer5200_setRecordLength_def poke_def)

lemma Buffer5200_fold_sentinels:
  "length a = 10 \<Longrightarrow> a ! 5 = 0xff \<Longrightarrow> a ! 9 = 0xff \<Longrightarrow>
   length (fold (Buffer5200_apply L) cs a) = 10 \<and> fold (Buffer5200_apply L) cs a ! 5 = 0xff
     \<and> fold (Buffer5200_apply L) cs a ! 9 = 0xff"
proof (induction cs arbitrary: a)
  case Nil
  then show ?case by simp
next
  case (Cons c cs)
  from Buffer5200_apply_sentinels [OF Cons.prems, of L c]
  have "length (Buffer5200_apply L c a) = 10" "Buffer5200_apply L c a ! 5 = 0xff"
    "Buffer5200_apply L c a ! 9 = 0xff" by simp_all
  from Cons.IH [OF this] show ?case by simp
qed

lemma Trigger5200_apply_sentinel:
  assumes "length a = 8" "a ! 4 = 0x02"
  shows "length (Trigger5200_apply L c a) = 8 \<and> Trigger5200_apply L c a ! 4 = 0x02"
  using assms
  by (cases c)
    (simp_all add: BulkSetTrigger5200_setTriggerSource_def BulkSetTrigger5200_setUsedChannels_def
      BulkSetTrigger5200_setFastRate_def BulkSetTrigger5200_setTriggerSlope_def
      BulkSetTrigger5200_setTriggerPulse_def poke_def)

lemma Trigger5200_fold_sentinel:
  "length a = 8 \<Longrightarrow> a ! 4 = 0x02 \<Longrightarrow>
   length (fold (Trigger5200_apply L) cs a) = 8 \<and> fold (Trigger5200_apply L) cs a ! 4 = 0x02"
proof (induction cs arbitrary: a)
  case Nil
  then show ?case by simp
next
  case (Cons c cs)
  from Trigger5200_apply_sentinel [OF Cons.prems, of L c]
  have "length (Trigger5200_apply L c a) = 8" "Trigger5200_apply L c a ! 4 = 0x02" by simp_all
  from Cons.IH [OF this] show ?case by simp
qed

lemma BulkSetBuffer5200_ctor_as_calls:
  "BulkSetBuffer5200_ctor L pre post usedPre usedPost recordLength =
   fold (Buffer5200_apply L)
     [SetTriggerPositionPre pre, SetTriggerPositionPost post, SetUsedPre usedPre,
      SetUsedPost usedPost, SetRecordLength recordLength] BulkSetBuffer5200_default"
  by (simp add: BulkSetBuffer5200_ctor_def BulkSetBuffer5200_default_def)

lemma BulkSetBuffer5200_default_sentinels:
  "length BulkSetBuffer5200_default = 10" "BulkSetBuffer5200_default ! 5 = 0xff"
  "BulkSetBuffer5200_default ! 9 = 0xff"
  by (simp_all add: BulkSetBuffer5200_default_def BulkSetBuffer5200_init_def DataArray_def)

lemma BulkSetTrigger5200_default_sentinel:
  "length BulkSetTrigger5200_default = 8" "BulkSetTrigger5200_default ! 4 = 0x02"
  by (simp_all add: BulkSetTrigger5200_default_def BulkSetTrigger5200_init_def DataArray_def)

subsection \<open>Round trip of every field\<close>

text \<open>
  Claim C1. For every frame type and every field, the setter called with a value in the
  field's declared range followed by the matching getter returns that value, whatever
  the other bytes and bits of the frame hold. The frame \<open>a\<close> is any byte array of a
  length the class's constructors allocate; the bit-field table \<open>L\<close> is arbitrary, and
  \<open>in_range\<close> asks of it only that the member being accessed lies inside its byte.
\<close>

theorem field_roundtrip:
  assumes "in_range L f v" and "frame_of f a"
  shows "get_field L f (set_field L f v a) = v"
  using assms
  apply (cases f)
  apply (simp_all add: frame_of_def accessor_defs roundtrip_simps)
  apply (auto simp add: flag_range_def peek_poke take_bit_one_u8 of_bool_nat_def
      le24 le24_promoted unat_take_bit_24 split: if_splits)
  done

text \<open>
  The round trip at the 24-bit trigger position \<open>0xAABBCC\<close> of a freshly constructed
  trigger-and-samplerate frame.
\<close>

theorem field_roundtrip_witness:
  "in_range (\<lambda>m. \<lparr>bf_pos = 0, bf_width = 1\<rparr>) Tsr_triggerPosition 0xAABBCC
   \<and> frame_of Tsr_triggerPosition BulkSetTriggerAndSamplerate_default
   \<and> get_field (\<lambda>m. \<lparr>bf_pos = 0, bf_width = 1\<rparr>) Tsr_triggerPosition
        (set_field (\<lambda>m. \<lparr>bf_pos = 0, bf_width = 1\<rparr>) Tsr_triggerPosition 0xAABBCC
           BulkSetTriggerAndSamplerate_default) = 0xAABBCC"
proof -
  have r: "in_range (\<lambda>m. \<lparr>bf_pos = 0, bf_width = 1\<rparr>) Tsr_triggerPosition 0xAABBCC"
    by simp
  have f: "frame_of Tsr_triggerPosition BulkSetTriggerAndSamplerate_default"
    by (simp add: frame_of_def BulkSetTriggerAndSamplerate_default_def
        BulkSetTriggerAndSamplerate_init_def DataArray_def)
  from field_roundtrip [OF r f] r f show ?thesis by blast
qed

subsection \<open>Capture-state response\<close>

text \<open>
  The 512-byte capture-state response decodes with the state taken from the byte at
  offset 0 and the 24-bit trigger point assembled from byte 2 as low, byte 3 as middle
  and byte 1 as high byte. A response starting \<open>{0x02, 0xAB, 0x34, 0x12}\<close> decodes to the
  trigger point \<open>0xAB1234\<close> and to the state of value \<open>0x02\<close>. Which enumerator of
  \<^verbatim>\<open>CaptureState\<close> has that value is written in \<^verbatim>\<open>states.h\<close> and is not settled here.
\<close>

lemma capture_state_response_layout:
  assumes "length a = 512"
  shows "BulkResponseGetCaptureState_getCaptureState a = uint (a ! 0)
       \<and> unat (BulkResponseGetCaptureState_getTriggerPoint a)
           = unat (a ! 2) + 256 * unat (a ! 3) + 65536 * unat (a ! 1)
       \<and> (take 4 a = [0x02, 0xAB, 0x34, 0x12] \<longrightarrow>
            BulkResponseGetCaptureState_getCaptureState a = 0x02
            \<and> BulkResponseGetCaptureState_getTriggerPoint a = 0xAB1234)"
proof -
  have tp: "unat (BulkResponseGetCaptureState_getTriggerPoint a)
           = unat (a ! 2) + 256 * unat (a ! 3) + 65536 * unat (a ! 1)"
    unfolding BulkResponseGetCaptureState_getTriggerPoint_def by (rule unat_le24_bytes)
  have ex: "BulkResponseGetCaptureState_getCaptureState a = 0x02
            \<and> BulkResponseGetCaptureState_getTriggerPoint a = 0xAB1234"
    if t: "take 4 a = [0x02, 0xAB, 0x34, 0x12]"
  proof -
    have "take 4 a ! 0 = 0x02" "take 4 a ! 1 = 0xAB" "take 4 a ! 2 = 0x34" "take 4 a ! 3 = 0x12"
      unfolding t by simp_all
    then have b: "a ! 0 = 0x02" "a ! 1 = 0xAB" "a ! 2 = 0x34" "a ! 3 = 0x12"
      by simp_all
    show ?thesis
      unfolding BulkResponseGetCaptureState_getCaptureState_def
        BulkResponseGetCaptureState_getTriggerPoint_def b
      by simp
  qed
  from tp ex show ?thesis
    by (simp add: BulkResponseGetCaptureState_getCaptureState_def)
qed

text \<open>
  The response \<open>{0x02, 0xAB, 0x34, 0x12, 0, \<dots>}\<close>.
\<close>

lemma capture_state_response_layout_example:
  "length ([0x02, 0xAB, 0x34, 0x12] @ replicate 508 (0 :: u8)) = 512
   \<and> take 4 ([0x02, 0xAB, 0x34, 0x12] @ replicate 508 (0 :: u8)) = [0x02, 0xAB, 0x34, 0x12]
   \<and> BulkResponseGetCaptureState_getCaptureState
        ([0x02, 0xAB, 0x34, 0x12] @ replicate 508 0) = 0x02
   \<and> BulkResponseGetCaptureState_getTriggerPoint
        ([0x02, 0xAB, 0x34, 0x12] @ replicate 508 0) = 0xAB1234"
proof -
  let ?a = "[0x02, 0xAB, 0x34, 0x12] @ replicate 508 (0 :: u8)"
  have l: "length ?a = 512" by simp
  have t: "take 4 ?a = [0x02, 0xAB, 0x34, 0x12]" by simp
  from capture_state_response_layout [OF l] t l show ?thesis by blast
qed

subsection \<open>Split trigger position\<close>

text \<open>
  Claim C3. \<^verbatim>\<open>BulkSetTriggerAndSamplerate::setTriggerPosition(p)\<close> stores the low byte
  of the 24-bit value \<open>p\<close> at offset 6, the middle byte at offset 7 and the high byte at
  offset 10, and the getter then returns \<open>p\<close>; for \<open>p = 0xAABBCC\<close> the three bytes
  are \<open>0xCC\<close>, \<open>0xBB\<close> and \<open>0xAA\<close>.
\<close>

theorem setTriggerPosition_bytes:
  assumes "length a = 12" and "unat p < 2 ^ 24"
  shows "unat (BulkSetTriggerAndSamplerate_setTriggerPosition p a ! 6) = unat p mod 256
       \<and> unat (BulkSetTriggerAndSamplerate_setTriggerPosition p a ! 7) = unat p div 256 mod 256
       \<and> unat (BulkSetTriggerAndSamplerate_setTriggerPosition p a ! 10) = unat p div 65536
       \<and> BulkSetTriggerAndSamplerate_getTriggerPosition
            (BulkSetTriggerAndSamplerate_setTriggerPosition p a) = p
       \<and> BulkSetTriggerAndSamplerate_setTriggerPosition 0xAABBCC a ! 6 = 0xCC
       \<and> BulkSetTriggerAndSamplerate_setTriggerPosition 0xAABBCC a ! 7 = 0xBB
       \<and> BulkSetTriggerAndSamplerate_setTriggerPosition 0xAABBCC a ! 10 = 0xAA
       \<and> BulkSetTriggerAndSamplerate_getTriggerPosition
            (BulkSetTriggerAndSamplerate_setTriggerPosition 0xAABBCC a) = 0xAABBCC"
proof -
  let ?a = "BulkSetTriggerAndSamplerate_setTriggerPosition p a"
  have b6: "?a ! 6 = ucast p" and b7: "?a ! 7 = ucast (drop_bit 8 p)"
    and b10: "?a ! 10 = ucast (drop_bit 16 p)"
    using assms(1) by (simp_all add: BulkSetTriggerAndSamplerate_setTriggerPosition_def)
  have u6: "unat (ucast p :: u8) = unat p mod 256"
    by (simp add: unsigned_ucast_eq take_bit_eq_mod)
  have u7: "unat (ucast (drop_bit 8 p) :: u8) = unat p div 256 mod 256"
    by (simp add: unsigned_ucast_eq take_bit_eq_mod unat_drop_bit_eq drop_bit_eq_div unat_div)
  have "unat (ucast (drop_bit 16 p) :: u8) = unat p div 65536 mod 256"
    by (simp add: unsigned_ucast_eq take_bit_eq_mod unat_drop_bit_eq drop_bit_eq_div unat_div)
  moreover have "unat p div 65536 < 256" using assms(2) by simp
  ultimately have u10: "unat (ucast (drop_bit 16 p) :: u8) = unat p div 65536" by simp
  have tb: "take_bit 24 p = p"
    using assms(2) by (simp add: word_eq_iff_unsigned [where ?'a = nat] unsigned_take_bit_eq take_bit_nat_eq_self_iff)
  have g: "BulkSetTriggerAndSamplerate_getTriggerPosition ?a = p"
    unfolding BulkSetTriggerAndSamplerate_getTriggerPosition_def b6 b7 b10 le24 by (rule tb)
  have c: "BulkSetTriggerAndSamplerate_setTriggerPosition 0xAABBCC a ! 6 = 0xCC"
    "BulkSetTriggerAndSamplerate_setTriggerPosition 0xAABBCC a ! 7 = 0xBB"
    "BulkSetTriggerAndSamplerate_setTriggerPosition 0xAABBCC a ! 10 = 0xAA"
    using assms(1) by (simp_all add: BulkSetTriggerAndSamplerate_setTriggerPosition_def)
  have cg: "BulkSetTriggerAndSamplerate_getTriggerPosition
            (BulkSetTriggerAndSamplerate_setTriggerPosition 0xAABBCC a) = 0xAABBCC"
    unfolding BulkSetTriggerAndSamplerate_getTriggerPosition_def c by simp
  show ?thesis using b6 b7 b10 u6 u7 u10 g c cg by simp
qed

theorem setTriggerPosition_bytes_witness:
  "length BulkSetTriggerAndSamplerate_default = 12 \<and> unat (0xAABBCC :: u32) < 2 ^ 24
   \<and> BulkSetTriggerAndSamplerate_setTriggerPosition 0xAABBCC BulkSetTriggerAndSamplerate_default ! 6 = 0xCC
   \<and> BulkSetTriggerAndSamplerate_setTriggerPosition 0xAABBCC BulkSetTriggerAndSamplerate_default ! 7 = 0xBB
   \<and> BulkSetTriggerAndSamplerate_setTriggerPosition 0xAABBCC BulkSetTriggerAndSamplerate_default ! 10 = 0xAA
   \<and> BulkSetTriggerAndSamplerate_getTriggerPosition
        (BulkSetTriggerAndSamplerate_setTriggerPosition 0xAABBCC BulkSetTriggerAndSamplerate_default)
       = 0xAABBCC"
proof -
  have l: "length BulkSetTriggerAndSamplerate_default = 12"
    by (simp add: BulkSetTriggerAndSamplerate_default_def BulkSetTriggerAndSamplerate_init_def
        DataArray_def)
  have r: "unat (0xAABBCC :: u32) < 2 ^ 24" by simp
  from setTriggerPosition_bytes [OF l r] l r show ?thesis by blast
qed

subsection \<open>Sentinel bytes\<close>

text \<open>
  Claim C4. Whatever sequence \<open>cs\<close> of setter calls is made on a 5200 buffer frame,
  fresh from the default constructor or from the constructor called with
  \<open>pre = 0x1234\<close> and \<open>post = 0x5678\<close>, the bytes at offsets 5 and 9 stay \<open>0xff\<close>;
  whatever sequence \<open>ts\<close> of setter calls is made on a 5200 trigger frame, the byte at
  offset 4 stays \<open>0x02\<close>.
\<close>

theorem setters_preserve_sentinels:
  "fold (Buffer5200_apply L) cs BulkSetBuffer5200_default ! 5 = 0xff
   \<and> fold (Buffer5200_apply L) cs BulkSetBuffer5200_default ! 9 = 0xff
   \<and> fold (Buffer5200_apply L) cs
        (BulkSetBuffer5200_ctor L 0x1234 0x5678 usedPre usedPost recordLength) ! 5 = 0xff
   \<and> fold (Buffer5200_apply L) cs
        (BulkSetBuffer5200_ctor L 0x1234 0x5678 usedPre usedPost recordLength) ! 9 = 0xff
   \<and> BulkSetBuffer5200_ctor L 0x1234 0x5678 usedPre usedPost recordLength ! 5 = 0xff
   \<and> BulkSetBuffer5200_ctor L 0x1234 0x5678 usedPre usedPost recordLength ! 9 = 0xff
   \<and> fold (Trigger5200_apply L) ts BulkSetTrigger5200_default ! 4 = 0x02"
proof -
  note d = BulkSetBuffer5200_default_sentinels
  have c: "length (BulkSetBuffer5200_ctor L 0x1234 0x5678 usedPre usedPost recordLength) = 10"
    "BulkSetBuffer5200_ctor L 0x1234 0x5678 usedPre usedPost recordLength ! 5 = 0xff"
    "BulkSetBuffer5200_ctor L 0x1234 0x5678 usedPre usedPost recordLength ! 9 = 0xff"
    unfolding BulkSetBuffer5200_ctor_as_calls
    using Buffer5200_fold_sentinels [OF d] by blast+
  show ?thesis
    using Buffer5200_fold_sentinels [OF d, of L cs] Buffer5200_fold_sentinels [OF c, of L cs] c
      Trigger5200_fold_sentinel [OF BulkSetTrigger5200_default_sentinel, of L ts]
    by blast
qed

subsection \<open>The two constructors of the 2250 buffer frame\<close>

text \<open>
  Claim C9. The frame built by \<^verbatim>\<open>BulkSetBuffer2250(triggerPositionPre,
  triggerPositionPost)\<close> has an array of 12 bytes, the frame built by
  \<^verbatim>\<open>BulkSetBuffer2250()\<close> one of 10 bytes: the two constructors of the same class
  yield frames of different lengths.
\<close>

theorem BulkSetBuffer2250_constructor_lengths:
  "getSize (BulkSetBuffer2250_ctor triggerPositionPre triggerPositionPost) = 12
   \<and> getSize BulkSetBuffer2250_default = 10
   \<and> getSize (BulkSetBuffer2250_ctor triggerPositionPre triggerPositionPost)
       \<noteq> getSize BulkSetBuffer2250_default"
  by (simp add: getSize_def BulkSetBuffer2250_ctor_def BulkSetBuffer2250_default_def
      BulkSetBuffer2250_init_def BulkSetBuffer2250_setTriggerPositionPost_def
      BulkSetBuffer2250_setTriggerPositionPre_def DataArray_def)

subsection \<open>The inverted fast-rate member of the 5200 trigger frame\<close>

text \<open>
  Claim C10. For every boolean \<open>b\<close>, \<^verbatim>\<open>BulkSetTrigger5200::setFastRate(b)\<close> stores
  the negation of \<open>b\<close> in the fast-rate member of the byte at offset 2 (0 when \<open>b\<close> is
  true, 1 when it is false), \<^verbatim>\<open>getFastRate()\<close> is true exactly when that member is
  0, and set-then-get returns \<open>b\<close>.
\<close>

theorem setFastRate5200_inverted:
  assumes "bf_ok (L ETsrBits_fastRate)" and "0 < bf_width (L ETsrBits_fastRate)"
    and "length a = 8"
  shows "peek L ETsrBits_fastRate 2 (BulkSetTrigger5200_setFastRate L b a) = (if b then 0 else 1)
       \<and> bit (BulkSetTrigger5200_setFastRate L b a ! 2) (bf_pos (L ETsrBits_fastRate)) = (\<not> b)
       \<and> BulkSetTrigger5200_getFastRate L a = (peek L ETsrBits_fastRate 2 a = 0)
       \<and> BulkSetTrigger5200_getFastRate L (BulkSetTrigger5200_setFastRate L b a) = b"
proof -
  have p: "peek L ETsrBits_fastRate 2 (BulkSetTrigger5200_setFastRate L b a) = (if b then 0 else 1)"
    using assms by (simp add: BulkSetTrigger5200_setFastRate_def peek_poke take_bit_one_u8)
  have q: "bit (BulkSetTrigger5200_setFastRate L b a ! 2) (bf_pos (L ETsrBits_fastRate)) = (\<not> b)"
    using assms by (simp add: BulkSetTrigger5200_setFastRate_def poke_def bit_bf_write_pos)
  from p q show ?thesis
    by (simp add: BulkSetTrigger5200_getFastRate_def)
qed

theorem setFastRate5200_inverted_witness:
  "bf_ok \<lparr>bf_pos = 5, bf_width = 1\<rparr> \<and> 0 < bf_width \<lparr>bf_pos = 5, bf_width = 1\<rparr>
   \<and> length BulkSetTrigger5200_default = 8
   \<and> BulkSetTrigger5200_setFastRate (\<lambda>m. \<lparr>bf_pos = 5, bf_width = 1\<rparr>) True
        BulkSetTrigger5200_default ! 2 = 0
   \<and> BulkSetTrigger5200_setFastRate (\<lambda>m. \<lparr>bf_pos = 5, bf_width = 1\<rparr>) False
        BulkSetTrigger5200_default ! 2 = 0x20
   \<and> BulkSetTrigger5200_getFastRate (\<lambda>m. \<lparr>bf_pos = 5, bf_width = 1\<rparr>)
        (BulkSetTrigger5200_setFastRate (\<lambda>m. \<lparr>bf_pos = 5, bf_width = 1\<rparr>) True
           BulkSetTrigger5200_default) = True"
proof -
  let ?L = "\<lambda>m :: bits. \<lparr>bf_pos = 5, bf_width = 1\<rparr>"
  have h1: "bf_ok (?L ETsrBits_fastRate)" by (simp add: bf_ok_def)
  have h2: "0 < bf_width (?L ETsrBits_fastRate)" by simp
  have h3: "length BulkSetTrigger5200_default = 8"
    by (simp add: BulkSetTrigger5200_default_def BulkSetTrigger5200_init_def DataArray_def)
  have e: "BulkSetTrigger5200_setFastRate ?L True BulkSetTrigger5200_default ! 2 = 0"
    "BulkSetTrigger5200_setFastRate ?L False BulkSetTrigger5200_default ! 2 = 0x20"
    by (simp_all add: BulkSetTrigger5200_setFastRate_def BulkSetTrigger5200_default_def
        BulkSetTrigger5200_init_def DataArray_def poke_def bf_write_def)
  from setFastRate5200_inverted [OF h1 h2 h3, of True] h1 h2 h3 e show ?thesis by simp
qed

section \<open>Properties of the USB session\<close>

subsection \<open>Retrying transfers\<close>

lemma bulk_loop_stop:
  "\<not> ((attempt < attempts \<or> attempts = - 1) \<and> errorCode = LIBUSB_ERROR_TIMEOUT) \<Longrightarrow>
   bulkTransfer_loop b ep dat len attempts timeout attempt errorCode xfer s
     = Some (errorCode, xfer, s)"
  by (subst bulkTransfer_loop.simps) auto

lemma bulk_loop_step:
  "(attempt < attempts \<or> attempts = - 1) \<Longrightarrow>
   bulkTransfer_loop b ep dat len attempts timeout attempt LIBUSB_ERROR_TIMEOUT xfer s
     = bulkTransfer_loop b ep dat len attempts timeout (attempt + 1)
         (rc (b (length (transfers s)))) (transferred (b (length (transfers s))))
         (s\<lparr>transfers := transfers s @ [BulkTransfer ep dat len timeout]\<rparr>)"
  by (subst bulkTransfer_loop.simps) (simp add: libusb_bulk_transfer_def Let_def)

lemma bulk_loop_first_answer:
  "(\<forall>j<k. rc (b (length (transfers s) + j)) = LIBUSB_ERROR_TIMEOUT) \<Longrightarrow>
   rc (b (length (transfers s) + k)) \<noteq> LIBUSB_ERROR_TIMEOUT \<Longrightarrow>
   attempt + int k < attempts \<or> attempts = - 1 \<Longrightarrow>
   bulkTransfer_loop b ep dat len attempts timeout attempt LIBUSB_ERROR_TIMEOUT xfer s
     = Some (rc (b (length (transfers s) + k)), transferred (b (length (transfers s) + k)),
             s\<lparr>transfers := transfers s @ replicate (Suc k) (BulkTransfer ep dat len timeout)\<rparr>)"
proof (induction k arbitrary: attempt xfer s)
  case 0
  then show ?case
    by (simp add: bulk_loop_step bulk_loop_stop)
next
  case (Suc k)
  let ?s = "s\<lparr>transfers := transfers s @ [BulkTransfer ep dat len timeout]\<rparr>"
  have a: "attempt < attempts \<or> attempts = - 1" using Suc.prems(3) by auto
  have t0: "rc (b (length (transfers s))) = LIBUSB_ERROR_TIMEOUT"
    using Suc.prems(1) by (metis add.right_neutral zero_less_Suc)
  have h1: "\<forall>j<k. rc (b (length (transfers ?s) + j)) = LIBUSB_ERROR_TIMEOUT"
  proof (intro allI impI)
    fix j assume "j < k"
    then have "Suc j < Suc k" by simp
    from Suc.prems(1) [rule_format, OF this] show "rc (b (length (transfers ?s) + j)) = LIBUSB_ERROR_TIMEOUT"
      by simp
  qed
  have h2: "rc (b (length (transfers ?s) + k)) \<noteq> LIBUSB_ERROR_TIMEOUT"
    using Suc.prems(2) by simp
  have h3: "attempt + 1 + int k < attempts \<or> attempts = - 1"
    using Suc.prems(3) by auto
  show ?case
    unfolding bulk_loop_step [OF a] t0
    by (simp add: Suc.IH [OF h1 h2 h3] replicate_append_same)
qed

lemma bulk_loop_all_timeouts:
  "(\<forall>j<k. rc (b (length (transfers s) + j)) = LIBUSB_ERROR_TIMEOUT) \<Longrightarrow>
   attempt + int k = attempts \<Longrightarrow> attempts \<noteq> - 1 \<Longrightarrow>
   \<exists>x. bulkTransfer_loop b ep dat len attempts timeout attempt LIBUSB_ERROR_TIMEOUT xfer s
     = Some (LIBUSB_ERROR_TIMEOUT, x,
             s\<lparr>transfers := transfers s @ replicate k (BulkTransfer ep dat len timeout)\<rparr>)"
proof (induction k arbitrary: attempt xfer s)
  case 0
  then show ?case
    by (simp add: bulk_loop_stop)
next
  case (Suc k)
  let ?s = "s\<lparr>transfers := transfers s @ [BulkTransfer ep dat len timeout]\<rparr>"
  have a: "attempt < attempts \<or> attempts = - 1" using Suc.prems(2) by auto
  have t0: "rc (b (length (transfers s))) = LIBUSB_ERROR_TIMEOUT"
    using Suc.prems(1) by (metis add.right_neutral zero_less_Suc)
  have h1: "\<forall>j<k. rc (b (length (transfers ?s) + j)) = LIBUSB_ERROR_TIMEOUT"
  proof (intro allI impI)
    fix j assume "j < k"
    then have "Suc j < Suc k" by simp
    from Suc.prems(1) [rule_format, OF this] show "rc (b (length (transfers ?s) + j)) = LIBUSB_ERROR_TIMEOUT"
      by simp
  qed
  have h2: "attempt + 1 + int k = attempts"
    using Suc.prems(2) by auto
  show ?case
    unfolding bulk_loop_step [OF a] t0
    using Suc.IH [OF h1 h2 Suc.prems(3)] by (simp add: replicate_append_same)
qed

lemma bulk_loop_never_returns_aux:
  assumes "bulkTransfer_loop b ep dat len attempts timeout attempt errorCode xfer s = Some y"
  shows "\<not> (attempts = - 1 \<and> errorCode = LIBUSB_ERROR_TIMEOUT
            \<and> (\<forall>j. rc (b (length (transfers s) + j)) = LIBUSB_ERROR_TIMEOUT))"
proof (rule bulkTransfer_loop.raw_induct
    [where P = "\<lambda>b ep dat len attempts timeout attempt errorCode xfer s y.
       \<not> (attempts = - 1 \<and> errorCode = LIBUSB_ERROR_TIMEOUT
          \<and> (\<forall>j. rc (b (length (transfers s) + j)) = LIBUSB_ERROR_TIMEOUT))", OF _ assms],
    goal_cases)
  case (1 loop b ep dat len attempts timeout attempt errorCode xfer s y)
  show ?case
  proof
    assume a: "attempts = - 1 \<and> errorCode = LIBUSB_ERROR_TIMEOUT
          \<and> (\<forall>j. rc (b (length (transfers s) + j)) = LIBUSB_ERROR_TIMEOUT)"
    let ?s = "s\<lparr>transfers := transfers s @ [BulkTransfer ep dat len timeout]\<rparr>"
    from a have t0: "rc (b (length (transfers s))) = LIBUSB_ERROR_TIMEOUT"
      by (metis add.right_neutral)
    have all: "\<forall>j. rc (b (length (transfers ?s) + j)) = LIBUSB_ERROR_TIMEOUT"
    proof
      fix j
      from a have "rc (b (length (transfers s) + Suc j)) = LIBUSB_ERROR_TIMEOUT" by blast
      then show "rc (b (length (transfers ?s) + j)) = LIBUSB_ERROR_TIMEOUT" by simp
    qed
    have c: "(attempt < attempts \<or> attempts = - 1) \<and> errorCode = LIBUSB_ERROR_TIMEOUT"
      using a by simp
    have r: "libusb_bulk_transfer b ep dat len timeout s
        = (LIBUSB_ERROR_TIMEOUT, transferred (b (length (transfers s))), ?s)"
      by (simp add: libusb_bulk_transfer_def Let_def t0)
    from "1"(2) have "loop b ep dat len attempts timeout (attempt + 1) LIBUSB_ERROR_TIMEOUT
          (transferred (b (length (transfers s)))) ?s = Some y"
      unfolding if_P [OF c] r Let_def fst_conv snd_conv .
    from "1"(1) [OF this] a all show False by blast
  qed
qed

lemma bulk_loop_never_returns:
  assumes "\<forall>j. rc (b (length (transfers s) + j)) = LIBUSB_ERROR_TIMEOUT"
  shows "bulkTransfer_loop b ep dat len (- 1) timeout attempt LIBUSB_ERROR_TIMEOUT xfer s = None"
proof (cases "bulkTransfer_loop b ep dat len (- 1) timeout attempt LIBUSB_ERROR_TIMEOUT xfer s")
  case None
  then show ?thesis .
next
  case (Some y)
  from bulk_loop_never_returns_aux [OF Some] assms show ?thesis by blast
qed

lemma control_loop_stop:
  "\<not> ((attempt < attempts \<or> attempts = - 1) \<and> errorCode = LIBUSB_ERROR_TIMEOUT) \<Longrightarrow>
   controlTransfer_loop b K type request len val index attempts attempt errorCode dat s
     = Some (errorCode, dat, s)"
  by (subst controlTransfer_loop.simps) auto

lemma control_loop_step:
  "(attempt < attempts \<or> attempts = - 1) \<Longrightarrow>
   controlTransfer_loop b K type request len val index attempts attempt LIBUSB_ERROR_TIMEOUT dat s
     = controlTransfer_loop b K type request len val index attempts (attempt + 1)
         (fst (libusb_control_transfer b type request val index dat len (HANTEK_TIMEOUT K) s))
         (fst (snd (libusb_control_transfer b type request val index dat len (HANTEK_TIMEOUT K) s)))
         (snd (snd (libusb_control_transfer b type request val index dat len (HANTEK_TIMEOUT K) s)))"
  by (subst controlTransfer_loop.simps) (simp add: Let_def)

text \<open>Termination with a bounded number of attempts.\<close>

lemma bulk_loop_returns:
  "attempts \<noteq> - 1 \<Longrightarrow>
   \<exists>y. bulkTransfer_loop b ep dat len attempts timeout attempt errorCode xfer s = Some y"
proof (induction "nat (attempts - attempt)" arbitrary: attempt errorCode xfer s)
  case 0
  then have "\<not> ((attempt < attempts \<or> attempts = - 1) \<and> errorCode = LIBUSB_ERROR_TIMEOUT)"
    by auto
  from bulk_loop_stop [OF this] show ?case by blast
next
  case (Suc n)
  show ?case
  proof (cases "errorCode = LIBUSB_ERROR_TIMEOUT")
    case True
    from Suc.hyps(2) have a: "attempt < attempts \<or> attempts = - 1" by linarith
    from Suc.hyps(2) have "n = nat (attempts - (attempt + 1))" by linarith
    from Suc.hyps(1) [OF this Suc.prems] show ?thesis
      unfolding True bulk_loop_step [OF a] by blast
  next
    case False
    then have "\<not> ((attempt < attempts \<or> attempts = - 1) \<and> errorCode = LIBUSB_ERROR_TIMEOUT)"
      by simp
    from bulk_loop_stop [OF this] show ?thesis by blast
  qed
qed

lemma control_loop_returns:
  "attempts \<noteq> - 1 \<Longrightarrow>
   \<exists>y. controlTransfer_loop b K type request len val index attempts attempt errorCode dat s = Some y"
proof (induction "nat (attempts - attempt)" arbitrary: attempt errorCode dat s)
  case 0
  then have "\<not> ((attempt < attempts \<or> attempts = - 1) \<and> errorCode = LIBUSB_ERROR_TIMEOUT)"
    by auto
  from control_loop_stop [OF this] show ?case by blast
next
  case (Suc n)
  show ?case
  proof (cases "errorCode = LIBUSB_ERROR_TIMEOUT")
    case True
    from Suc.hyps(2) have a: "attempt < attempts \<or> attempts = - 1" by linarith
    from Suc.hyps(2) have "n = nat (attempts - (attempt + 1))" by linarith
    from Suc.hyps(1) [OF this Suc.prems] show ?thesis
      unfolding True control_loop_step [OF a] by blast
  next
    case False
    then have "\<not> ((attempt < attempts \<or> attempts = - 1) \<and> errorCode = LIBUSB_ERROR_TIMEOUT)"
      by simp
    from control_loop_stop [OF this] show ?thesis by blast
  qed
qed

text \<open>What a loop that returns has added to the transfers.\<close>

lemma bulk_loop_trace:
  assumes "bulkTransfer_loop b ep dat len attempts timeout attempt errorCode xfer s = Some y"
  shows "\<exists>n. snd (snd y) = s\<lparr>transfers := transfers s @ replicate n (BulkTransfer ep dat len timeout)\<rparr>
            \<and> (n = 0 \<longrightarrow> fst y = errorCode)"
proof (rule bulkTransfer_loop.raw_induct
    [where P = "\<lambda>b ep dat len attempts timeout attempt errorCode xfer s y.
       \<exists>n. snd (snd y) = s\<lparr>transfers := transfers s @ replicate n (BulkTransfer ep dat len timeout)\<rparr>
            \<and> (n = 0 \<longrightarrow> fst y = errorCode)", OF _ assms],
    goal_cases)
  case (1 loop b ep dat len attempts timeout attempt errorCode xfer s y)
  show ?case
  proof (cases "(attempt < attempts \<or> attempts = - 1) \<and> errorCode = LIBUSB_ERROR_TIMEOUT")
    case True
    let ?s = "s\<lparr>transfers := transfers s @ [BulkTransfer ep dat len timeout]\<rparr>"
    from "1"(2) have "loop b ep dat len attempts timeout (attempt + 1)
        (rc (b (length (transfers s)))) (transferred (b (length (transfers s)))) ?s = Some y"
      unfolding if_P [OF True] by (simp add: libusb_bulk_transfer_def Let_def)
    from "1"(1) [OF this] obtain n where
      "snd (snd y) = ?s\<lparr>transfers := transfers ?s @ replicate n (BulkTransfer ep dat len timeout)\<rparr>"
      by blast
    then have "snd (snd y) = s\<lparr>transfers := transfers s @ replicate (Suc n) (BulkTransfer ep dat len timeout)\<rparr>"
      by (simp add: replicate_append_same)
    then show ?thesis by (intro exI [of _ "Suc n"]) simp
  next
    case False
    from "1"(2) have "y = (errorCode, xfer, s)"
      unfolding if_not_P [OF False] by simp
    then show ?thesis by (intro exI [of _ 0]) simp
  qed
qed

lemma control_loop_trace:
  assumes "controlTransfer_loop b K type request len val index attempts attempt errorCode dat s = Some y"
  shows "\<exists>n. snd (snd y) = s\<lparr>transfers := transfers s
                @ replicate n (ControlTransfer type request val index dat len (HANTEK_TIMEOUT K))\<rparr>
            \<and> (n = 0 \<longrightarrow> fst y = errorCode) \<and> (errorCode \<noteq> LIBUSB_ERROR_TIMEOUT \<longrightarrow> n = 0)"
proof (rule controlTransfer_loop.raw_induct
    [where P = "\<lambda>b K type request len val index attempts attempt errorCode dat s y.
       \<exists>n. snd (snd y) = s\<lparr>transfers := transfers s
                @ replicate n (ControlTransfer type request val index dat len (HANTEK_TIMEOUT K))\<rparr>
            \<and> (n = 0 \<longrightarrow> fst y = errorCode) \<and> (errorCode \<noteq> LIBUSB_ERROR_TIMEOUT \<longrightarrow> n = 0)",
     OF _ assms],
    goal_cases)
  case (1 loop b K type request len val index attempts attempt errorCode dat s y)
  let ?ev = "ControlTransfer type request val index dat len (HANTEK_TIMEOUT K)"
  show ?case
  proof (cases "(attempt < attempts \<or> attempts = - 1) \<and> errorCode = LIBUSB_ERROR_TIMEOUT")
    case True
    let ?s = "s\<lparr>transfers := transfers s @ [?ev]\<rparr>"
    let ?r = "b (length (transfers s))"
    show ?thesis
    proof (cases "rc ?r = LIBUSB_ERROR_TIMEOUT")
      case t: True
      then have neg: "rc ?r < 0" by (simp add: LIBUSB_ERROR_TIMEOUT_def)
      from "1"(2) have "loop b K type request len val index attempts (attempt + 1)
          (rc ?r) dat ?s = Some y"
        unfolding if_P [OF True] using neg by (simp add: libusb_control_transfer_def Let_def)
      from "1"(1) [OF this] obtain n where
        "snd (snd y) = ?s\<lparr>transfers := transfers ?s @ replicate n ?ev\<rparr>"
        by blast
      then have "snd (snd y) = s\<lparr>transfers := transfers s @ replicate (Suc n) ?ev\<rparr>"
        by (simp add: replicate_append_same)
      then show ?thesis using True by (intro exI [of _ "Suc n"]) simp
    next
      case f: False
      let ?d = "fst (snd (libusb_control_transfer b type request val index dat len (HANTEK_TIMEOUT K) s))"
      from "1"(2) have l: "loop b K type request len val index attempts (attempt + 1)
          (rc ?r) ?d ?s = Some y"
        unfolding if_P [OF True] by (simp add: libusb_control_transfer_def Let_def)
      from "1"(1) [OF this] f have "snd (snd y) = ?s"
        by auto
      then have "snd (snd y) = s\<lparr>transfers := transfers s @ replicate (Suc 0) ?ev\<rparr>"
        by simp
      then show ?thesis using True by (intro exI [of _ "Suc 0"]) simp
    qed
  next
    case False
    from "1"(2) have "y = (errorCode, dat, s)"
      unfolding if_not_P [OF False] by simp
    then show ?thesis by (intro exI [of _ 0]) simp
  qed
qed

text \<open>The transfers of the composed operations.\<close>

lemma transfers_connectionLost: "transfers (connectionLost s) = transfers s"
  by (simp add: connectionLost_def)

lemma controlTransfer_trace:
  assumes "controlTransfer b K type request dat len val index attempts s = Some (ec, d, s')"
  shows "\<exists>n. transfers s' = transfers s
            @ replicate n (ControlTransfer type request val index dat len (HANTEK_TIMEOUT K))
          \<and> (0 \<le> ec \<longrightarrow> 0 < n)"
proof (cases "handle s")
  case False
  with assms have "ec = LIBUSB_ERROR_NO_DEVICE" "s' = s"
    by (simp_all add: controlTransfer_def)
  then show ?thesis by (intro exI [of _ 0]) (simp add: LIBUSB_ERROR_NO_DEVICE_def)
next
  case True
  with assms obtain y where
    y: "controlTransfer_loop b K type request len val index attempts 0 LIBUSB_ERROR_TIMEOUT dat s = Some y"
    and e: "ec = fst y"
    and s': "s' = (if fst y = LIBUSB_ERROR_NO_DEVICE then connectionLost (snd (snd y)) else snd (snd y))"
    by (auto simp add: controlTransfer_def Let_def split: Option.bind_splits prod.splits)
  from control_loop_trace [OF y] obtain n where
    n: "snd (snd y) = s\<lparr>transfers := transfers s
            @ replicate n (ControlTransfer type request val index dat len (HANTEK_TIMEOUT K))\<rparr>"
       "n = 0 \<longrightarrow> fst y = LIBUSB_ERROR_TIMEOUT"
    by blast
  have "transfers s' = transfers (snd (snd y))"
    unfolding s' by (simp add: transfers_connectionLost)
  with n e show ?thesis
    by (intro exI [of _ n]) (auto simp add: LIBUSB_ERROR_TIMEOUT_def)
qed

lemma bulkTransfer_trace:
  assumes "bulkTransfer b ep dat len attempts timeout s = Some (ec, s')"
  shows "\<exists>n. transfers s' = transfers s @ replicate n (BulkTransfer ep dat len timeout)"
proof (cases "handle s")
  case False
  with assms have "s' = s"
    by (simp add: bulkTransfer_def)
  then show ?thesis by (intro exI [of _ 0]) simp
next
  case True
  with assms obtain y where
    y: "bulkTransfer_loop b ep dat len attempts timeout 0 LIBUSB_ERROR_TIMEOUT 0 s = Some y"
    and s': "s' = (if fst y = LIBUSB_ERROR_NO_DEVICE then connectionLost (snd (snd y)) else snd (snd y))"
    by (auto simp add: bulkTransfer_def Let_def split: Option.bind_splits prod.splits if_splits)
  from bulk_loop_trace [OF y] obtain n where
    n: "snd (snd y) = s\<lparr>transfers := transfers s @ replicate n (BulkTransfer ep dat len timeout)\<rparr>"
    by blast
  have "transfers s' = transfers (snd (snd y))"
    unfolding s' by (simp add: transfers_connectionLost)
  with n show ?thesis
    by (intro exI [of _ n]) simp
qed

lemma getConnectionSpeed_trace:
  assumes "getConnectionSpeed b K s = Some (ec, s')"
  shows "\<exists>n. transfers s' = transfers s
            @ replicate n (ControlTransfer (LIBUSB_REQUEST_TYPE_VENDOR OR LIBUSB_ENDPOINT_IN)
                (ControlCode_value CONTROL_GETSPEED) (default_value K) (default_index K)
                ControlGetSpeed (getSize ControlGetSpeed) (HANTEK_TIMEOUT K))
          \<and> (0 \<le> ec \<longrightarrow> 0 < n)"
proof -
  let ?ev = "ControlTransfer (LIBUSB_REQUEST_TYPE_VENDOR OR LIBUSB_ENDPOINT_IN)
                (ControlCode_value CONTROL_GETSPEED) (default_value K) (default_index K)
                ControlGetSpeed (getSize ControlGetSpeed) (HANTEK_TIMEOUT K)"
  from assms obtain e d where
    c: "controlRead b K (ControlCode_value CONTROL_GETSPEED) ControlGetSpeed
           (getSize ControlGetSpeed) (default_value K) (default_index K) (default_attempts K) s
         = Some (e, d, s')"
    and e: "e < 0 \<longrightarrow> ec = e"
    by (auto simp add: getConnectionSpeed_def split: Option.bind_splits prod.splits if_splits)
  show ?thesis
  proof (cases "handle s")
    case False
    with c have "e = LIBUSB_ERROR_NO_DEVICE" "s' = s"
      by (simp_all add: controlRead_def)
    with e show ?thesis
      by (intro exI [of _ 0]) (simp add: LIBUSB_ERROR_NO_DEVICE_def)
  next
    case True
    with c have "controlTransfer b K (LIBUSB_REQUEST_TYPE_VENDOR OR LIBUSB_ENDPOINT_IN)
        (ControlCode_value CONTROL_GETSPEED) ControlGetSpeed (getSize ControlGetSpeed)
        (default_value K) (default_index K) (default_attempts K) s = Some (e, d, s')"
      by (simp add: controlRead_def)
    from controlTransfer_trace [OF this] obtain n where
      n: "transfers s' = transfers s @ replicate n ?ev" "0 \<le> e \<longrightarrow> 0 < n"
      by blast
    with e show ?thesis
      by (intro exI [of _ n]) auto
  qed
qed

lemma bulkWrite_trace:
  assumes "bulkWrite b K dat len attempts s = Some (ec, s')"
  shows "\<exists>m n. transfers s' = transfers s
            @ replicate m (ControlTransfer (LIBUSB_REQUEST_TYPE_VENDOR OR LIBUSB_ENDPOINT_IN)
                (ControlCode_value CONTROL_GETSPEED) (default_value K) (default_index K)
                ControlGetSpeed (getSize ControlGetSpeed) (HANTEK_TIMEOUT K))
            @ replicate n (BulkTransfer (HANTEK_EP_OUT K) dat len (default_timeout K))
          \<and> (0 < n \<longrightarrow> 0 < m)"
proof (cases "handle s")
  case False
  with assms have "s' = s" by (simp add: bulkWrite_def)
  then show ?thesis by (intro exI [of _ 0]) simp
next
  case True
  with assms obtain e s1 where
    g: "getConnectionSpeed b K s = Some (e, s1)"
    and r: "if e < 0 then s' = s1
            else bulkTransfer b (HANTEK_EP_OUT K) dat len attempts (default_timeout K) s1
                   = Some (ec, s')"
    by (auto simp add: bulkWrite_def split: Option.bind_splits prod.splits if_splits)
  from getConnectionSpeed_trace [OF g] obtain m where
    m: "transfers s1 = transfers s
            @ replicate m (ControlTransfer (LIBUSB_REQUEST_TYPE_VENDOR OR LIBUSB_ENDPOINT_IN)
                (ControlCode_value CONTROL_GETSPEED) (default_value K) (default_index K)
                ControlGetSpeed (getSize ControlGetSpeed) (HANTEK_TIMEOUT K))"
       "0 \<le> e \<longrightarrow> 0 < m"
    by blast
  show ?thesis
  proof (cases "e < 0")
    case True
    with r m show ?thesis by (intro exI [of _ m] exI [of _ 0]) simp
  next
    case False
    with r have "bulkTransfer b (HANTEK_EP_OUT K) dat len attempts (default_timeout K) s1
                   = Some (ec, s')" by simp
    from bulkTransfer_trace [OF this] obtain n where
      "transfers s' = transfers s1 @ replicate n (BulkTransfer (HANTEK_EP_OUT K) dat len (default_timeout K))"
      by blast
    with m False show ?thesis by (intro exI [of _ m] exI [of _ n]) simp
  qed
qed

lemma bulkCommand_trace:
  assumes "handle s" and "allowBulkTransfer s"
    and "bulkCommand b K command attempts s = Some (ec, s')"
  shows "\<exists>k m n. transfers s' = transfers s
            @ replicate k (ControlTransfer (LIBUSB_REQUEST_TYPE_VENDOR OR LIBUSB_ENDPOINT_OUT)
                (ControlCode_value CONTROL_BEGINCOMMAND) (default_value K) (default_index K)
                (beginCommandControl s) (getSize (beginCommandControl s)) (HANTEK_TIMEOUT K))
            @ replicate m (ControlTransfer (LIBUSB_REQUEST_TYPE_VENDOR OR LIBUSB_ENDPOINT_IN)
                (ControlCode_value CONTROL_GETSPEED) (default_value K) (default_index K)
                ControlGetSpeed (getSize ControlGetSpeed) (HANTEK_TIMEOUT K))
            @ replicate n (BulkTransfer (HANTEK_EP_OUT K) command (getSize command)
                (default_timeout K))
          \<and> (0 < n \<longrightarrow> 0 < k \<and> 0 < m)"
proof -
  let ?begin = "ControlTransfer (LIBUSB_REQUEST_TYPE_VENDOR OR LIBUSB_ENDPOINT_OUT)
                (ControlCode_value CONTROL_BEGINCOMMAND) (default_value K) (default_index K)
                (beginCommandControl s) (getSize (beginCommandControl s)) (HANTEK_TIMEOUT K)"
  from assms obtain e d s1 where
    c: "controlTransfer b K (LIBUSB_REQUEST_TYPE_VENDOR OR LIBUSB_ENDPOINT_OUT)
          (ControlCode_value CONTROL_BEGINCOMMAND) (beginCommandControl s)
          (getSize (beginCommandControl s)) (default_value K) (default_index K)
          (default_attempts K) s = Some (e, d, s1)"
    and r: "if e < 0 then s' = s1
            else bulkWrite b K command (getSize command) attempts s1 = Some (ec, s')"
    by (auto simp add: bulkCommand_def controlWrite_def
        split: Option.bind_splits prod.splits if_splits)
  from controlTransfer_trace [OF c] obtain k where
    k: "transfers s1 = transfers s @ replicate k ?begin" "0 \<le> e \<longrightarrow> 0 < k"
    by blast
  show ?thesis
  proof (cases "e < 0")
    case True
    with r k show ?thesis
      by (intro exI [of _ k] exI [of _ 0]) simp
  next
    case False
    with r have "bulkWrite b K command (getSize command) attempts s1 = Some (ec, s')" by simp
    from bulkWrite_trace [OF this] obtain m n where
      "transfers s' = transfers s1
            @ replicate m (ControlTransfer (LIBUSB_REQUEST_TYPE_VENDOR OR LIBUSB_ENDPOINT_IN)
                (ControlCode_value CONTROL_GETSPEED) (default_value K) (default_index K)
                ControlGetSpeed (getSize ControlGetSpeed) (HANTEK_TIMEOUT K))
            @ replicate n (BulkTransfer (HANTEK_EP_OUT K) command (getSize command)
                (default_timeout K))"
      "0 < n \<longrightarrow> 0 < m"
      by blast
    with k False show ?thesis
      by (intro exI [of _ k] exI [of _ m] exI [of _ n]) simp
  qed
qed

text \<open>With bounded attempts every operation returns.\<close>

lemma controlTransfer_returns:
  "attempts \<noteq> - 1 \<Longrightarrow> \<exists>y. controlTransfer b K type request dat len val index attempts s = Some y"
  using control_loop_returns [of attempts b K type request len val index 0 LIBUSB_ERROR_TIMEOUT dat s]
  by (auto simp add: controlTransfer_def Let_def split: prod.splits)

lemma bulkTransfer_returns:
  "attempts \<noteq> - 1 \<Longrightarrow> \<exists>y. bulkTransfer b ep dat len attempts timeout s = Some y"
  using bulk_loop_returns [of attempts b ep dat len timeout 0 LIBUSB_ERROR_TIMEOUT 0 s]
  by (auto simp add: bulkTransfer_def Let_def split: prod.splits)

lemma getConnectionSpeed_returns:
  "default_attempts K \<noteq> - 1 \<Longrightarrow> \<exists>y. getConnectionSpeed b K s = Some y"
  using controlTransfer_returns [of "default_attempts K" b K
      "LIBUSB_REQUEST_TYPE_VENDOR OR LIBUSB_ENDPOINT_IN" "ControlCode_value CONTROL_GETSPEED"
      ControlGetSpeed "getSize ControlGetSpeed" "default_value K" "default_index K" s]
  by (auto simp add: getConnectionSpeed_def controlRead_def split: prod.splits)

lemma bulkWrite_returns:
  "default_attempts K \<noteq> - 1 \<Longrightarrow> attempts \<noteq> - 1 \<Longrightarrow>
   \<exists>y. bulkWrite b K dat len attempts s = Some y"
  using getConnectionSpeed_returns [of K b s] bulkTransfer_returns [of attempts b]
  by (auto simp add: bulkWrite_def split: prod.splits)

lemma bulkCommand_returns:
  assumes "default_attempts K \<noteq> - 1" and "attempts \<noteq> - 1"
  shows "\<exists>y. bulkCommand b K command attempts s = Some y"
proof -
  from controlTransfer_returns [OF assms(1)] obtain e d s1 where
    "controlTransfer b K (LIBUSB_REQUEST_TYPE_VENDOR OR LIBUSB_ENDPOINT_OUT)
          (ControlCode_value CONTROL_BEGINCOMMAND) (beginCommandControl s)
          (getSize (beginCommandControl s)) (default_value K) (default_index K)
          (default_attempts K) s = Some (e, d, s1)"
    by (metis prod_cases3)
  with bulkWrite_returns [OF assms, of b command "getSize command" s1] show ?thesis
    by (auto simp add: bulkCommand_def controlWrite_def)
qed

lemma replicate_numeral:
  "replicate (numeral k) x = x # replicate (pred_numeral k) x"
  by (simp add: numeral_eq_Suc)

lemmas usb_eval =
  bulkCommand_def controlWrite_def controlTransfer_def bulkWrite_def bulkRead_def
  getConnectionSpeed_def controlRead_def bulkTransfer_def bulkReadMulti_def
  controlTransfer_loop.simps bulkTransfer_loop.simps bulkReadMulti_loop.simps
  libusb_control_transfer_def libusb_bulk_transfer_def
  begin_command_event_def get_speed_event_def bulk_out_event_def
  example_hantek_def example_device_def control_ok_def bulk_ok_def failed_def scripted_def
  getSize_def DataArray_def ControlGetSpeed_def ControlGetSpeed_getSpeed_def receive_def
  LIBUSB_ERROR_TIMEOUT_def LIBUSB_ERROR_NO_DEVICE_def LIBUSB_SUCCESS_def
  LIBUSB_REQUEST_TYPE_VENDOR_def LIBUSB_ENDPOINT_IN_def LIBUSB_ENDPOINT_OUT_def
  connectionLost_def Let_def

subsection \<open>Retrying a bulk transfer\<close>

text \<open>
  Claim C7, as stated, at \<open>attempts = - 2\<close> on a device that would answer the first
  transfer with success: no transfer is issued and the result is the time-out code.
\<close>

theorem bulkTransfer_negative_attempts_counterexample:
  "bulkTransfer (scripted [bulk_ok 2]) 0x02 [0x05, 0] 2 (- 2) 500 example_device
     = Some (LIBUSB_ERROR_TIMEOUT, example_device)"
  by (simp add: usb_eval)

text \<open>
  Claim C7, amended. Without a handle \<^verbatim>\<open>bulkTransfer\<close> returns the no-device code and
  issues nothing. With a handle it repeats the transfer while libusb reports a
  time-out: at most \<open>attempts\<close> times when \<open>attempts\<close> is positive, without bound when
  \<open>attempts\<close> is \<open>- 1\<close>, and not at all when \<open>attempts\<close> is 0 or a negative number other
  than \<open>- 1\<close> (the result is then the time-out code). When the first answer that is not
  a time-out comes within the permitted tries, the result is the number of transferred
  bytes if the code is not negative and the code otherwise, and on the no-device code
  the session is disconnected; when every permitted try times out, the result is the
  time-out code; with \<open>attempts = - 1\<close> on a bus that times out for ever the function
  does not return.
\<close>

theorem bulkTransfer_retries:
  "(\<not> handle s \<longrightarrow>
      bulkTransfer b ep dat len attempts timeout s = Some (LIBUSB_ERROR_NO_DEVICE, s))
   \<and> (handle s \<and> attempts \<le> 0 \<and> attempts \<noteq> - 1 \<longrightarrow>
      bulkTransfer b ep dat len attempts timeout s = Some (LIBUSB_ERROR_TIMEOUT, s))
   \<and> (handle s \<and> (int k < attempts \<or> attempts = - 1)
       \<and> (\<forall>j<k. rc (b (length (transfers s) + j)) = LIBUSB_ERROR_TIMEOUT)
       \<and> rc (b (length (transfers s) + k)) \<noteq> LIBUSB_ERROR_TIMEOUT \<longrightarrow>
      bulkTransfer b ep dat len attempts timeout s =
        Some (if rc (b (length (transfers s) + k)) < 0 then rc (b (length (transfers s) + k))
              else transferred (b (length (transfers s) + k)),
              if rc (b (length (transfers s) + k)) = LIBUSB_ERROR_NO_DEVICE
              then s\<lparr>handle := False, interface := - 1,
                     deviceDisconnected := deviceDisconnected s + 1,
                     transfers := transfers s @ replicate (Suc k) (BulkTransfer ep dat len timeout)\<rparr>
              else s\<lparr>transfers :=
                       transfers s @ replicate (Suc k) (BulkTransfer ep dat len timeout)\<rparr>))
   \<and> (handle s \<and> 0 < attempts
       \<and> (\<forall>j<nat attempts. rc (b (length (transfers s) + j)) = LIBUSB_ERROR_TIMEOUT) \<longrightarrow>
      bulkTransfer b ep dat len attempts timeout s =
        Some (LIBUSB_ERROR_TIMEOUT,
              s\<lparr>transfers :=
                   transfers s @ replicate (nat attempts) (BulkTransfer ep dat len timeout)\<rparr>))
   \<and> (handle s \<and> attempts = - 1
       \<and> (\<forall>j. rc (b (length (transfers s) + j)) = LIBUSB_ERROR_TIMEOUT) \<longrightarrow>
      bulkTransfer b ep dat len attempts timeout s = None)"
proof (intro conjI impI)
  assume "\<not> handle s"
  then show "bulkTransfer b ep dat len attempts timeout s = Some (LIBUSB_ERROR_NO_DEVICE, s)"
    by (simp add: bulkTransfer_def)
next
  assume a: "handle s \<and> attempts \<le> 0 \<and> attempts \<noteq> - 1"
  then have "bulkTransfer_loop b ep dat len attempts timeout 0 LIBUSB_ERROR_TIMEOUT 0 s
      = Some (LIBUSB_ERROR_TIMEOUT, 0, s)"
    by (intro bulk_loop_stop) auto
  with a show "bulkTransfer b ep dat len attempts timeout s = Some (LIBUSB_ERROR_TIMEOUT, s)"
    by (simp add: bulkTransfer_def LIBUSB_ERROR_TIMEOUT_def LIBUSB_ERROR_NO_DEVICE_def)
next
  let ?r = "b (length (transfers s) + k)"
  let ?s = "s\<lparr>transfers := transfers s @ replicate (Suc k) (BulkTransfer ep dat len timeout)\<rparr>"
  assume a: "handle s \<and> (int k < attempts \<or> attempts = - 1)
       \<and> (\<forall>j<k. rc (b (length (transfers s) + j)) = LIBUSB_ERROR_TIMEOUT)
       \<and> rc ?r \<noteq> LIBUSB_ERROR_TIMEOUT"
  then have "0 + int k < attempts \<or> attempts = - 1" by simp
  with a have l: "bulkTransfer_loop b ep dat len attempts timeout 0 LIBUSB_ERROR_TIMEOUT 0 s
      = Some (rc ?r, transferred ?r, ?s)"
    by (intro bulk_loop_first_answer) blast+
  from a have h: "handle s" by simp
  show "bulkTransfer b ep dat len attempts timeout s =
        Some (if rc ?r < 0 then rc ?r else transferred ?r,
              if rc ?r = LIBUSB_ERROR_NO_DEVICE
              then s\<lparr>handle := False, interface := - 1,
                     deviceDisconnected := deviceDisconnected s + 1,
                     transfers := transfers s @ replicate (Suc k) (BulkTransfer ep dat len timeout)\<rparr>
              else ?s)"
    unfolding bulkTransfer_def l using h
    by (simp add: connectionLost_def)
next
  let ?s = "s\<lparr>transfers := transfers s @ replicate (nat attempts) (BulkTransfer ep dat len timeout)\<rparr>"
  assume a: "handle s \<and> 0 < attempts
       \<and> (\<forall>j<nat attempts. rc (b (length (transfers s) + j)) = LIBUSB_ERROR_TIMEOUT)"
  then have e: "0 + int (nat attempts) = attempts" and n: "attempts \<noteq> - 1" by simp_all
  from a have t: "\<forall>j<nat attempts. rc (b (length (transfers s) + j)) = LIBUSB_ERROR_TIMEOUT"
    by simp
  from bulk_loop_all_timeouts [OF t e n]
  obtain x where l: "bulkTransfer_loop b ep dat len attempts timeout 0 LIBUSB_ERROR_TIMEOUT 0 s
      = Some (LIBUSB_ERROR_TIMEOUT, x, ?s)"
    by blast
  from a have h: "handle s" by simp
  show "bulkTransfer b ep dat len attempts timeout s = Some (LIBUSB_ERROR_TIMEOUT, ?s)"
    unfolding bulkTransfer_def l using h
    by (simp add: LIBUSB_ERROR_TIMEOUT_def LIBUSB_ERROR_NO_DEVICE_def)
next
  assume a: "handle s \<and> attempts = - 1
       \<and> (\<forall>j. rc (b (length (transfers s) + j)) = LIBUSB_ERROR_TIMEOUT)"
  then have "bulkTransfer_loop b ep dat len (- 1) timeout 0 LIBUSB_ERROR_TIMEOUT 0 s = None"
    by (intro bulk_loop_never_returns) simp
  with a show "bulkTransfer b ep dat len attempts timeout s = None"
    by (simp add: bulkTransfer_def)
qed

theorem bulkTransfer_retries_witness:
  "\<not> handle (example_device\<lparr>handle := False\<rparr>)
   \<and> bulkTransfer (scripted []) 0x02 [0x05, 0] 2 3 500 (example_device\<lparr>handle := False\<rparr>)
       = Some (LIBUSB_ERROR_NO_DEVICE, example_device\<lparr>handle := False\<rparr>)
   \<and> handle example_device \<and> (0 :: int) \<le> 0 \<and> (0 :: int) \<noteq> - 1
   \<and> bulkTransfer (scripted [bulk_ok 2]) 0x02 [0x05, 0] 2 0 500 example_device
       = Some (LIBUSB_ERROR_TIMEOUT, example_device)
   \<and> int 1 < 3
   \<and> rc (scripted [failed LIBUSB_ERROR_TIMEOUT, bulk_ok 2] 0) = LIBUSB_ERROR_TIMEOUT
   \<and> rc (scripted [failed LIBUSB_ERROR_TIMEOUT, bulk_ok 2] 1) \<noteq> LIBUSB_ERROR_TIMEOUT
   \<and> bulkTransfer (scripted [failed LIBUSB_ERROR_TIMEOUT, bulk_ok 2]) 0x02 [0x05, 0] 2 3 500
         example_device
       = Some (2, example_device\<lparr>transfers := replicate 2 (BulkTransfer 0x02 [0x05, 0] 2 500)\<rparr>)
   \<and> bulkTransfer (scripted [failed LIBUSB_ERROR_NO_DEVICE]) 0x02 [0x05, 0] 2 (- 1) 500
         example_device
       = Some (LIBUSB_ERROR_NO_DEVICE,
               example_device\<lparr>handle := False, interface := - 1, deviceDisconnected := 1,
                 transfers := replicate 1 (BulkTransfer 0x02 [0x05, 0] 2 500)\<rparr>)
   \<and> bulkTransfer (\<lambda>n. failed LIBUSB_ERROR_TIMEOUT) 0x02 [0x05, 0] 2 2 500 example_device
       = Some (LIBUSB_ERROR_TIMEOUT,
               example_device\<lparr>transfers := replicate 2 (BulkTransfer 0x02 [0x05, 0] 2 500)\<rparr>)
   \<and> bulkTransfer (\<lambda>n. failed LIBUSB_ERROR_TIMEOUT) 0x02 [0x05, 0] 2 (- 1) 500 example_device
       = None"
proof -
  let ?T = "failed LIBUSB_ERROR_TIMEOUT"
  let ?off = "example_device\<lparr>handle := False\<rparr>"
  have h: "handle example_device" "\<not> handle ?off"
    by (simp_all add: example_device_def)
  have n: "length (transfers example_device) = 0"
    by (simp add: example_device_def)
  have r: "rc (scripted [?T, bulk_ok 2] 0) = LIBUSB_ERROR_TIMEOUT"
    "rc (scripted [?T, bulk_ok 2] 1) \<noteq> LIBUSB_ERROR_TIMEOUT"
    "rc (scripted [failed LIBUSB_ERROR_NO_DEVICE] 0) \<noteq> LIBUSB_ERROR_TIMEOUT"
    "rc (scripted [failed LIBUSB_ERROR_NO_DEVICE] 0) = LIBUSB_ERROR_NO_DEVICE"
    "rc (scripted [?T, bulk_ok 2] 1) = 0" "transferred (scripted [?T, bulk_ok 2] 1) = 2"
    "\<And>j. rc ((\<lambda>n. ?T) j) = LIBUSB_ERROR_TIMEOUT"
    by (simp_all add: scripted_def failed_def bulk_ok_def LIBUSB_ERROR_TIMEOUT_def
        LIBUSB_ERROR_NO_DEVICE_def LIBUSB_SUCCESS_def)
  have c1: "bulkTransfer (scripted []) 0x02 [0x05, 0] 2 3 500 ?off
       = Some (LIBUSB_ERROR_NO_DEVICE, ?off)"
    using bulkTransfer_retries [of ?off "scripted []" "0x02" "[0x05, 0]" 2 3 500 0] h by blast
  have c2: "bulkTransfer (scripted [bulk_ok 2]) 0x02 [0x05, 0] 2 0 500 example_device
       = Some (LIBUSB_ERROR_TIMEOUT, example_device)"
    using bulkTransfer_retries [of example_device "scripted [bulk_ok 2]" "0x02" "[0x05, 0]" 2 0 500 0]
      h by simp
  have c3: "bulkTransfer (scripted [?T, bulk_ok 2]) 0x02 [0x05, 0] 2 3 500 example_device
       = Some (2, example_device\<lparr>transfers := replicate 2 (BulkTransfer 0x02 [0x05, 0] 2 500)\<rparr>)"
    using bulkTransfer_retries [of example_device "scripted [?T, bulk_ok 2]" "0x02" "[0x05, 0]" 2 3
        500 1] h r n
    by (simp add: LIBUSB_ERROR_NO_DEVICE_def example_device_def replicate_numeral)
  have c4: "bulkTransfer (scripted [failed LIBUSB_ERROR_NO_DEVICE]) 0x02 [0x05, 0] 2 (- 1) 500
         example_device
       = Some (LIBUSB_ERROR_NO_DEVICE,
               example_device\<lparr>handle := False, interface := - 1, deviceDisconnected := 1,
                 transfers := replicate 1 (BulkTransfer 0x02 [0x05, 0] 2 500)\<rparr>)"
    using bulkTransfer_retries [of example_device "scripted [failed LIBUSB_ERROR_NO_DEVICE]" "0x02"
        "[0x05, 0]" 2 "- 1" 500 0] h r n
    by (simp add: LIBUSB_ERROR_NO_DEVICE_def example_device_def replicate_numeral)
  have c5: "bulkTransfer (\<lambda>n. ?T) 0x02 [0x05, 0] 2 2 500 example_device
       = Some (LIBUSB_ERROR_TIMEOUT,
               example_device\<lparr>transfers := replicate 2 (BulkTransfer 0x02 [0x05, 0] 2 500)\<rparr>)"
    using bulkTransfer_retries [of example_device "\<lambda>n. ?T" "0x02" "[0x05, 0]" 2 2 500 0] h r(7)
    by (simp add: example_device_def replicate_numeral)
  have c6: "bulkTransfer (\<lambda>n. ?T) 0x02 [0x05, 0] 2 (- 1) 500 example_device = None"
    using bulkTransfer_retries [of example_device "\<lambda>n. ?T" "0x02" "[0x05, 0]" 2 "- 1" 500 0]
      h r(7)
    by simp
  from h r(1,2) c1 c2 c3 c4 c5 c6 show ?thesis by simp
qed

subsection \<open>The order of the transfers of a bulk command\<close>

lemma speed_query_is_neither:
  "begin_command_event K s \<noteq> get_speed_event K" "bulk_out_event K command \<noteq> get_speed_event K"
  by (simp_all add: begin_command_event_def get_speed_event_def bulk_out_event_def
      LIBUSB_REQUEST_TYPE_VENDOR_def LIBUSB_ENDPOINT_OUT_def LIBUSB_ENDPOINT_IN_def)

lemma filter_speed_queries:
  "filter (\<lambda>e. e \<noteq> get_speed_event K)
     (replicate k (begin_command_event K s) @ replicate m (get_speed_event K)
        @ replicate n (bulk_out_event K command))
   = replicate k (begin_command_event K s) @ replicate n (bulk_out_event K command)"
  by (simp add: speed_query_is_neither)

text \<open>
  Claim C5. On a connected session \<^verbatim>\<open>bulkCommand\<close> issues the bulk write of the frame
  body only after first issuing the \<^verbatim>\<open>BEGIN_COMMAND\<close> control write, with no other
  transfer in between: the transfers that a returning call has added are \<open>k\<close> control
  writes of \<^verbatim>\<open>BEGIN_COMMAND\<close>, then \<open>m\<close> of the speed queries that every bulk write
  starts with and that the ordering rule lets interleave, then \<open>n\<close> bulk writes of the
  frame (more than one of a kind only as retries after a time-out); a bulk write comes
  only after a \<^verbatim>\<open>BEGIN_COMMAND\<close>, and with the speed queries left out nothing but
  \<^verbatim>\<open>BEGIN_COMMAND\<close> writes followed by bulk writes remains. With bulk transfers
  disabled it returns success and issues no transfer at all. Without a handle it
  returns the no-device code and issues nothing, and when neither number of attempts is
  \<open>- 1\<close> it always returns.
\<close>

theorem bulkCommand_transfers:
  "(\<not> handle s \<longrightarrow> bulkCommand b K command attempts s = Some (LIBUSB_ERROR_NO_DEVICE, s))
   \<and> (handle s \<and> \<not> allowBulkTransfer s \<longrightarrow>
        bulkCommand b K command attempts s = Some (LIBUSB_SUCCESS, s))
   \<and> (handle s \<and> allowBulkTransfer s \<and> bulkCommand b K command attempts s = Some (ec, s') \<longrightarrow>
        (\<exists>k m n. transfers s' = transfers s @ replicate k (begin_command_event K s)
                    @ replicate m (get_speed_event K) @ replicate n (bulk_out_event K command)
                  \<and> (n = 0 \<or> 0 < k \<and> 0 < m)
                  \<and> filter (\<lambda>e. e \<noteq> get_speed_event K)
                       (drop (length (transfers s)) (transfers s'))
                     = replicate k (begin_command_event K s)
                         @ replicate n (bulk_out_event K command)))
   \<and> (default_attempts K \<noteq> - 1 \<and> attempts \<noteq> - 1 \<longrightarrow>
        (\<exists>y. bulkCommand b K command attempts s = Some y))"
proof (intro conjI impI)
  assume "\<not> handle s"
  then show "bulkCommand b K command attempts s = Some (LIBUSB_ERROR_NO_DEVICE, s)"
    by (simp add: bulkCommand_def)
next
  assume "handle s \<and> \<not> allowBulkTransfer s"
  then show "bulkCommand b K command attempts s = Some (LIBUSB_SUCCESS, s)"
    by (simp add: bulkCommand_def)
next
  assume a: "handle s \<and> allowBulkTransfer s \<and> bulkCommand b K command attempts s = Some (ec, s')"
  then have "handle s" "allowBulkTransfer s" "bulkCommand b K command attempts s = Some (ec, s')"
    by simp_all
  from bulkCommand_trace [OF this] obtain k m n where
    t: "transfers s' = transfers s @ replicate k (begin_command_event K s)
          @ replicate m (get_speed_event K) @ replicate n (bulk_out_event K command)"
    and o: "n = 0 \<or> 0 < k \<and> 0 < m"
    unfolding begin_command_event_def get_speed_event_def bulk_out_event_def by auto
  have "filter (\<lambda>e. e \<noteq> get_speed_event K) (drop (length (transfers s)) (transfers s'))
      = replicate k (begin_command_event K s) @ replicate n (bulk_out_event K command)"
    by (simp add: t speed_query_is_neither)
  with t o
  show "\<exists>k m n. transfers s' = transfers s @ replicate k (begin_command_event K s)
                    @ replicate m (get_speed_event K) @ replicate n (bulk_out_event K command)
                  \<and> (n = 0 \<or> 0 < k \<and> 0 < m)
                  \<and> filter (\<lambda>e. e \<noteq> get_speed_event K)
                       (drop (length (transfers s)) (transfers s'))
                     = replicate k (begin_command_event K s)
                         @ replicate n (bulk_out_event K command)"
    by blast
next
  assume "default_attempts K \<noteq> - 1 \<and> attempts \<noteq> - 1"
  then show "\<exists>y. bulkCommand b K command attempts s = Some y"
    using bulkCommand_returns by blast
qed

text \<open>
  A session without a handle, a session with bulk transfers disabled, a session on
  which every transfer is answered (one \<^verbatim>\<open>BEGIN_COMMAND\<close>, one speed query, one bulk
  write of \<^verbatim>\<open>BulkGetData\<close>), and a bus that times out for ever.
\<close>

lemma bulkCommand_example:
  "bulkCommand (scripted [control_ok 10 [], control_ok 10 [1, 0, 0, 0, 0, 0, 0, 0, 0, 0],
                          bulk_ok 2])
     example_hantek BulkGetData 3 example_device
   = Some (2, example_device\<lparr>transfers :=
               [begin_command_event example_hantek example_device,
                get_speed_event example_hantek,
                bulk_out_event example_hantek BulkGetData]\<rparr>)"
  by (simp add: usb_eval BulkGetData_def)

theorem bulkCommand_transfers_witness:
  "\<not> handle (example_device\<lparr>handle := False\<rparr>)
   \<and> bulkCommand (scripted []) example_hantek BulkGetData 3 (example_device\<lparr>handle := False\<rparr>)
       = Some (LIBUSB_ERROR_NO_DEVICE, example_device\<lparr>handle := False\<rparr>)
   \<and> handle (example_device\<lparr>allowBulkTransfer := False\<rparr>)
   \<and> \<not> allowBulkTransfer (example_device\<lparr>allowBulkTransfer := False\<rparr>)
   \<and> bulkCommand (scripted [control_ok 10 []]) example_hantek BulkGetData 3
         (example_device\<lparr>allowBulkTransfer := False\<rparr>)
       = Some (LIBUSB_SUCCESS, example_device\<lparr>allowBulkTransfer := False\<rparr>)
   \<and> handle example_device \<and> allowBulkTransfer example_device
   \<and> bulkCommand (scripted [control_ok 10 [], control_ok 10 [1, 0, 0, 0, 0, 0, 0, 0, 0, 0],
                             bulk_ok 2])
         example_hantek BulkGetData 3 example_device
       = Some (2, example_device\<lparr>transfers :=
               [begin_command_event example_hantek example_device,
                get_speed_event example_hantek,
                bulk_out_event example_hantek BulkGetData]\<rparr>)
   \<and> (\<exists>k m n. [begin_command_event example_hantek example_device,
                get_speed_event example_hantek,
                bulk_out_event example_hantek BulkGetData]
               = replicate k (begin_command_event example_hantek example_device)
                   @ replicate m (get_speed_event example_hantek)
                   @ replicate n (bulk_out_event example_hantek BulkGetData)
              \<and> (n = 0 \<or> 0 < k \<and> 0 < m)
              \<and> filter (\<lambda>e. e \<noteq> get_speed_event example_hantek)
                   (drop (length ([] :: usb_event list))
                      [begin_command_event example_hantek example_device,
                       get_speed_event example_hantek,
                       bulk_out_event example_hantek BulkGetData])
                 = replicate k (begin_command_event example_hantek example_device)
                     @ replicate n (bulk_out_event example_hantek BulkGetData))
   \<and> default_attempts example_hantek \<noteq> - 1 \<and> (3 :: int) \<noteq> - 1
   \<and> (\<exists>y. bulkCommand (\<lambda>n. failed LIBUSB_ERROR_TIMEOUT) example_hantek BulkGetData 3
              example_device = Some y)"
proof -
  let ?off = "example_device\<lparr>handle := False\<rparr>"
  let ?dis = "example_device\<lparr>allowBulkTransfer := False\<rparr>"
  let ?b = "scripted [control_ok 10 [], control_ok 10 [1, 0, 0, 0, 0, 0, 0, 0, 0, 0], bulk_ok 2]"
  let ?s' = "example_device\<lparr>transfers :=
               [begin_command_event example_hantek example_device,
                get_speed_event example_hantek,
                bulk_out_event example_hantek BulkGetData]\<rparr>"
  have h: "\<not> handle ?off" "handle ?dis" "\<not> allowBulkTransfer ?dis" "handle example_device"
    "allowBulkTransfer example_device" "default_attempts example_hantek \<noteq> - 1"
    "transfers example_device = []" "transfers ?s' = [begin_command_event example_hantek example_device,
                get_speed_event example_hantek,
                bulk_out_event example_hantek BulkGetData]"
    by (simp_all add: example_device_def example_hantek_def)
  have c1: "bulkCommand (scripted []) example_hantek BulkGetData 3 ?off
       = Some (LIBUSB_ERROR_NO_DEVICE, ?off)"
    using bulkCommand_transfers [of ?off "scripted []" example_hantek BulkGetData 3] h(1)
    by blast
  have c2: "bulkCommand (scripted [control_ok 10 []]) example_hantek BulkGetData 3 ?dis
       = Some (LIBUSB_SUCCESS, ?dis)"
    using bulkCommand_transfers [of ?dis "scripted [control_ok 10 []]" example_hantek BulkGetData 3]
      h(2,3)
    by blast
  have c3: "\<exists>k m n. [begin_command_event example_hantek example_device,
                get_speed_event example_hantek,
                bulk_out_event example_hantek BulkGetData]
               = replicate k (begin_command_event example_hantek example_device)
                   @ replicate m (get_speed_event example_hantek)
                   @ replicate n (bulk_out_event example_hantek BulkGetData)
              \<and> (n = 0 \<or> 0 < k \<and> 0 < m)
              \<and> filter (\<lambda>e. e \<noteq> get_speed_event example_hantek)
                   (drop (length ([] :: usb_event list))
                      [begin_command_event example_hantek example_device,
                       get_speed_event example_hantek,
                       bulk_out_event example_hantek BulkGetData])
                 = replicate k (begin_command_event example_hantek example_device)
                     @ replicate n (bulk_out_event example_hantek BulkGetData)"
    using bulkCommand_transfers [of example_device ?b example_hantek BulkGetData 3 2 ?s']
      h(4,5) bulkCommand_example
    unfolding h(7) h(8) append_Nil
    by blast
  have c4: "\<exists>y. bulkCommand (\<lambda>n. failed LIBUSB_ERROR_TIMEOUT) example_hantek BulkGetData 3
              example_device = Some y"
    using bulkCommand_transfers [of example_device "\<lambda>n. failed LIBUSB_ERROR_TIMEOUT"
        example_hantek BulkGetData 3] h(6)
    by simp
  from h(1-6) c1 c2 c3 c4 bulkCommand_example show ?thesis by simp
qed

subsection \<open>Multi-packet read\<close>

text \<open>
  Claim C6 at total length 0, on a connected session with an IN packet size of 512 whose
  speed query succeeds: the loop issues no bulk transfer, as the claim says, but the
  result is 512 (the packet size, which \<^verbatim>\<open>errorCode\<close> holds as the loop's start value)
  and not the 0 bytes that were received.
\<close>

theorem bulkReadMulti_zero_length:
  "bulkReadMulti (scripted [control_ok 10 [1, 0, 0, 0, 0, 0, 0, 0, 0, 0]]) example_hantek [] 0 1
     example_device
   = Some (512, example_device\<lparr>transfers := [get_speed_event example_hantek]\<rparr>)"
  by (simp add: usb_eval)

text \<open>
  For comparison, three runs with a total length of 1100 bytes: the device supplies every
  packet in full (three transfers of 512, 512 and 76 bytes, result 1100); the second
  transfer is short (the loop stops there, result 612); the first transfer fails (the
  result is its error code).
\<close>

lemma bulkReadMulti_example_full:
  "bulkReadMulti (scripted [control_ok 10 [1, 0, 0, 0, 0, 0, 0, 0, 0, 0],
                            bulk_ok 512, bulk_ok 512, bulk_ok 76])
     example_hantek [] 1100 1 example_device
   = Some (1100, example_device\<lparr>transfers :=
        [get_speed_event example_hantek,
         BulkTransfer 0x86 [] 512 100, BulkTransfer 0x86 [] 512 100,
         BulkTransfer 0x86 [] 76 100]\<rparr>)"
  by (simp add: usb_eval)

lemma bulkReadMulti_example_short:
  "bulkReadMulti (scripted [control_ok 10 [1, 0, 0, 0, 0, 0, 0, 0, 0, 0],
                            bulk_ok 512, bulk_ok 100, bulk_ok 512])
     example_hantek [] 1100 1 example_device
   = Some (612, example_device\<lparr>transfers :=
        [get_speed_event example_hantek,
         BulkTransfer 0x86 [] 512 100, BulkTransfer 0x86 [] 512 100]\<rparr>)"
  by (simp add: usb_eval)

lemma bulkReadMulti_example_error:
  "bulkReadMulti (scripted [control_ok 10 [1, 0, 0, 0, 0, 0, 0, 0, 0, 0],
                            failed (- 9)])
     example_hantek [] 1100 1 example_device
   = Some (- 9, example_device\<lparr>transfers :=
        [get_speed_event example_hantek, BulkTransfer 0x86 [] 512 100]\<rparr>)"
  by (simp add: usb_eval)

text \<open>
  When the device supplies every packet in full, a read of \<open>L > 0\<close> bytes issues
  \<open>\<lceil>L / P\<rceil>\<close> bulk transfers, the \<open>i\<close>-th asking for the remaining bytes but at most
  \<open>P\<close>, and returns \<open>L\<close>.
\<close>

lemma unat_of_nat_u32: "x < 2 ^ 32 \<Longrightarrow> unat (of_nat x :: u32) = x"
  by (simp add: unat_of_nat)

lemma u32_less_of_nat:
  "x < 2 ^ 32 \<Longrightarrow> y < 2 ^ 32 \<Longrightarrow> ((of_nat x :: u32) < of_nat y) = (x < y)"
  by (simp add: word_less_nat_alt unat_of_nat_u32)

lemma u32_min_of_nat:
  "x < 2 ^ 32 \<Longrightarrow> y < 2 ^ 32 \<Longrightarrow> min (of_nat x :: u32) (of_nat y) = of_nat (min x y)"
  by (simp add: min_def word_le_nat_alt unat_of_nat_u32)

lemma sint_of_nat_u32: "x < 2 ^ 31 \<Longrightarrow> sint (of_nat x :: u32) = int x"
proof -
  have "- (2 ^ 31) \<le> int x" "int x < 2 ^ 31" if "x < 2 ^ 31"
    using that by simp_all
  then show "x < 2 ^ 31 \<Longrightarrow> sint (of_nat x :: u32) = int x"
    by (simp add: signed_of_nat signed_take_bit_int_eq_self)
qed

lemma read_loop_stop:
  "\<not> (received < len \<and> errorCode = inPacketLength s) \<Longrightarrow>
   bulkReadMulti_loop b K dat len attempts packet received errorCode s
     = Some (received, errorCode, s)"
  by (subst bulkReadMulti_loop.simps) auto

lemma bulkTransfer_first_try:
  assumes "handle s" and "0 < attempts \<or> attempts = - 1"
    and "rc (b (length (transfers s))) = LIBUSB_SUCCESS"
  shows "bulkTransfer b ep dat len attempts timeout s
       = Some (transferred (b (length (transfers s))),
               s\<lparr>transfers := transfers s @ [BulkTransfer ep dat len timeout]\<rparr>)"
proof -
  have "rc (b (length (transfers s) + 0)) \<noteq> LIBUSB_ERROR_TIMEOUT"
    "rc (b (length (transfers s) + 0)) \<noteq> LIBUSB_ERROR_NO_DEVICE"
    "\<not> rc (b (length (transfers s) + 0)) < 0"
    using assms(3) by (simp_all add: LIBUSB_SUCCESS_def LIBUSB_ERROR_TIMEOUT_def
        LIBUSB_ERROR_NO_DEVICE_def)
  with bulkTransfer_retries [of s b ep dat len attempts timeout 0] assms(1,2)
  show ?thesis by simp
qed

lemma read_loop_step:
  fixes P L :: nat
  assumes "0 < P" "P < 2 ^ 31" "L < 2 ^ 31" "i * P < L"
    and "handle s" "inPacketLength s = int P" "0 < attempts \<or> attempts = - 1"
    and "rc (b (length (transfers s))) = LIBUSB_SUCCESS"
    and "transferred (b (length (transfers s))) = int (min (L - i * P) P)"
  shows "bulkReadMulti_loop b K dat (of_nat L) attempts (of_nat i) (of_nat (i * P)) (int P) s
       = bulkReadMulti_loop b K dat (of_nat L) attempts (of_nat i + 1)
           (of_nat (i * P + min (L - i * P) P)) (int (min (L - i * P) P))
           (s\<lparr>transfers := transfers s @ [bulk_in_event K dat L P i]\<rparr>)"
proof -
  have iP: "i * P < 2 ^ 32" "L < 2 ^ 32" "P < 2 ^ 32" "L - i * P < 2 ^ 32"
    using assms(2,3,4) by simp_all
  have c: "(of_nat (i * P) :: u32) < of_nat L \<and> int P = inPacketLength s"
    using assms(4,6) iP by (simp add: u32_less_of_nat del: of_nat_mult)
  have pk: "unat ((of_nat i :: u32) * word_of_int (inPacketLength s)) = i * P"
    using iP by (simp add: assms(6) unat_of_nat_u32 del: of_nat_mult flip: of_nat_mult)
  have "(of_nat L :: u32) - of_nat (i * P) = of_nat (L - i * P)"
    using assms(4) by (simp del: of_nat_mult)
  then have mn: "unat (min ((of_nat L :: u32) - of_nat (i * P)) (word_of_int (inPacketLength s)))
      = min (L - i * P) P"
    using iP by (simp add: assms(6) u32_min_of_nat unat_of_nat_u32 min.strict_coboundedI2
        del: of_nat_mult)
  have pos: "0 < int (min (L - i * P) P)"
    using assms(1,4) by simp
  have bt: "bulkTransfer b (HANTEK_EP_IN K) (drop (i * P) dat) (min (L - i * P) P) attempts
        (HANTEK_TIMEOUT_MULTI K) s
      = Some (int (min (L - i * P) P),
              s\<lparr>transfers := transfers s @ [bulk_in_event K dat L P i]\<rparr>)"
    unfolding bulk_in_event_def
    using bulkTransfer_first_try [of s attempts b, OF assms(5,7,8)] assms(9) by simp
  show ?thesis
    apply (subst bulkReadMulti_loop.simps)
    unfolding if_P [OF c] pk mn bt
    using pos
    apply (simp del: of_nat_add of_nat_mult add: of_nat_add [symmetric])
    done
qed

lemma read_loop_full:
  fixes P L :: nat
  assumes P: "0 < P" "P < 2 ^ 31" and L: "L < 2 ^ 31"
    and att: "0 < attempts \<or> attempts = - 1"
    and replies: "\<forall>j. j * P < L \<longrightarrow> rc (b (start + j)) = LIBUSB_SUCCESS
                    \<and> transferred (b (start + j)) = int (min (L - j * P) P)"
  shows "i * P < L \<Longrightarrow> handle s \<Longrightarrow> inPacketLength s = int P \<Longrightarrow>
         length (transfers s) = start + i \<Longrightarrow>
         \<exists>e. bulkReadMulti_loop b K dat (of_nat L) attempts (of_nat i) (of_nat (i * P)) (int P) s
           = Some (of_nat L, e,
                   s\<lparr>transfers := transfers s
                        @ map (bulk_in_event K dat L P) [i..<Suc ((L - 1) div P)]\<rparr>)"
proof (induction "(L - 1) div P - i" arbitrary: i s)
  case 0
  have le: "i \<le> (L - 1) div P"
    using "0.prems"(1) P(1) by (simp add: less_eq_div_iff_mult_less_eq)
  with "0.hyps" have i: "i = (L - 1) div P" by simp
  have "L - 1 < P + P * ((L - 1) div P)"
    using P(1) by (rule dividend_less_times_div)
  then have last: "L - i * P \<le> P"
    unfolding i by (simp add: mult.commute)
  then have m: "min (L - i * P) P = L - i * P" by simp
  have sum: "i * P + (L - i * P) = L"
    using "0.prems"(1) by simp
  let ?s = "s\<lparr>transfers := transfers s @ [bulk_in_event K dat L P i]\<rparr>"
  have r: "rc (b (length (transfers s))) = LIBUSB_SUCCESS"
    "transferred (b (length (transfers s))) = int (min (L - i * P) P)"
    using replies [rule_format, OF "0.prems"(1)] "0.prems"(4) by simp_all
  have "bulkReadMulti_loop b K dat (of_nat L) attempts (of_nat i) (of_nat (i * P)) (int P) s
      = bulkReadMulti_loop b K dat (of_nat L) attempts (of_nat i + 1) (of_nat L)
          (int (L - i * P)) ?s"
    using read_loop_step [where P = P and L = L and i = i and s = s and attempts = attempts
        and b = b and K = K and dat = dat, OF P L "0.prems"(1,2,3) att r]
    unfolding m sum .
  also have "\<dots> = Some (of_nat L, int (L - i * P), ?s)"
    by (rule read_loop_stop) simp
  finally show ?case
    unfolding i [symmetric] by simp
next
  case (Suc n)
  have lt: "Suc i \<le> (L - 1) div P"
    using Suc.hyps(2) by simp
  then have "Suc i * P \<le> (L - 1) div P * P"
    by (rule mult_le_mono1)
  also have "\<dots> \<le> L - 1"
    by (rule div_times_less_eq_dividend)
  finally have next_lt: "Suc i * P < L"
    using Suc.prems(1) by simp
  then have m: "min (L - i * P) P = P" by simp
  have sum: "i * P + P = Suc i * P" by simp
  have w: "(of_nat i :: u32) + 1 = of_nat (Suc i)" by simp
  let ?s = "s\<lparr>transfers := transfers s @ [bulk_in_event K dat L P i]\<rparr>"
  have r: "rc (b (length (transfers s))) = LIBUSB_SUCCESS"
    "transferred (b (length (transfers s))) = int (min (L - i * P) P)"
    using replies [rule_format, OF Suc.prems(1)] Suc.prems(4) by simp_all
  have st: "bulkReadMulti_loop b K dat (of_nat L) attempts (of_nat i) (of_nat (i * P)) (int P) s
      = bulkReadMulti_loop b K dat (of_nat L) attempts (of_nat (Suc i)) (of_nat (Suc i * P))
          (int P) ?s"
    using read_loop_step [where P = P and L = L and i = i and s = s and attempts = attempts
        and b = b and K = K and dat = dat, OF P L Suc.prems(1,2,3) att r]
    unfolding m sum w .
  have n: "n = (L - 1) div P - Suc i"
    using Suc.hyps(2) by simp
  have p: "handle ?s" "inPacketLength ?s = int P" "length (transfers ?s) = start + Suc i"
    using Suc.prems(2,3,4) by simp_all
  from Suc.hyps(1) [OF n next_lt p] obtain e where
    e: "bulkReadMulti_loop b K dat (of_nat L) attempts (of_nat (Suc i)) (of_nat (Suc i * P))
          (int P) ?s
        = Some (of_nat L, e,
                ?s\<lparr>transfers := transfers ?s
                     @ map (bulk_in_event K dat L P) [Suc i..<Suc ((L - 1) div P)]\<rparr>)"
    by blast
  have u: "[i..<Suc ((L - 1) div P)] = i # [Suc i..<Suc ((L - 1) div P)]"
    using lt by (intro upt_conv_Cons) simp
  show ?case
    unfolding st e u by simp
qed

lemma controlTransfer_state:
  assumes "controlTransfer b K type request dat len val index attempts s = Some (ec, d, s')"
    and "0 \<le> ec"
  shows "\<exists>n. s' = s\<lparr>transfers := transfers s
            @ replicate n (ControlTransfer type request val index dat len (HANTEK_TIMEOUT K))\<rparr>"
proof (cases "handle s")
  case False
  with assms(1) have "ec = LIBUSB_ERROR_NO_DEVICE"
    by (simp add: controlTransfer_def)
  with assms(2) show ?thesis by (simp add: LIBUSB_ERROR_NO_DEVICE_def)
next
  case True
  with assms(1) obtain y where
    y: "controlTransfer_loop b K type request len val index attempts 0 LIBUSB_ERROR_TIMEOUT dat s = Some y"
    and e: "ec = fst y"
    and s': "s' = (if fst y = LIBUSB_ERROR_NO_DEVICE then connectionLost (snd (snd y)) else snd (snd y))"
    by (auto simp add: controlTransfer_def Let_def split: Option.bind_splits prod.splits)
  from e assms(2) have "fst y \<noteq> LIBUSB_ERROR_NO_DEVICE"
    by (auto simp add: LIBUSB_ERROR_NO_DEVICE_def)
  with s' have "s' = snd (snd y)" by simp
  with control_loop_trace [OF y] show ?thesis by blast
qed

lemma getConnectionSpeed_state:
  assumes "getConnectionSpeed b K s = Some (speed, s1)" and "0 \<le> speed"
  shows "\<exists>n. s1 = s\<lparr>transfers := transfers s @ replicate n (get_speed_event K)\<rparr>"
proof -
  from assms obtain e d where
    c: "controlRead b K (ControlCode_value CONTROL_GETSPEED) ControlGetSpeed
           (getSize ControlGetSpeed) (default_value K) (default_index K) (default_attempts K) s
         = Some (e, d, s1)"
    and e: "0 \<le> e"
    by (auto simp add: getConnectionSpeed_def split: Option.bind_splits prod.splits if_splits)
  show ?thesis
  proof (cases "handle s")
    case False
    with c have "e = LIBUSB_ERROR_NO_DEVICE"
      by (simp add: controlRead_def)
    with e show ?thesis by (simp add: LIBUSB_ERROR_NO_DEVICE_def)
  next
    case True
    with c have "controlTransfer b K (LIBUSB_REQUEST_TYPE_VENDOR OR LIBUSB_ENDPOINT_IN)
        (ControlCode_value CONTROL_GETSPEED) ControlGetSpeed (getSize ControlGetSpeed)
        (default_value K) (default_index K) (default_attempts K) s = Some (e, d, s1)"
      by (simp add: controlRead_def)
    from controlTransfer_state [OF this e] show ?thesis
      unfolding get_speed_event_def .
  qed
qed

lemma ceiling_div: "0 < L \<Longrightarrow> 0 < P \<Longrightarrow> Suc ((L - 1) div P) = (L + P - 1) div P"
proof -
  assume a: "0 < L" "0 < (P :: nat)"
  then obtain k where k: "L = Suc k" by (cases L) simp_all
  have "(k + P) div P = Suc (k div P)" using a(2) div_add_self2 [of P k] by simp
  then show ?thesis unfolding k by simp
qed

lemma bulkReadMulti_full_delivery:
  fixes P L :: nat
  assumes "handle s" and "inPacketLength s = int P" and "0 < P" and "P < 2 ^ 31"
    and "0 < L" and "L < 2 ^ 31" and "0 < attempts \<or> attempts = - 1"
    and "getConnectionSpeed b K s = Some (speed, s1)" and "0 \<le> speed"
    and "\<forall>j. j * P < L \<longrightarrow> rc (b (length (transfers s1) + j)) = LIBUSB_SUCCESS
            \<and> transferred (b (length (transfers s1) + j)) = int (min (L - j * P) P)"
  shows "bulkReadMulti b K dat (of_nat L) attempts s
       = Some (int L,
               s1\<lparr>transfers := transfers s1
                    @ map (bulk_in_event K dat L P) [0..<(L + P - 1) div P]\<rparr>)"
proof -
  from getConnectionSpeed_state [OF assms(8,9)] assms(1,2)
  have s1: "handle s1" "inPacketLength s1 = int P" by auto
  have z: "0 * P < L" using assms(5) by simp
  from read_loop_full [where i = 0 and start = "length (transfers s1)" and s = s1 and K = K
      and dat = dat, OF assms(3,4,6,7,10) z s1]
  obtain e where
    l: "bulkReadMulti_loop b K dat (of_nat L) attempts 0 0 (int P) s1
        = Some (of_nat L, e,
                s1\<lparr>transfers := transfers s1
                     @ map (bulk_in_event K dat L P) [0..<Suc ((L - 1) div P)]\<rparr>)"
    by auto
  have L32: "L < 2 ^ 32" using assms(6) by simp
  have pos: "(0 :: u32) < of_nat L"
    using u32_less_of_nat [of 0 L] assms(5) L32 by simp
  show ?thesis
    unfolding bulkReadMulti_def assms(8)
    using assms(1,9) pos
    by (simp add: s1 l [unfolded ceiling_div [OF assms(5,3)]] sint_of_nat_u32 [OF assms(6)])
qed

subsection \<open>Connecting\<close>

lemma vendor_interface_Nil: "vendor_interface [] = None"
  by (simp add: vendor_interface_def)

lemma vendor_interface_skip: "vendor_interface ([] # ifs) = vendor_interface ifs"
  by (simp add: vendor_interface_def)

lemma vendor_interface_Cons:
  "vendor_interface ((d # alts) # ifs) = (if matching d then Some d else vendor_interface ifs)"
  by (simp add: vendor_interface_def)

lemma find_and_claim_eq:
  "find_and_claim h K ifs s =
     (case vendor_interface ifs of
        None \<Rightarrow> (LIBUSB_ERROR_NOT_FOUND, s)
      | Some d \<Rightarrow> claimInterface h d (HANTEK_EP_OUT K) (HANTEK_EP_IN K) s)"
  by (induction h K ifs s rule: find_and_claim.induct)
    (simp_all add: vendor_interface_Nil vendor_interface_skip vendor_interface_Cons
      matching_def bNumEndpoints_def)

lemma packet_size_snoc:
  "packet_size a (es @ [e]) =
     (if bEndpointAddress e = a then uint (wMaxPacketSize e) else packet_size a es)"
  by (simp add: packet_size_def)

lemma scan_endpoints_eq:
  "out \<noteq> inn \<Longrightarrow>
   scan_endpoints es out inn s =
     s\<lparr>outPacketLength :=
          (case filter (\<lambda>e. bEndpointAddress e = out) (rev es) of
             [] \<Rightarrow> outPacketLength s | e # r \<Rightarrow> uint (wMaxPacketSize e)),
       inPacketLength :=
          (case filter (\<lambda>e. bEndpointAddress e = inn) (rev es) of
             [] \<Rightarrow> inPacketLength s | e # r \<Rightarrow> uint (wMaxPacketSize e))\<rparr>"
proof (induction es arbitrary: s)
  case Nil
  then show ?case by simp
next
  case (Cons e es)
  show ?case
    unfolding scan_endpoints.simps Cons.IH [OF Cons.prems]
    using Cons.prems
    by (auto split: list.splits simp add: filter_empty_conv)
qed

lemma claimInterface_success:
  assumes "0 \<le> claim_result h" and "out \<noteq> inn"
  shows "claimInterface h d out inn s =
     (LIBUSB_SUCCESS,
      s\<lparr>interface := uint (bInterfaceNumber d),
        outPacketLength := packet_size out (endpoint d),
        inPacketLength := packet_size inn (endpoint d)\<rparr>)"
  using assms
  by (simp add: claimInterface_def scan_endpoints_eq packet_size_def Let_def split: list.splits)

lemma claimInterface_failure:
  "claim_result h < 0 \<Longrightarrow> claimInterface h d out inn s = (claim_result h, s)"
  by (simp add: claimInterface_def)

lemmas connect_eval =
  connectDevice_def needsFirmware_def isConnected_def find_and_claim.simps claimInterface_def
  scan_endpoints.simps bNumEndpoints_def example_interface_def example_host_def
  example_device_def example_hantek_def detached_device_def vendor_interface_def matching_def
  packet_size_def LIBUSB_SUCCESS_def LIBUSB_ERROR_NOT_FOUND_def LIBUSB_CLASS_VENDOR_SPEC_def
  Let_def

text \<open>
  Claim C8, as stated, on a session that is already connected: \<^verbatim>\<open>connectDevice\<close>
  returns true, although the host offers no interface that could be claimed.
\<close>

theorem connectDevice_already_connected_counterexample:
  "connectDevice \<lparr>open_result = 0, config = [], claim_result = 0\<rparr> example_hantek example_device
     = (True, None, example_device)"
  by (simp add: connect_eval)

text \<open>
  Claim C8, amended. \<^verbatim>\<open>connectDevice\<close> fails, leaving the error message and the
  session as they are, when the device's product or vendor identifier differs from the
  model's (\<^verbatim>\<open>needsFirmware\<close>), as it does while the device still carries its
  pre-firmware product identifier. When the session is already connected it returns
  success at once and opens and claims nothing. Otherwise it fails with a message made
  from the libusb error code when the device cannot be opened, when no interface has a
  vendor-specific first alternate setting with subclass 0, protocol 0 and exactly two
  endpoints (the code is then \<^verbatim>\<open>LIBUSB_ERROR_NOT_FOUND\<close>), or when claiming the first
  such interface fails; and it succeeds when that interface is claimed, having recorded
  the interface number and, for the OUT and the IN endpoint address, the maximum packet
  size of the interface's endpoint at that address (0 when there is none).
\<close>

theorem connectDevice_outcomes:
  "(needsFirmware s \<longrightarrow> connectDevice h K s = (False, None, s))
   \<and> (\<not> needsFirmware s \<and> isConnected s \<longrightarrow> connectDevice h K s = (True, None, s))
   \<and> (\<not> needsFirmware s \<and> \<not> isConnected s \<and> open_result h \<noteq> LIBUSB_SUCCESS \<longrightarrow>
        connectDevice h K s = (False, Some (CouldNotOpen (open_result h)), s))
   \<and> (\<not> needsFirmware s \<and> \<not> isConnected s \<and> open_result h = LIBUSB_SUCCESS
        \<and> vendor_interface (config h) = None \<longrightarrow>
        connectDevice h K s
          = (False, Some (InterfaceError LIBUSB_ERROR_NOT_FOUND), s\<lparr>handle := True\<rparr>))
   \<and> (\<not> needsFirmware s \<and> \<not> isConnected s \<and> open_result h = LIBUSB_SUCCESS
        \<and> vendor_interface (config h) = Some d \<and> claim_result h < 0 \<longrightarrow>
        connectDevice h K s
          = (False, Some (InterfaceError (claim_result h)), s\<lparr>handle := True\<rparr>))
   \<and> (\<not> needsFirmware s \<and> \<not> isConnected s \<and> open_result h = LIBUSB_SUCCESS
        \<and> vendor_interface (config h) = Some d \<and> 0 \<le> claim_result h
        \<and> HANTEK_EP_OUT K \<noteq> HANTEK_EP_IN K \<longrightarrow>
        connectDevice h K s
          = (True, None,
             s\<lparr>handle := True, interface := uint (bInterfaceNumber d),
               outPacketLength := packet_size (HANTEK_EP_OUT K) (endpoint d),
               inPacketLength := packet_size (HANTEK_EP_IN K) (endpoint d)\<rparr>))"
proof (intro conjI impI)
  assume "needsFirmware s"
  then show "connectDevice h K s = (False, None, s)"
    by (simp add: connectDevice_def)
next
  assume "\<not> needsFirmware s \<and> isConnected s"
  then show "connectDevice h K s = (True, None, s)"
    by (simp add: connectDevice_def)
next
  assume "\<not> needsFirmware s \<and> \<not> isConnected s \<and> open_result h \<noteq> LIBUSB_SUCCESS"
  then show "connectDevice h K s = (False, Some (CouldNotOpen (open_result h)), s)"
    by (simp add: connectDevice_def isConnected_def)
next
  assume "\<not> needsFirmware s \<and> \<not> isConnected s \<and> open_result h = LIBUSB_SUCCESS
        \<and> vendor_interface (config h) = None"
  then show "connectDevice h K s
          = (False, Some (InterfaceError LIBUSB_ERROR_NOT_FOUND), s\<lparr>handle := True\<rparr>)"
    by (simp add: connectDevice_def find_and_claim_eq LIBUSB_ERROR_NOT_FOUND_def
        LIBUSB_SUCCESS_def)
next
  assume "\<not> needsFirmware s \<and> \<not> isConnected s \<and> open_result h = LIBUSB_SUCCESS
        \<and> vendor_interface (config h) = Some d \<and> claim_result h < 0"
  then show "connectDevice h K s
          = (False, Some (InterfaceError (claim_result h)), s\<lparr>handle := True\<rparr>)"
    by (simp add: connectDevice_def find_and_claim_eq claimInterface_failure LIBUSB_SUCCESS_def)
next
  assume "\<not> needsFirmware s \<and> \<not> isConnected s \<and> open_result h = LIBUSB_SUCCESS
        \<and> vendor_interface (config h) = Some d \<and> 0 \<le> claim_result h
        \<and> HANTEK_EP_OUT K \<noteq> HANTEK_EP_IN K"
  then show "connectDevice h K s
          = (True, None,
             s\<lparr>handle := True, interface := uint (bInterfaceNumber d),
               outPacketLength := packet_size (HANTEK_EP_OUT K) (endpoint d),
               inPacketLength := packet_size (HANTEK_EP_IN K) (endpoint d)\<rparr>)"
    by (simp add: connectDevice_def find_and_claim_eq claimInterface_success)
qed

theorem connectDevice_outcomes_witness:
  "needsFirmware (detached_device\<lparr>descriptor_idProduct := 0x2151\<rparr>)
   \<and> connectDevice example_host example_hantek (detached_device\<lparr>descriptor_idProduct := 0x2151\<rparr>)
       = (False, None, detached_device\<lparr>descriptor_idProduct := 0x2151\<rparr>)
   \<and> \<not> needsFirmware example_device \<and> isConnected example_device
   \<and> connectDevice example_host example_hantek example_device = (True, None, example_device)
   \<and> \<not> needsFirmware detached_device \<and> \<not> isConnected detached_device
   \<and> open_result (example_host\<lparr>open_result := - 3\<rparr>) \<noteq> LIBUSB_SUCCESS
   \<and> connectDevice (example_host\<lparr>open_result := - 3\<rparr>) example_hantek detached_device
       = (False, Some (CouldNotOpen (- 3)), detached_device)
   \<and> open_result (example_host\<lparr>config := [[]]\<rparr>) = LIBUSB_SUCCESS
   \<and> vendor_interface (config (example_host\<lparr>config := [[]]\<rparr>)) = None
   \<and> connectDevice (example_host\<lparr>config := [[]]\<rparr>) example_hantek detached_device
       = (False, Some (InterfaceError LIBUSB_ERROR_NOT_FOUND), detached_device\<lparr>handle := True\<rparr>)
   \<and> open_result (example_host\<lparr>claim_result := - 6\<rparr>) = LIBUSB_SUCCESS
   \<and> vendor_interface (config (example_host\<lparr>claim_result := - 6\<rparr>)) = Some example_interface
   \<and> claim_result (example_host\<lparr>claim_result := - 6\<rparr>) < 0
   \<and> connectDevice (example_host\<lparr>claim_result := - 6\<rparr>) example_hantek detached_device
       = (False, Some (InterfaceError (- 6)), detached_device\<lparr>handle := True\<rparr>)
   \<and> open_result example_host = LIBUSB_SUCCESS
   \<and> vendor_interface (config example_host) = Some example_interface
   \<and> 0 \<le> claim_result example_host
   \<and> HANTEK_EP_OUT example_hantek \<noteq> HANTEK_EP_IN example_hantek
   \<and> connectDevice example_host example_hantek detached_device
       = (True, None,
          detached_device\<lparr>handle := True, interface := 0, outPacketLength := 64,
            inPacketLength := 512\<rparr>)"
proof -
  let ?fw = "detached_device\<lparr>descriptor_idProduct := 0x2151\<rparr>"
  have h1: "needsFirmware ?fw"
    by (simp add: connect_eval)
  have h2: "\<not> needsFirmware example_device" "isConnected example_device"
    by (simp_all add: connect_eval)
  have h3: "\<not> needsFirmware detached_device" "\<not> isConnected detached_device"
    by (simp_all add: connect_eval)
  have o: "open_result (example_host\<lparr>open_result := - 3\<rparr>) \<noteq> LIBUSB_SUCCESS"
    "open_result (example_host\<lparr>config := [[]]\<rparr>) = LIBUSB_SUCCESS"
    "open_result (example_host\<lparr>claim_result := - 6\<rparr>) = LIBUSB_SUCCESS"
    "open_result example_host = LIBUSB_SUCCESS"
    "open_result (example_host\<lparr>open_result := - 3\<rparr>) = - 3"
    by (simp_all add: connect_eval)
  have v: "vendor_interface (config (example_host\<lparr>config := [[]]\<rparr>)) = None"
    "vendor_interface (config (example_host\<lparr>claim_result := - 6\<rparr>)) = Some example_interface"
    "vendor_interface (config example_host) = Some example_interface"
    by (simp_all add: vendor_interface_def matching_def example_host_def example_interface_def
        LIBUSB_CLASS_VENDOR_SPEC_def)
  have c: "claim_result (example_host\<lparr>claim_result := - 6\<rparr>) < 0"
    "claim_result (example_host\<lparr>claim_result := - 6\<rparr>) = - 6"
    "0 \<le> claim_result example_host"
    "HANTEK_EP_OUT example_hantek \<noteq> HANTEK_EP_IN example_hantek"
    by (simp_all add: example_host_def example_hantek_def)
  have p: "uint (bInterfaceNumber example_interface) = 0"
    "packet_size (HANTEK_EP_OUT example_hantek) (endpoint example_interface) = 64"
    "packet_size (HANTEK_EP_IN example_hantek) (endpoint example_interface) = 512"
    by (simp_all add: packet_size_def example_interface_def example_hantek_def)
  have r1: "connectDevice example_host example_hantek ?fw = (False, None, ?fw)"
    using connectDevice_outcomes [of ?fw example_host example_hantek] h1 by blast
  have r2: "connectDevice example_host example_hantek example_device = (True, None, example_device)"
    using connectDevice_outcomes [of example_device example_host example_hantek] h2 by blast
  have r3: "connectDevice (example_host\<lparr>open_result := - 3\<rparr>) example_hantek detached_device
       = (False, Some (CouldNotOpen (- 3)), detached_device)"
    using connectDevice_outcomes [of detached_device "example_host\<lparr>open_result := - 3\<rparr>"
        example_hantek] h3 o(1)
    unfolding o(5) by blast
  have r4: "connectDevice (example_host\<lparr>config := [[]]\<rparr>) example_hantek detached_device
       = (False, Some (InterfaceError LIBUSB_ERROR_NOT_FOUND), detached_device\<lparr>handle := True\<rparr>)"
    using connectDevice_outcomes [of detached_device "example_host\<lparr>config := [[]]\<rparr>"
        example_hantek] h3 o(2) v(1)
    by blast
  have r5: "connectDevice (example_host\<lparr>claim_result := - 6\<rparr>) example_hantek detached_device
       = (False, Some (InterfaceError (- 6)), detached_device\<lparr>handle := True\<rparr>)"
    using connectDevice_outcomes [of detached_device "example_host\<lparr>claim_result := - 6\<rparr>"
        example_hantek example_interface] h3 o(3) v(2) c(1)
    unfolding c(2) by blast
  have r6: "connectDevice example_host example_hantek detached_device
       = (True, None,
          detached_device\<lparr>handle := True, interface := 0, outPacketLength := 64,
            inPacketLength := 512\<rparr>)"
    using connectDevice_outcomes [of detached_device example_host example_hantek example_interface]
      h3 o(4) v(3) c(3,4)
    unfolding p by blast
  from h1 h2 h3 o(1-4) v c(1,3,4) r1 r2 r3 r4 r5 r6 show ?thesis by blast
qed

end
